theory Spec2Isabelle
  imports Main
begin

section \<open>JavaScript values, errors and strings\<close>

text \<open>
  Values as \<^verbatim>\<open>JSON.parse\<close> and \<^verbatim>\<open>response.json()\<close> produce them, plus
  \<^verbatim>\<open>undefined\<close> for a missing property. Numbers are restricted to integers.
  An object is its list of own properties in insertion order, with distinct keys.
\<close>

datatype jv =
    JUndefined
  | JNull
  | JBool bool
  | JNum int
  | JStr string
  | JArr "jv list"
  | JObj "(string \<times> jv) list"

text \<open>A thrown JavaScript error object: its class name and its \<^verbatim>\<open>message\<close>.\<close>

datatype js_error = JsError (name: string) (message: string)

abbreviation Error :: "string \<Rightarrow> js_error" where
  "Error m \<equiv> JsError ''Error'' m"

abbreviation TypeError :: "string \<Rightarrow> js_error" where
  "TypeError m \<equiv> JsError ''TypeError'' m"

text \<open>Truthiness, as \<^verbatim>\<open>!x\<close>, \<^verbatim>\<open>x || y\<close> and \<^verbatim>\<open>if (x)\<close> read it.\<close>

fun truthy :: "jv \<Rightarrow> bool" where
  "truthy JUndefined = False"
| "truthy JNull = False"
| "truthy (JBool b) = b"
| "truthy (JNum n) = (n \<noteq> 0)"
| "truthy (JStr s) = (s \<noteq> [])"
| "truthy (JArr xs) = True"
| "truthy (JObj kvs) = True"

definition js_or :: "jv \<Rightarrow> jv \<Rightarrow> jv" where
  "js_or a b = (if truthy a then a else b)"

text \<open>
  Property read \<^verbatim>\<open>x.k\<close> for a key \<open>k\<close> that no prototype defines: a
  \<^verbatim>\<open>TypeError\<close> on \<^verbatim>\<open>null\<close> and \<^verbatim>\<open>undefined\<close>, the own property of an
  object, \<^verbatim>\<open>undefined\<close> on everything else. \<open>optProp\<close> is \<^verbatim>\<open>x?.k\<close>.
\<close>

fun lookupProp :: "(string \<times> jv) list \<Rightarrow> string \<Rightarrow> jv" where
  "lookupProp [] k = JUndefined"
| "lookupProp ((k', v) # kvs) k = (if k' = k then v else lookupProp kvs k)"

fun getProp :: "jv \<Rightarrow> string \<Rightarrow> js_error + jv" where
  "getProp JUndefined k = Inl (TypeError ''Cannot read properties of undefined'')"
| "getProp JNull k = Inl (TypeError ''Cannot read properties of null'')"
| "getProp (JObj kvs) k = Inr (lookupProp kvs k)"
| "getProp v k = Inr JUndefined"

fun optProp :: "jv \<Rightarrow> string \<Rightarrow> jv" where
  "optProp (JObj kvs) k = lookupProp kvs k"
| "optProp v k = JUndefined"

text \<open>Writing a property: in place when the key exists, appended otherwise.\<close>

fun setProp :: "(string \<times> jv) list \<Rightarrow> string \<Rightarrow> jv \<Rightarrow> (string \<times> jv) list" where
  "setProp [] k v = [(k, v)]"
| "setProp ((k', v') # kvs) k v = (if k' = k then (k, v) # kvs else (k', v') # setProp kvs k v)"

fun setProps :: "(string \<times> jv) list \<Rightarrow> (string \<times> jv) list \<Rightarrow> (string \<times> jv) list" where
  "setProps obj [] = obj"
| "setProps obj ((k, v) # kvs) = setProps (setProp obj k v) kvs"

text \<open>\<^verbatim>\<open>String.prototype.includes\<close> and \<^verbatim>\<open>toLowerCase\<close> (on ASCII letters; no other
  character lower-cases to a letter of \<^verbatim>\<open>ultra\<close> or \<^verbatim>\<open>pro\<close>).\<close>

fun str_includes :: "string \<Rightarrow> string \<Rightarrow> bool" where
  "str_includes [] sub = (sub = [])"
| "str_includes (c # cs) sub = (take (length sub) (c # cs) = sub \<or> str_includes cs sub)"

definition lowerChar :: "char \<Rightarrow> char" where
  "lowerChar c =
     (case map_of (zip ''ABCDEFGHIJKLMNOPQRSTUVWXYZ'' ''abcdefghijklmnopqrstuvwxyz'') c of
        Some l \<Rightarrow> l
      | None \<Rightarrow> c)"

definition toLowerCase :: "string \<Rightarrow> string" where
  "toLowerCase s = map lowerChar s"

text \<open>A number in a template literal: decimal digits, with a sign when negative.\<close>

definition digitChar :: "nat \<Rightarrow> char" where
  "digitChar d = ''0123456789'' ! d"

function showNat :: "nat \<Rightarrow> string" where
  "showNat n = (if n < 10 then [digitChar n] else showNat (n div 10) @ [digitChar (n mod 10)])"
  by pat_completeness auto
termination
  by (relation "measure id") auto

declare showNat.simps [simp del]

definition showInt :: "int \<Rightarrow> string" where
  "showInt i = (if i < 0 then CHR ''-'' # showNat (nat (- i)) else showNat (nat i))"

section \<open>HTTP responses\<close>

text \<open>
  A \<^verbatim>\<open>fetch\<close> response: the status, the body as \<^verbatim>\<open>response.text()\<close> reads it and
  as \<^verbatim>\<open>response.json()\<close> parses it (or the error that call throws).
  \<^verbatim>\<open>response.ok\<close> is the Fetch standard's: a status from 200 to 299.
\<close>

record response =
  status :: int
  body :: string
  jsonBody :: "js_error + jv"

definition ok :: "response \<Rightarrow> bool" where
  "ok r = (200 \<le> status r \<and> status r \<le> 299)"

section \<open>model-api.js: getSubscriptionTier\<close>

record tier_result =
  tier :: string
  projectId :: jv

text \<open>Lines 150-175: the project id and the tier, from the parsed body \<open>data\<close>.
  \<^verbatim>\<open>tierId.toLowerCase()\<close> throws a \<^verbatim>\<open>TypeError\<close> when the id is not a string.\<close>

definition extractProjectId :: "jv \<Rightarrow> js_error + jv" where
  "extractProjectId data =
     (case getProp data ''cloudaicompanionProject'' of
        Inl e \<Rightarrow> Inl e
      | Inr cp \<Rightarrow>
          (case cp of
             JStr s \<Rightarrow> Inr (JStr s)
           | _ \<Rightarrow> if truthy (optProp cp ''id'') then Inr (optProp cp ''id'') else Inr JNull))"

definition classifyTier :: "string \<Rightarrow> string" where
  "classifyTier tierId =
     (let lowerTier = toLowerCase tierId in
      if str_includes lowerTier ''ultra'' then ''ultra''
      else if str_includes lowerTier ''pro'' then ''pro''
      else ''free'')"

definition extractTier :: "jv \<Rightarrow> js_error + string" where
  "extractTier data =
     (case getProp data ''paidTier'' of
        Inl e \<Rightarrow> Inl e
      | Inr paidTier \<Rightarrow>
          (case getProp data ''currentTier'' of
             Inl e \<Rightarrow> Inl e
           | Inr currentTier \<Rightarrow>
               (let tierId = js_or (optProp paidTier ''id'') (optProp currentTier ''id'') in
                if truthy tierId then
                  (case tierId of
                     JStr s \<Rightarrow> Inr (classifyTier s)
                   | _ \<Rightarrow> Inl (TypeError ''tierId.toLowerCase is not a function''))
                else Inr ''free'')))"

definition extractSubscription :: "jv \<Rightarrow> js_error + tier_result" where
  "extractSubscription data =
     (case extractProjectId data of
        Inl e \<Rightarrow> Inl e
      | Inr p \<Rightarrow>
          (case extractTier data of
             Inl e \<Rightarrow> Inl e
           | Inr t \<Rightarrow> Inr \<lparr>tier = t, projectId = p\<rparr>))"

text \<open>The request of line 131: headers and body.\<close>

definition tierHeaders :: "(string \<times> jv) list \<Rightarrow> string \<Rightarrow> jv" where
  "tierHeaders ANTIGRAVITY_HEADERS token =
     JObj (setProps [(''Authorization'', JStr (''Bearer '' @ token)),
                     (''Content-Type'', JStr ''application/json'')] ANTIGRAVITY_HEADERS)"

definition loadCodeAssistBody :: jv where
  "loadCodeAssistBody =
     JObj [(''metadata'', JObj [(''ideType'', JStr ''IDE_UNSPECIFIED''),
                                (''platform'', JStr ''PLATFORM_UNSPECIFIED''),
                                (''pluginType'', JStr ''GEMINI'')])]"

text \<open>
  One pass of the body of the loop of line 128, inside its \<^verbatim>\<open>try\<close>: \<open>Inl\<close> is an
  error thrown there, \<open>Inr None\<close> the \<^verbatim>\<open>continue\<close>, \<open>Inr (Some r)\<close> the
  \<^verbatim>\<open>return\<close>. The network is a function \<open>fetch\<close> of the URL, the headers, the body
  and the state of the world \<open>'w\<close>, giving a response or the error it throws.
\<close>

type_synonym 'w fetch_fn = "string \<Rightarrow> jv \<Rightarrow> jv \<Rightarrow> 'w \<Rightarrow> (js_error + response) \<times> 'w"

definition tryTierEndpoint ::
  "'w fetch_fn \<Rightarrow> jv \<Rightarrow> string \<Rightarrow> 'w \<Rightarrow> (js_error + tier_result option) \<times> 'w" where
  "tryTierEndpoint fetch headers endpoint w =
     (let url = endpoint @ ''/v1internal:loadCodeAssist'' in
      case fetch url headers loadCodeAssistBody w of
        (Inl e, w1) \<Rightarrow> (Inl e, w1)
      | (Inr resp, w1) \<Rightarrow>
          if \<not> ok resp then (Inr None, w1)
          else
            (case jsonBody resp of
               Inl e \<Rightarrow> (Inl e, w1)
             | Inr data \<Rightarrow>
                 (case extractSubscription data of
                    Inl e \<Rightarrow> (Inl e, w1)
                  | Inr r \<Rightarrow> (Inr (Some r), w1))))"

text \<open>The loop over the endpoints; its \<^verbatim>\<open>catch\<close> logs and goes on to the next
  endpoint. After the loop: the default of line 183. The result type \<open>js_error + _\<close>
  keeps a place for an error that would escape the function.\<close>

fun tierLoop ::
  "'w fetch_fn \<Rightarrow> jv \<Rightarrow> string list \<Rightarrow> 'w \<Rightarrow> (js_error + tier_result) \<times> 'w" where
  "tierLoop fetch headers [] w = (Inr \<lparr>tier = ''free'', projectId = JNull\<rparr>, w)"
| "tierLoop fetch headers (endpoint # rest) w =
     (case tryTierEndpoint fetch headers endpoint w of
        (Inl e, w1) \<Rightarrow> tierLoop fetch headers rest w1
      | (Inr None, w1) \<Rightarrow> tierLoop fetch headers rest w1
      | (Inr (Some r), w1) \<Rightarrow> (Inr r, w1))"

definition getSubscriptionTier ::
  "string list \<Rightarrow> (string \<times> jv) list \<Rightarrow> 'w fetch_fn \<Rightarrow> string \<Rightarrow> 'w
     \<Rightarrow> (js_error + tier_result) \<times> 'w" where
  "getSubscriptionTier ANTIGRAVITY_ENDPOINT_FALLBACKS ANTIGRAVITY_HEADERS fetch token w =
     tierLoop fetch (tierHeaders ANTIGRAVITY_HEADERS token) ANTIGRAVITY_ENDPOINT_FALLBACKS w"

text \<open>An endpoint fails when the call throws, answers with a status that is not ok, or
  its body does not parse into a subscription.\<close>

definition endpointFails :: "js_error + response \<Rightarrow> bool" where
  "endpointFails x =
     (case x of
        Inl e \<Rightarrow> True
      | Inr resp \<Rightarrow>
          (if ok resp then
             (case jsonBody resp of
                Inl e \<Rightarrow> True
              | Inr data \<Rightarrow> (case extractSubscription data of Inl e \<Rightarrow> True | Inr r \<Rightarrow> False))
           else True))"

section \<open>Account storage: loadAccounts and loadAccountsFromEnv\<close>

text \<open>Sequencing of steps that may throw: \<open>Inl\<close> is the error thrown.\<close>

definition bindE :: "'e + 'a \<Rightarrow> ('a \<Rightarrow> 'e + 'b) \<Rightarrow> 'e + 'b" where
  "bindE x f = (case x of Inl e \<Rightarrow> Inl e | Inr v \<Rightarrow> f v)"

fun mapE :: "('a \<Rightarrow> 'e + 'b) \<Rightarrow> 'a list \<Rightarrow> 'e + 'b list" where
  "mapE f [] = Inr []"
| "mapE f (x # xs) = bindE (f x) (\<lambda>y. bindE (mapE f xs) (\<lambda>ys. Inr (y # ys)))"

text \<open>The own enumerable properties an object spread \<^verbatim>\<open>{...x}\<close> copies: those of an
  object, the indices of an array or a string, none of anything else
  (\<^verbatim>\<open>null\<close> included).\<close>

fun spreadProps :: "jv \<Rightarrow> (string \<times> jv) list" where
  "spreadProps (JObj kvs) = kvs"
| "spreadProps (JArr xs) = zip (map showNat [0..<length xs]) xs"
| "spreadProps (JStr s) = zip (map showNat [0..<length s]) (map (\<lambda>c. JStr [c]) s)"
| "spreadProps v = []"

text \<open>Lines 27-38 of the storage module: the record built for one stored account.\<close>

definition defaultSubscription :: jv where
  "defaultSubscription =
     JObj [(''tier'', JStr ''unknown''), (''projectId'', JNull), (''detectedAt'', JNull)]"

definition defaultQuota :: jv where
  "defaultQuota = JObj [(''models'', JObj []), (''lastChecked'', JNull)]"

definition loadAccount :: "jv \<Rightarrow> js_error + jv" where
  "loadAccount acc =
     bindE (getProp acc ''lastUsed'') (\<lambda>lastUsed.
     bindE (getProp acc ''enabled'') (\<lambda>enabled.
     bindE (getProp acc ''modelRateLimits'') (\<lambda>modelRateLimits.
     bindE (getProp acc ''subscription'') (\<lambda>subscription.
     bindE (getProp acc ''quota'') (\<lambda>quota.
       Inr (JObj (setProps (spreadProps acc)
         [(''lastUsed'', js_or lastUsed JNull),
          (''enabled'', JBool (enabled \<noteq> JBool False)),
          (''isInvalid'', JBool False),
          (''invalidReason'', JNull),
          (''modelRateLimits'', js_or modelRateLimits (JObj [])),
          (''subscription'', js_or subscription defaultSubscription),
          (''quota'', js_or quota defaultQuota)])))))))"

text \<open>\<^verbatim>\<open>(config.accounts || []).map(...)\<close>: calling \<^verbatim>\<open>map\<close> on a truthy value that
  is not an array throws a \<^verbatim>\<open>TypeError\<close>.\<close>

definition mapAccounts :: "jv \<Rightarrow> js_error + jv list" where
  "mapAccounts v =
     (case js_or v (JArr []) of
        JArr accs \<Rightarrow> mapE loadAccount accs
      | _ \<Rightarrow> Inl (TypeError ''map is not a function''))"

text \<open>
  \<^verbatim>\<open>loadAccounts\<close>, its \<^verbatim>\<open>accounts\<close> component (\<^verbatim>\<open>settings\<close> and
  \<^verbatim>\<open>activeIndex\<close> do not influence it). \<open>file\<close> is what \<^verbatim>\<open>access\<close> and
  \<^verbatim>\<open>readFile\<close> give: the text, or the error thrown (\<^verbatim>\<open>ENOENT\<close> or any other);
  \<open>JSON_parse\<close> is \<^verbatim>\<open>JSON.parse\<close>. Every error is caught at line 51 and the
  result is the empty list.
\<close>

definition loadAccounts :: "(string \<Rightarrow> js_error + jv) \<Rightarrow> js_error + string \<Rightarrow> jv list" where
  "loadAccounts JSON_parse file =
     (case bindE file (\<lambda>configData.
             bindE (JSON_parse configData) (\<lambda>config.
             bindE (getProp config ''accounts'') mapAccounts)) of
        Inl error \<Rightarrow> []
      | Inr accounts \<Rightarrow> accounts)"

text \<open>
  \<^verbatim>\<open>loadAccountsFromEnv\<close>. One pass of the loop of line 117: \<open>Inl\<close> an error
  thrown, \<open>Inr None\<close> a \<^verbatim>\<open>continue\<close>, \<open>Inr (Some a)\<close> the account pushed.
  \<open>addedAt\<close> is \<^verbatim>\<open>new Date().toISOString()\<close>.
\<close>

definition envAccount :: "string \<Rightarrow> jv \<Rightarrow> js_error + jv option" where
  "envAccount addedAt acc =
     bindE (getProp acc ''email'') (\<lambda>email.
       if \<not> truthy email then Inr None
       else
         bindE (getProp acc ''refresh_token'') (\<lambda>refresh_token.
         bindE (getProp acc ''refreshToken'') (\<lambda>refreshToken'.
         bindE (getProp acc ''api_key'') (\<lambda>api_key.
         bindE (getProp acc ''apiKey'') (\<lambda>apiKey'.
           let refreshToken = js_or refresh_token refreshToken';
               apiKey = js_or api_key apiKey'
           in
             if \<not> truthy refreshToken \<and> \<not> truthy apiKey then Inr None
             else Inr (Some (JObj
               [(''email'', email),
                (''source'', JStr (if truthy apiKey then ''manual'' else ''oauth'')),
                (''refreshToken'', refreshToken),
                (''apiKey'', apiKey),
                (''enabled'', JBool True),
                (''isInvalid'', JBool False),
                (''invalidReason'', JNull),
                (''modelRateLimits'', JObj []),
                (''lastUsed'', JNull),
                (''addedAt'', JStr addedAt),
                (''fromEnv'', JBool True)])))))))"

text \<open>The loop; \<open>clock n\<close> is the time read when \<open>n\<close> accounts have been pushed.\<close>

fun envLoop :: "(nat \<Rightarrow> string) \<Rightarrow> jv list \<Rightarrow> jv list \<Rightarrow> js_error + jv list" where
  "envLoop clock [] accounts = Inr accounts"
| "envLoop clock (acc # rest) accounts =
     (case envAccount (clock (length accounts)) acc of
        Inl e \<Rightarrow> Inl e
      | Inr None \<Rightarrow> envLoop clock rest accounts
      | Inr (Some a) \<Rightarrow> envLoop clock rest (accounts @ [a]))"

text \<open>\<open>envAccounts\<close> is \<^verbatim>\<open>process.env.PROXY_ACCOUNTS\<close>: unset, or a string. The
  result type keeps a place for an error that would escape the function.\<close>

definition loadAccountsFromEnv ::
  "(string \<Rightarrow> js_error + jv) \<Rightarrow> (nat \<Rightarrow> string) \<Rightarrow> string option \<Rightarrow> js_error + jv list" where
  "loadAccountsFromEnv JSON_parse clock envAccounts =
     (case envAccounts of
        None \<Rightarrow> Inr []
      | Some s \<Rightarrow>
          if s = [] then Inr []
          else
            (case bindE (JSON_parse s) (\<lambda>parsed.
                    case parsed of
                      JArr entries \<Rightarrow> envLoop clock entries []
                    | _ \<Rightarrow> Inr []) of
               Inl error \<Rightarrow> Inr []
             | Inr accounts \<Rightarrow> Inr accounts))"

text \<open>An entry "has an email and at least one of refresh token or API key".\<close>

definition entryApiKey :: "jv \<Rightarrow> jv" where
  "entryApiKey acc = js_or (optProp acc ''api_key'') (optProp acc ''apiKey'')"

definition entryRefreshToken :: "jv \<Rightarrow> jv" where
  "entryRefreshToken acc = js_or (optProp acc ''refresh_token'') (optProp acc ''refreshToken'')"

definition entryComplete :: "jv \<Rightarrow> bool" where
  "entryComplete acc =
     (truthy (optProp acc ''email'') \<and>
      (truthy (entryRefreshToken acc) \<or> truthy (entryApiKey acc)))"

text \<open>The stored record \<open>acc\<close> as the loaded account \<open>a\<close> keeps it: the email and
  the source as stored, \<^verbatim>\<open>enabled\<close> true unless stored \<^verbatim>\<open>false\<close>, the stored
  \<^verbatim>\<open>modelRateLimits\<close> (\<^verbatim>\<open>{}\<close> when missing or falsy).\<close>

definition storedAs :: "jv \<Rightarrow> jv \<Rightarrow> bool" where
  "storedAs acc a =
     (optProp a ''email'' = optProp acc ''email'' \<and>
      optProp a ''source'' = optProp acc ''source'' \<and>
      optProp a ''enabled'' = JBool (optProp acc ''enabled'' \<noteq> JBool False) \<and>
      optProp a ''modelRateLimits'' = js_or (optProp acc ''modelRateLimits'') (JObj []))"

text \<open>The account \<open>a\<close> pushed for the entry \<open>acc\<close>, and the fixed fields of every
  account loaded from the environment.\<close>

definition envAccountOf :: "jv \<Rightarrow> jv \<Rightarrow> bool" where
  "envAccountOf acc a =
     (optProp a ''email'' = optProp acc ''email'' \<and>
      optProp a ''source'' = JStr (if truthy (entryApiKey acc) then ''manual'' else ''oauth'') \<and>
      optProp a ''refreshToken'' = entryRefreshToken acc \<and>
      optProp a ''apiKey'' = entryApiKey acc)"

definition envDefaults :: "jv \<Rightarrow> bool" where
  "envDefaults a =
     (optProp a ''enabled'' = JBool True \<and>
      optProp a ''isInvalid'' = JBool False \<and>
      optProp a ''modelRateLimits'' = JObj [] \<and>
      optProp a ''source'' = JStr (if truthy (optProp a ''apiKey'') then ''manual'' else ''oauth''))"

section \<open>streaming-handler.js: the environment of sendMessageStream\<close>

text \<open>
  The request: \<^verbatim>\<open>anthropicRequest.model\<close> and everything else of the request.
  An account of the account manager: \<^verbatim>\<open>account.email\<close> and its other properties.
\<close>

record anthropic_request =
  model :: string
  params :: jv

record account =
  email :: string
  details :: jv

text \<open>
  What the handler does to the outside, in the order it does it: the events it yields,
  the pauses, the calls to the account manager that select or change state, the requests
  sent. \<open>WarnFallback\<close> is the warning logged at lines 94 and 292, right before the
  nested call with the fallback model; other log lines are left out.
\<close>

datatype effect =
    Yield jv
  | Sleep int
  | PickStickyAccount string
  | GetCurrentStickyAccount string
  | PickNext string
  | ClearExpiredLimits
  | ResetAllRateLimits
  | MarkRateLimited string "int option" string
  | ClearTokenCache string
  | ClearProjectCache string
  | GetTokenForAccount account
  | GetProjectForAccount account string
  | Fetch string jv jv
  | WarnFallback string string

text \<open>
  The state: the world \<open>'w\<close> outside the handler (the account manager's data, the
  network, the clock, the random source) and the trace of effects so far.
\<close>

record 'w st =
  world :: 'w
  trace :: "effect list"

text \<open>
  Everything \<^verbatim>\<open>sendMessageStream\<close> imports or receives and that is not in the
  sources: the constants, the error classifiers, the helpers, the network, the stream
  reader and the account manager. An operation that changes something takes the world
  and returns the new one; one that may throw returns \<open>Inl\<close> of the error.
  \<open>streamSSEResponse\<close> gives the events the generator yields and the error it ends
  with, if any. \<open>parseResetTime\<close> gives \<^verbatim>\<open>null\<close> (\<open>None\<close>) or a number;
  \<open>getFallbackModel\<close> gives \<^verbatim>\<open>null\<close> (\<open>None\<close>) or a string.
\<close>

record 'w env =
  ANTIGRAVITY_ENDPOINT_FALLBACKS :: "string list"
  MAX_RETRIES :: int
  MAX_EMPTY_RESPONSE_RETRIES :: int
  MAX_WAIT_BEFORE_ERROR_MS :: int
  isRateLimitError :: "js_error \<Rightarrow> bool"
  isAuthError :: "js_error \<Rightarrow> bool"
  isEmptyResponseError :: "js_error \<Rightarrow> bool"
  isNetworkError :: "js_error \<Rightarrow> bool"
  formatDuration :: "int \<Rightarrow> string"
  toISOString :: "int \<Rightarrow> string"
  now :: "'w \<Rightarrow> int"
  sleep :: "int \<Rightarrow> 'w \<Rightarrow> 'w"
  parseResetTime :: "response \<Rightarrow> string \<Rightarrow> int option"
  buildCloudCodeRequest :: "anthropic_request \<Rightarrow> string \<Rightarrow> js_error + jv"
  buildHeaders :: "string \<Rightarrow> string \<Rightarrow> string \<Rightarrow> jv"
  fetch :: "string \<Rightarrow> jv \<Rightarrow> jv \<Rightarrow> 'w \<Rightarrow> (js_error + response) \<times> 'w"
  streamSSEResponse :: "response \<Rightarrow> string \<Rightarrow> 'w \<Rightarrow> (jv list \<times> js_error option) \<times> 'w"
  getFallbackModel :: "string \<Rightarrow> string option"
  randomBytesHex :: "'w \<Rightarrow> string \<times> 'w"
  getAccountCount :: "'w \<Rightarrow> int"
  pickStickyAccount :: "string \<Rightarrow> 'w \<Rightarrow> (account option \<times> int) \<times> 'w"
  clearExpiredLimits :: "'w \<Rightarrow> 'w"
  getCurrentStickyAccount :: "string \<Rightarrow> 'w \<Rightarrow> account option \<times> 'w"
  isAllRateLimited :: "string \<Rightarrow> 'w \<Rightarrow> bool"
  getMinWaitTimeMs :: "string \<Rightarrow> 'w \<Rightarrow> int"
  pickNext :: "string \<Rightarrow> 'w \<Rightarrow> account option \<times> 'w"
  resetAllRateLimits :: "'w \<Rightarrow> 'w"
  getTokenForAccount :: "account \<Rightarrow> 'w \<Rightarrow> (js_error + string) \<times> 'w"
  getProjectForAccount :: "account \<Rightarrow> string \<Rightarrow> 'w \<Rightarrow> (js_error + string) \<times> 'w"
  clearTokenCache :: "string \<Rightarrow> 'w \<Rightarrow> 'w"
  clearProjectCache :: "string \<Rightarrow> 'w \<Rightarrow> 'w"
  markRateLimited :: "string \<Rightarrow> int option \<Rightarrow> string \<Rightarrow> 'w \<Rightarrow> 'w"

text \<open>Each call, recorded in the trace and applied to the world.\<close>

definition act :: "effect \<Rightarrow> ('w \<Rightarrow> 'w) \<Rightarrow> 'w st \<Rightarrow> 'w st" where
  "act e f s = \<lparr>world = f (world s), trace = trace s @ [e]\<rparr>"

definition call :: "effect \<Rightarrow> ('w \<Rightarrow> 'a \<times> 'w) \<Rightarrow> 'w st \<Rightarrow> 'a \<times> 'w st" where
  "call e f s = (case f (world s) of (r, w) \<Rightarrow> (r, \<lparr>world = w, trace = trace s @ [e]\<rparr>))"

definition yieldAll :: "jv list \<Rightarrow> 'w st \<Rightarrow> 'w st" where
  "yieldAll evs s = \<lparr>world = world s, trace = trace s @ map Yield evs\<rparr>"

definition do_sleep :: "'w env \<Rightarrow> int \<Rightarrow> 'w st \<Rightarrow> 'w st" where
  "do_sleep env ms = act (Sleep ms) (sleep env ms)"

definition do_clearExpiredLimits :: "'w env \<Rightarrow> 'w st \<Rightarrow> 'w st" where
  "do_clearExpiredLimits env = act ClearExpiredLimits (clearExpiredLimits env)"

definition do_resetAllRateLimits :: "'w env \<Rightarrow> 'w st \<Rightarrow> 'w st" where
  "do_resetAllRateLimits env = act ResetAllRateLimits (resetAllRateLimits env)"

definition do_markRateLimited ::
  "'w env \<Rightarrow> string \<Rightarrow> int option \<Rightarrow> string \<Rightarrow> 'w st \<Rightarrow> 'w st" where
  "do_markRateLimited env em resetMs m =
     act (MarkRateLimited em resetMs m) (markRateLimited env em resetMs m)"

definition do_clearTokenCache :: "'w env \<Rightarrow> string \<Rightarrow> 'w st \<Rightarrow> 'w st" where
  "do_clearTokenCache env em = act (ClearTokenCache em) (clearTokenCache env em)"

definition do_clearProjectCache :: "'w env \<Rightarrow> string \<Rightarrow> 'w st \<Rightarrow> 'w st" where
  "do_clearProjectCache env em = act (ClearProjectCache em) (clearProjectCache env em)"

definition do_pickStickyAccount ::
  "'w env \<Rightarrow> string \<Rightarrow> 'w st \<Rightarrow> (account option \<times> int) \<times> 'w st" where
  "do_pickStickyAccount env m = call (PickStickyAccount m) (pickStickyAccount env m)"

definition do_getCurrentStickyAccount ::
  "'w env \<Rightarrow> string \<Rightarrow> 'w st \<Rightarrow> account option \<times> 'w st" where
  "do_getCurrentStickyAccount env m =
     call (GetCurrentStickyAccount m) (getCurrentStickyAccount env m)"

definition do_pickNext :: "'w env \<Rightarrow> string \<Rightarrow> 'w st \<Rightarrow> account option \<times> 'w st" where
  "do_pickNext env m = call (PickNext m) (pickNext env m)"

definition do_getTokenForAccount ::
  "'w env \<Rightarrow> account \<Rightarrow> 'w st \<Rightarrow> (js_error + string) \<times> 'w st" where
  "do_getTokenForAccount env a = call (GetTokenForAccount a) (getTokenForAccount env a)"

definition do_getProjectForAccount ::
  "'w env \<Rightarrow> account \<Rightarrow> string \<Rightarrow> 'w st \<Rightarrow> (js_error + string) \<times> 'w st" where
  "do_getProjectForAccount env a tok =
     call (GetProjectForAccount a tok) (getProjectForAccount env a tok)"

definition do_fetch ::
  "'w env \<Rightarrow> string \<Rightarrow> jv \<Rightarrow> jv \<Rightarrow> 'w st \<Rightarrow> (js_error + response) \<times> 'w st" where
  "do_fetch env url hdrs payload = call (Fetch url hdrs payload) (fetch env url hdrs payload)"

text \<open>\<^verbatim>\<open>yield* streamSSEResponse(response, model)\<close>: the events pass through, then
  the generator returns (\<open>None\<close>) or throws.\<close>

definition do_stream ::
  "'w env \<Rightarrow> response \<Rightarrow> string \<Rightarrow> 'w st \<Rightarrow> js_error option \<times> 'w st" where
  "do_stream env resp m s =
     (case streamSSEResponse env resp m (world s) of
        ((evs, r), w) \<Rightarrow> (r, \<lparr>world = w, trace = trace s @ map Yield evs\<rparr>))"

section \<open>streaming-handler.js: emitEmptyResponseFallback\<close>

text \<open>The six events of lines 311-345, for the message id drawn at line 309.\<close>

definition fallbackEvents :: "string \<Rightarrow> string \<Rightarrow> jv list" where
  "fallbackEvents m messageId =
     [JObj [(''type'', JStr ''message_start''),
            (''message'', JObj [(''id'', JStr messageId),
                                (''type'', JStr ''message''),
                                (''role'', JStr ''assistant''),
                                (''content'', JArr []),
                                (''model'', JStr m),
                                (''stop_reason'', JNull),
                                (''stop_sequence'', JNull),
                                (''usage'', JObj [(''input_tokens'', JNum 0),
                                                  (''output_tokens'', JNum 0)])])],
      JObj [(''type'', JStr ''content_block_start''),
            (''index'', JNum 0),
            (''content_block'', JObj [(''type'', JStr ''text''), (''text'', JStr [])])],
      JObj [(''type'', JStr ''content_block_delta''),
            (''index'', JNum 0),
            (''delta'', JObj [(''type'', JStr ''text_delta''),
                              (''text'', JStr ''[No response after retries - please try again]'')])],
      JObj [(''type'', JStr ''content_block_stop''), (''index'', JNum 0)],
      JObj [(''type'', JStr ''message_delta''),
            (''delta'', JObj [(''stop_reason'', JStr ''end_turn''), (''stop_sequence'', JNull)]),
            (''usage'', JObj [(''output_tokens'', JNum 0)])],
      JObj [(''type'', JStr ''message_stop'')]]"

definition emitEmptyResponseFallback :: "'w env \<Rightarrow> string \<Rightarrow> 'w st \<Rightarrow> 'w st" where
  "emitEmptyResponseFallback env m s =
     (case randomBytesHex env (world s) of
        (hex, w) \<Rightarrow>
          (let messageId = ''msg_'' @ hex
           in yieldAll (fallbackEvents m messageId) \<lparr>world = w, trace = trace s\<rparr>))"

section \<open>streaming-handler.js: sendMessageStream\<close>

text \<open>
  How a block of the generator ends: it returns, it throws, or it runs to its end and
  control goes on (\<open>Next\<close>: the next endpoint, the next attempt). \<open>OutOfFuel\<close>
  stands for a run of the empty-response loop that has not ended within the fuel given:
  line 215 takes back the loop's increment, so that loop has no bound of its own.
\<close>

datatype flow = Return | Throw js_error | Next | OutOfFuel

text \<open>\<^verbatim>\<open>lastError\<close>: \<^verbatim>\<open>null\<close>, the record of line 142, or an error object.\<close>

datatype last_error =
    NoError
  | Is429 response string "int option"
  | Caught js_error

fun is429 :: "last_error \<Rightarrow> bool" where
  "is429 (Is429 resp errorText resetMs) = True"
| "is429 le = False"

text \<open>A reset time is truthy when it is neither \<^verbatim>\<open>null\<close> nor 0.\<close>

fun truthyMs :: "int option \<Rightarrow> bool" where
  "truthyMs None = False"
| "truthyMs (Some n) = (n \<noteq> 0)"

text \<open>Line 141: whether the 429 just received replaces \<^verbatim>\<open>lastError\<close>.\<close>

fun keeps429 :: "last_error \<Rightarrow> int option \<Rightarrow> bool" where
  "keeps429 (Is429 resp errorText lastMs) resetMs =
     (case resetMs of
        None \<Rightarrow> False
      | Some r \<Rightarrow> r \<noteq> 0 \<and> (case lastMs of None \<Rightarrow> True | Some l \<Rightarrow> l = 0 \<or> r < l))"
| "keeps429 le resetMs = True"

text \<open>
  Lines 162-233, the empty-response retry loop for one endpoint, from
  \<^verbatim>\<open>emptyRetries\<close> and \<^verbatim>\<open>currentResponse\<close> on. \<open>fuel\<close> bounds how often the
  5xx branch may take back the increment (line 215) and go round again.
\<close>

function emptyRetryLoop ::
  "'w env \<Rightarrow> nat \<Rightarrow> string \<Rightarrow> string \<Rightarrow> string \<Rightarrow> jv \<Rightarrow> account \<Rightarrow> int \<Rightarrow> response
     \<Rightarrow> 'w st \<Rightarrow> flow \<times> 'w st" where
  "emptyRetryLoop env fuel url token m payload acct emptyRetries currentResponse s =
     (if emptyRetries \<le> MAX_EMPTY_RESPONSE_RETRIES env then
        (case do_stream env currentResponse m s of
           (None, s1) \<Rightarrow> (Return, s1)
         | (Some streamError, s1) \<Rightarrow>
             if \<not> isEmptyResponseError env streamError then (Throw streamError, s1)
             else if emptyRetries \<ge> MAX_EMPTY_RESPONSE_RETRIES env then
               (Return, emitEmptyResponseFallback env m s1)
             else
               (let backoffMs = 500 * 2 ^ nat emptyRetries;
                    s2 = do_sleep env backoffMs s1
                in case do_fetch env url (buildHeaders env token m ''text/event-stream'') payload s2 of
                     (Inl e, s3) \<Rightarrow> (Throw e, s3)
                   | (Inr resp, s3) \<Rightarrow>
                       if \<not> ok resp then
                         (let retryErrorText = body resp in
                          if status resp = 429 then
                            (let resetMs = parseResetTime env resp retryErrorText;
                                 s4 = do_markRateLimited env (email acct) resetMs m s3
                             in (Throw (Error (''429 RESOURCE_EXHAUSTED during retry: '' @ retryErrorText)), s4))
                          else if status resp = 401 then
                            (let s4 = do_clearTokenCache env (email acct) s3;
                                 s5 = do_clearProjectCache env (email acct) s4
                             in (Throw (Error (''401 AUTH_INVALID during retry: '' @ retryErrorText)), s5))
                          else if status resp \<ge> 500 then
                            (let s4 = do_sleep env 1000 s3
                             in case do_fetch env url (buildHeaders env token m ''text/event-stream'') payload s4 of
                                  (Inl e, s5) \<Rightarrow> (Throw e, s5)
                                | (Inr resp2, s5) \<Rightarrow>
                                    if ok resp2 then
                                      (case fuel of
                                         0 \<Rightarrow> (OutOfFuel, s5)
                                       | Suc fuel' \<Rightarrow>
                                           emptyRetryLoop env fuel' url token m payload acct
                                             (emptyRetries - 1 + 1) resp2 s5)
                                    else
                                      (Throw (Error (''Empty response retry failed: '' @
                                         showInt (status resp2) @ '' - '' @ retryErrorText)), s5))
                          else
                            (Throw (Error (''Empty response retry failed: '' @
                               showInt (status resp) @ '' - '' @ retryErrorText)), s3))
                       else
                         emptyRetryLoop env fuel url token m payload acct (emptyRetries + 1) resp s3))
      else (Next, s))"
  by pat_completeness auto
termination
  by (relation "measures [\<lambda>(env, fuel, url, token, m, payload, acct, emptyRetries, r, s). fuel,
                          \<lambda>(env, fuel, url, token, m, payload, acct, emptyRetries, r, s).
                             nat (MAX_EMPTY_RESPONSE_RETRIES env + 1 - emptyRetries)]")
    auto

declare emptyRetryLoop.simps [simp del]

text \<open>
  Lines 117-233, the \<^verbatim>\<open>try\<close> block for one endpoint, with the \<^verbatim>\<open>lastError\<close> it
  leaves. \<open>Next\<close> is a \<^verbatim>\<open>continue\<close> (or the end of the block).
\<close>

definition tryEndpoint ::
  "'w env \<Rightarrow> nat \<Rightarrow> anthropic_request \<Rightarrow> account \<Rightarrow> string \<Rightarrow> jv \<Rightarrow> last_error \<Rightarrow> string
     \<Rightarrow> 'w st \<Rightarrow> flow \<times> last_error \<times> 'w st" where
  "tryEndpoint env fuel req acct token payload lastError endpoint s =
     (let url = endpoint @ ''/v1internal:streamGenerateContent?alt=sse''
      in case do_fetch env url (buildHeaders env token (model req) ''text/event-stream'') payload s of
           (Inl e, s1) \<Rightarrow> (Throw e, lastError, s1)
         | (Inr resp, s1) \<Rightarrow>
             if \<not> ok resp then
               (let errorText = body resp in
                if status resp = 401 then
                  (let s2 = do_clearTokenCache env (email acct) s1;
                       s3 = do_clearProjectCache env (email acct) s2
                   in (Next, lastError, s3))
                else if status resp = 429 then
                  (let resetMs = parseResetTime env resp errorText
                   in if keeps429 lastError resetMs
                      then (Next, Is429 resp errorText resetMs, s1)
                      else (Next, lastError, s1))
                else
                  (let lastError' = Caught (Error (''API error '' @ showInt (status resp) @
                                       '': '' @ errorText))
                   in if status resp \<ge> 500
                      then (Next, lastError', do_sleep env 1000 s1)
                      else (Next, lastError', s1)))
             else
               (case emptyRetryLoop env fuel url token (model req) payload acct 0 resp s1 of
                  (fl, s2) \<Rightarrow> (fl, lastError, s2)))"

text \<open>Lines 247-256, after the loop over the endpoints.\<close>

definition afterEndpoints ::
  "'w env \<Rightarrow> anthropic_request \<Rightarrow> account \<Rightarrow> last_error \<Rightarrow> 'w st \<Rightarrow> flow \<times> 'w st" where
  "afterEndpoints env req acct lastError s =
     (case lastError of
        NoError \<Rightarrow> (Next, s)
      | Is429 resp errorText resetMs \<Rightarrow>
          (let s1 = do_markRateLimited env (email acct) resetMs (model req) s
           in (Throw (Error (''Rate limited: '' @ errorText)), s1))
      | Caught e \<Rightarrow> (Throw e, s))"

text \<open>Lines 115-245, the loop over the endpoints with its \<^verbatim>\<open>catch\<close>, then lines
  247-256.\<close>

fun endpointLoop ::
  "'w env \<Rightarrow> nat \<Rightarrow> anthropic_request \<Rightarrow> account \<Rightarrow> string \<Rightarrow> jv \<Rightarrow> last_error
     \<Rightarrow> string list \<Rightarrow> 'w st \<Rightarrow> flow \<times> 'w st" where
  "endpointLoop env fuel req acct token payload lastError [] s =
     afterEndpoints env req acct lastError s"
| "endpointLoop env fuel req acct token payload lastError (endpoint # rest) s =
     (case tryEndpoint env fuel req acct token payload lastError endpoint s of
        (Return, le, s1) \<Rightarrow> (Return, s1)
      | (OutOfFuel, le, s1) \<Rightarrow> (OutOfFuel, s1)
      | (Next, le, s1) \<Rightarrow> endpointLoop env fuel req acct token payload le rest s1
      | (Throw endpointError, le, s1) \<Rightarrow>
          if isRateLimitError env endpointError then (Throw endpointError, s1)
          else if isEmptyResponseError env endpointError then (Throw endpointError, s1)
          else endpointLoop env fuel req acct token payload (Caught endpointError) rest s1)"

text \<open>Lines 105-257, the outer \<^verbatim>\<open>try\<close> block for the account selected.\<close>

definition tryAccount ::
  "'w env \<Rightarrow> nat \<Rightarrow> anthropic_request \<Rightarrow> account \<Rightarrow> 'w st \<Rightarrow> flow \<times> 'w st" where
  "tryAccount env fuel req acct s =
     (case do_getTokenForAccount env acct s of
        (Inl e, s1) \<Rightarrow> (Throw e, s1)
      | (Inr token, s1) \<Rightarrow>
          (case do_getProjectForAccount env acct token s1 of
             (Inl e, s2) \<Rightarrow> (Throw e, s2)
           | (Inr project, s2) \<Rightarrow>
               (case buildCloudCodeRequest env req project of
                  Inl e \<Rightarrow> (Throw e, s2)
                | Inr payload \<Rightarrow>
                    endpointLoop env fuel req acct token payload NoError
                      (ANTIGRAVITY_ENDPOINT_FALLBACKS env) s2)))"

text \<open>Lines 258-285, the outer \<^verbatim>\<open>catch\<close>: \<open>Next\<close> is \<^verbatim>\<open>continue\<close>.\<close>

definition handleAttemptError ::
  "'w env \<Rightarrow> string \<Rightarrow> js_error \<Rightarrow> 'w st \<Rightarrow> flow \<times> 'w st" where
  "handleAttemptError env m error s =
     (if isRateLimitError env error then (Next, s)
      else if isAuthError env error then (Next, s)
      else if str_includes (message error) ''API error 5'' \<or>
              str_includes (message error) ''500'' \<or>
              str_includes (message error) ''503''
      then (Next, snd (do_pickNext env m s))
      else if isNetworkError env error
      then (Next, snd (do_pickNext env m (do_sleep env 1000 s)))
      else (Throw error, s))"

text \<open>
  Line 61, \<^verbatim>\<open>new Date(t).toISOString()\<close>: a time value beyond 8.64e15 ms on either side
  of the epoch is no date, and \<^verbatim>\<open>toISOString\<close> throws a \<^verbatim>\<open>RangeError\<close> for it. Within
  the range the text is \<open>toISOString env t\<close>.
\<close>

definition newDateToISOString :: "'w env \<Rightarrow> int \<Rightarrow> js_error + string" where
  "newDateToISOString env t =
     (if - 8640000000000000 \<le> t \<and> t \<le> 8640000000000000 then Inr (toISOString env t)
      else Inl (JsError ''RangeError'' ''Invalid time value''))"

definition exhaustedMessage :: "'w env \<Rightarrow> string \<Rightarrow> int \<Rightarrow> string \<Rightarrow> string" where
  "exhaustedMessage env m allWaitMs resetTime =
     ''RESOURCE_EXHAUSTED: Rate limited on '' @ m @ ''. Quota will reset after '' @
       formatDuration env allWaitMs @ ''. Next available: '' @ resetTime"

text \<open>
  Lines 46-88: the selection of an account. \<open>Inl\<close> is an error thrown, that of line 61
  or that of line 65; \<open>Inr None\<close> is no account after all. The time of line 61 is
  computed before the test of line 64.
\<close>

definition selectAccount ::
  "'w env \<Rightarrow> string \<Rightarrow> 'w st \<Rightarrow> (js_error + account option) \<times> 'w st" where
  "selectAccount env m s =
     (case do_pickStickyAccount env m s of
        ((stickyAccount, waitMs), s1) \<Rightarrow>
          (case (if stickyAccount = None \<and> waitMs > 0
                 then do_getCurrentStickyAccount env m
                        (do_clearExpiredLimits env (do_sleep env waitMs s1))
                 else (stickyAccount, s1)) of
             (Some acct, s2) \<Rightarrow> (Inr (Some acct), s2)
           | (None, s2) \<Rightarrow>
               if isAllRateLimited env m (world s2) then
                 (let allWaitMs = getMinWaitTimeMs env m (world s2)
                  in case newDateToISOString env (now env (world s2) + allWaitMs) of
                       Inl e \<Rightarrow> (Inl e, s2)
                     | Inr resetTime \<Rightarrow>
                         if allWaitMs > MAX_WAIT_BEFORE_ERROR_MS env
                         then (Inl (Error (exhaustedMessage env m allWaitMs resetTime)), s2)
                         else
                           (let s3 = do_sleep env allWaitMs s2;
                                s4 = do_sleep env 500 s3;
                                s5 = do_clearExpiredLimits env s4
                            in case do_pickNext env m s5 of
                                 (Some acct, s6) \<Rightarrow> (Inr (Some acct), s6)
                               | (None, s6) \<Rightarrow>
                                   (case do_pickNext env m (do_resetAllRateLimits env s6) of
                                      (acct', s7) \<Rightarrow> (Inr acct', s7))))
               else (Inr None, s2)))"

text \<open>Line 42, and lines 92-93 and 290-291: the fallback model, when there is one
  (an empty string is falsy).\<close>

definition maxAttemptsOf :: "'w env \<Rightarrow> 'w st \<Rightarrow> int" where
  "maxAttemptsOf env s = max (MAX_RETRIES env) (getAccountCount env (world s) + 1)"

definition fallbackFor :: "'w env \<Rightarrow> string \<Rightarrow> string option" where
  "fallbackFor env m =
     (case getFallbackModel env m of
        None \<Rightarrow> None
      | Some fallbackModel \<Rightarrow> if fallbackModel = [] then None else Some fallbackModel)"

text \<open>
  Lines 44-299: the retry loop from \<^verbatim>\<open>attempt\<close> on, and what follows it. The nested
  call \<^verbatim>\<open>sendMessageStream(fallbackRequest, accountManager, false)\<close> is the same loop
  started at attempt 0 with its own \<^verbatim>\<open>maxAttempts\<close> and \<^verbatim>\<open>fallbackEnabled = false\<close>.
\<close>

function attemptLoop ::
  "'w env \<Rightarrow> nat \<Rightarrow> anthropic_request \<Rightarrow> bool \<Rightarrow> int \<Rightarrow> int \<Rightarrow> 'w st \<Rightarrow> flow \<times> 'w st" where
  "attemptLoop env fuel req fallbackEnabled maxAttempts attempt s =
     (if attempt < maxAttempts then
        (case selectAccount env (model req) s of
           (Inl e, s1) \<Rightarrow> (Throw e, s1)
         | (Inr None, s1) \<Rightarrow>
             (if fallbackEnabled then
                (case fallbackFor env (model req) of
                   Some fallbackModel \<Rightarrow>
                     (let s2 = \<lparr>world = world s1,
                                trace = trace s1 @ [WarnFallback (model req) fallbackModel]\<rparr>;
                          fallbackRequest = req\<lparr>model := fallbackModel\<rparr>
                      in attemptLoop env fuel fallbackRequest False (maxAttemptsOf env s2) 0 s2)
                 | None \<Rightarrow> (Throw (Error ''No accounts available''), s1))
              else (Throw (Error ''No accounts available''), s1))
         | (Inr (Some acct), s1) \<Rightarrow>
             (case tryAccount env fuel req acct s1 of
                (Return, s2) \<Rightarrow> (Return, s2)
              | (OutOfFuel, s2) \<Rightarrow> (OutOfFuel, s2)
              | (Next, s2) \<Rightarrow>
                  attemptLoop env fuel req fallbackEnabled maxAttempts (attempt + 1) s2
              | (Throw error, s2) \<Rightarrow>
                  (case handleAttemptError env (model req) error s2 of
                     (Throw e, s3) \<Rightarrow> (Throw e, s3)
                   | (Return, s3) \<Rightarrow> (Return, s3)
                   | (OutOfFuel, s3) \<Rightarrow> (OutOfFuel, s3)
                   | (Next, s3) \<Rightarrow>
                       attemptLoop env fuel req fallbackEnabled maxAttempts (attempt + 1) s3)))
      else
        (if fallbackEnabled then
           (case fallbackFor env (model req) of
              Some fallbackModel \<Rightarrow>
                (let s2 = \<lparr>world = world s,
                           trace = trace s @ [WarnFallback (model req) fallbackModel]\<rparr>;
                     fallbackRequest = req\<lparr>model := fallbackModel\<rparr>
                 in attemptLoop env fuel fallbackRequest False (maxAttemptsOf env s2) 0 s2)
            | None \<Rightarrow> (Throw (Error ''Max retries exceeded''), s))
         else (Throw (Error ''Max retries exceeded''), s)))"
  by pat_completeness auto
termination
  by (relation "measures [\<lambda>(env, fuel, req, fallbackEnabled, maxAttempts, attempt, s).
                             if fallbackEnabled then 1 else 0,
                          \<lambda>(env, fuel, req, fallbackEnabled, maxAttempts, attempt, s).
                             nat (maxAttempts - attempt)]")
    auto

declare attemptLoop.simps [simp del]

definition sendMessageStream ::
  "'w env \<Rightarrow> nat \<Rightarrow> anthropic_request \<Rightarrow> bool \<Rightarrow> 'w st \<Rightarrow> flow \<times> 'w st" where
  "sendMessageStream env fuel anthropicRequest fallbackEnabled s =
     attemptLoop env fuel anthropicRequest fallbackEnabled (maxAttemptsOf env s) 0 s"

text \<open>What a trace shows: the events yielded, the selection attempts (one call of
  \<^verbatim>\<open>pickStickyAccount\<close> per pass of the retry loop), the fallback substitutions.\<close>

fun yielded :: "effect list \<Rightarrow> jv list" where
  "yielded [] = []"
| "yielded (Yield ev # es) = ev # yielded es"
| "yielded (e # es) = yielded es"

fun selections :: "effect list \<Rightarrow> nat" where
  "selections [] = 0"
| "selections (PickStickyAccount m # es) = Suc (selections es)"
| "selections (e # es) = selections es"

fun fallbacks :: "effect list \<Rightarrow> nat" where
  "fallbacks [] = 0"
| "fallbacks (WarnFallback m fm # es) = Suc (fallbacks es)"
| "fallbacks (e # es) = fallbacks es"

definition fresh :: "'w \<Rightarrow> 'w st" where
  "fresh w = \<lparr>world = w, trace = []\<rparr>"

text \<open>Both counts of a trace at once, and the bounds the retry loop keeps from the state
  \<open>s\<close> at attempt \<open>a\<close> to its final state \<open>s'\<close> (used in the induction over the loop).\<close>

definition counts :: "effect list \<Rightarrow> nat \<times> nat" where
  "counts tr = (selections tr, fallbacks tr)"

definition loopBounds ::
  "'w env \<Rightarrow> bool \<Rightarrow> int \<Rightarrow> int \<Rightarrow> 'w st \<Rightarrow> 'w st \<Rightarrow> bool" where
  "loopBounds env fb maxA a s s' =
     (fallbacks (trace s') \<le> fallbacks (trace s) + (if fb then 1 else 0) \<and>
      (\<not> fb \<longrightarrow> selections (trace s') \<le> selections (trace s) + nat (maxA - a)) \<and>
      (\<forall>n. (\<forall>w. getAccountCount env w = n) \<longrightarrow>
         selections (trace s') \<le> selections (trace s) + nat (maxA - a) +
           (if fb then nat (max (MAX_RETRIES env) (n + 1)) else 0)))"

section \<open>A concrete environment\<close>

text \<open>
  An environment to run the handler on: two accounts, two endpoints, a sticky selection
  that stays on the first account, a network that answers 200 with a stream of one
  event, one fallback model. The variants below change single operations.
\<close>

definition accountA :: account where
  "accountA = \<lparr>email = ''a@x.io'', details = JNull\<rparr>"

definition accountB :: account where
  "accountB = \<lparr>email = ''b@x.io'', details = JNull\<rparr>"

definition okResponse :: response where
  "okResponse = \<lparr>status = 200, body = [], jsonBody = Inr JNull\<rparr>"

definition demoEnv :: "'w env" where
  "demoEnv =
     \<lparr>ANTIGRAVITY_ENDPOINT_FALLBACKS = [''https://daily'', ''https://prod''],
      MAX_RETRIES = 1,
      MAX_EMPTY_RESPONSE_RETRIES = 2,
      MAX_WAIT_BEFORE_ERROR_MS = 120000,
      isRateLimitError = (\<lambda>e. str_includes (message e) ''Rate limited'' \<or>
                                str_includes (message e) ''429''),
      isAuthError = (\<lambda>e. str_includes (message e) ''AUTH_INVALID''),
      isEmptyResponseError = (\<lambda>e. name e = ''EmptyResponseError''),
      isNetworkError = (\<lambda>e. str_includes (message e) ''fetch failed''),
      formatDuration = (\<lambda>ms. showInt ms @ ''ms''),
      toISOString = (\<lambda>t. ''T+'' @ showInt t),
      now = (\<lambda>w. 1000),
      sleep = (\<lambda>ms w. w),
      parseResetTime = (\<lambda>r t. None),
      buildCloudCodeRequest = (\<lambda>req project. Inr (JObj [(''project'', JStr project)])),
      buildHeaders = (\<lambda>token m accept. JObj [(''Authorization'', JStr token)]),
      fetch = (\<lambda>url h p w. (Inr okResponse, w)),
      streamSSEResponse = (\<lambda>r m w. (([JObj [(''type'', JStr ''message_start'')]], None), w)),
      getFallbackModel = (\<lambda>m. if m = ''model-a'' then Some ''model-b'' else None),
      randomBytesHex = (\<lambda>w. (''00ff'', w)),
      getAccountCount = (\<lambda>w. 2),
      pickStickyAccount = (\<lambda>m w. ((Some accountA, 0), w)),
      clearExpiredLimits = (\<lambda>w. w),
      getCurrentStickyAccount = (\<lambda>m w. (None, w)),
      isAllRateLimited = (\<lambda>m w. False),
      getMinWaitTimeMs = (\<lambda>m w. 0),
      pickNext = (\<lambda>m w. (Some accountB, w)),
      resetAllRateLimits = (\<lambda>w. w),
      getTokenForAccount = (\<lambda>a w. (Inr ''tok'', w)),
      getProjectForAccount = (\<lambda>a t w. (Inr ''proj'', w)),
      clearTokenCache = (\<lambda>em w. w),
      clearProjectCache = (\<lambda>em w. w),
      markRateLimited = (\<lambda>em r m w. w)\<rparr>"

definition offlineEnv :: "unit env" where
  "offlineEnv = demoEnv\<lparr>getTokenForAccount :=
     (\<lambda>a w. (Inl (JsError ''TypeError'' ''fetch failed''), w))\<rparr>"

definition demoRequest :: anthropic_request where
  "demoRequest = \<lparr>model = ''model-a'', params = JNull\<rparr>"

definition noAccountEnv :: "unit env" where
  "noAccountEnv = demoEnv\<lparr>pickStickyAccount := (\<lambda>m w. ((None, 0), w))\<rparr>"

definition exhaustedEnv :: "unit env" where
  "exhaustedEnv = demoEnv\<lparr>pickStickyAccount := (\<lambda>m w. ((None, 0), w)),
                          isAllRateLimited := (\<lambda>m w. True),
                          getMinWaitTimeMs := (\<lambda>m w. 300000)\<rparr>"

definition stickyWaitEnv :: "unit env" where
  "stickyWaitEnv = demoEnv\<lparr>pickStickyAccount := (\<lambda>m w. ((None, 2000), w)),
                           isAllRateLimited := (\<lambda>m w. True),
                           getMinWaitTimeMs := (\<lambda>m w. 300000)\<rparr>"

definition unavailableEnv :: "unit env" where
  "unavailableEnv = demoEnv\<lparr>fetch := (\<lambda>url h p w.
     (Inr \<lparr>status = 503, body = ''Service Unavailable'', jsonBody = Inr JNull\<rparr>, w))\<rparr>"

text \<open>
  \<open>n + 1\<close> consecutive streaming attempts on one endpoint each end in an
  \<^verbatim>\<open>EmptyResponseError\<close> without an event, the first on \<open>resp\<close> in the world
  \<open>w\<close> at retry count \<open>k\<close>, each later one on the ok answer to the request sent
  again after the backoff.
\<close>

fun emptyAttempts ::
  "'w env \<Rightarrow> string \<Rightarrow> jv \<Rightarrow> jv \<Rightarrow> string \<Rightarrow> nat \<Rightarrow> nat \<Rightarrow> response \<Rightarrow> 'w \<Rightarrow> bool" where
  "emptyAttempts env url hdrs payload m 0 k resp w =
     (case streamSSEResponse env resp m w of
        ((evs, Some e), w1) \<Rightarrow> evs = [] \<and> isEmptyResponseError env e
      | ((evs, None), w1) \<Rightarrow> False)"
| "emptyAttempts env url hdrs payload m (Suc n) k resp w =
     (case streamSSEResponse env resp m w of
        ((evs, Some e), w1) \<Rightarrow>
          evs = [] \<and> isEmptyResponseError env e \<and>
          (case fetch env url hdrs payload (sleep env (500 * 2 ^ k) w1) of
             (Inr resp', w2) \<Rightarrow> ok resp' \<and> emptyAttempts env url hdrs payload m n (Suc k) resp' w2
           | (Inl e', w2) \<Rightarrow> False)
      | ((evs, None), w1) \<Rightarrow> False)"

definition emptyEnv :: "unit env" where
  "emptyEnv = demoEnv\<lparr>streamSSEResponse := (\<lambda>r m w.
     (([], Some (JsError ''EmptyResponseError'' ''No content parts received'')), w))\<rparr>"

text \<open>The trace of \<open>s'\<close> continues the trace of \<open>s\<close>.\<close>

definition continues :: "'w st \<Rightarrow> 'w st \<Rightarrow> bool" where
  "continues s s' = (\<exists>rest. trace s' = trace s @ rest)"





text \<open>Three endpoints, each answering 429 with its own reset time.\<close>

definition rateLimitedEnv :: "unit env" where
  "rateLimitedEnv = demoEnv
     \<lparr>ANTIGRAVITY_ENDPOINT_FALLBACKS := [''https://daily'', ''https://prod'', ''https://auto''],
      parseResetTime := (\<lambda>r t. if t = ''daily'' then Some 60000
                                else if t = ''prod'' then Some 30000 else Some 45000),
      fetch := (\<lambda>url h p w.
        (Inr \<lparr>status = 429,
              body = (if url = ''https://daily/v1internal:streamGenerateContent?alt=sse''
                      then ''daily''
                      else if url = ''https://prod/v1internal:streamGenerateContent?alt=sse''
                      then ''prod'' else ''auto''),
              jsonBody = Inr JNull\<rparr>, w))\<rparr>"

text \<open>
  An upstream that is unwell, with one endpoint and one empty-response retry. The world
  counts the requests made: the first and the third are answered 200, the second and the
  fourth 503, every later one 502; every stream ends in an \<^verbatim>\<open>EmptyResponseError\<close> without
  an event.
\<close>

definition gatewayEnv :: "nat env" where
  "gatewayEnv = demoEnv
     \<lparr>ANTIGRAVITY_ENDPOINT_FALLBACKS := [''https://daily''],
      MAX_EMPTY_RESPONSE_RETRIES := 1,
      fetch := (\<lambda>url h p n.
        (Inr (if n = 0 \<or> n = 2 then okResponse
              else \<lparr>status = (if n = 1 \<or> n = 3 then 503 else 502), body = ''unavailable'',
                    jsonBody = Inr JNull\<rparr>),
         Suc n)),
      streamSSEResponse := (\<lambda>r m n.
        (([], Some (JsError ''EmptyResponseError'' ''No content parts received'')), n))\<rparr>"

text \<open>The same upstream with three empty-response retries.\<close>

definition gatewayEnv3 :: "nat env" where
  "gatewayEnv3 = gatewayEnv\<lparr>MAX_EMPTY_RESPONSE_RETRIES := 3\<rparr>"

text \<open>An upstream that answers 200 and 503 in turn, for ever, every stream empty.\<close>

definition flakyEnv :: "nat env" where
  "flakyEnv = demoEnv
     \<lparr>fetch := (\<lambda>url h p n.
        (Inr (if even n then okResponse
              else \<lparr>status = 503, body = ''unavailable'', jsonBody = Inr JNull\<rparr>),
         Suc n)),
      streamSSEResponse := (\<lambda>r m n.
        (([], Some (JsError ''EmptyResponseError'' ''No content parts received'')), n))\<rparr>"

text \<open>Every account is rate-limited for 1e16 ms, beyond the range of \<^verbatim>\<open>Date\<close>.\<close>

definition farFutureEnv :: "unit env" where
  "farFutureEnv = exhaustedEnv\<lparr>getMinWaitTimeMs := (\<lambda>m w. 10000000000000000)\<rparr>"

text \<open>Every stream is empty, with three empty-response retries.\<close>

definition emptyEnv3 :: "unit env" where
  "emptyEnv3 = emptyEnv\<lparr>MAX_EMPTY_RESPONSE_RETRIES := 3\<rparr>"

section \<open>Properties of getSubscriptionTier\<close>

lemma classifyTier_range: "classifyTier s \<in> {''free'', ''pro'', ''ultra''}"
  by (simp add: classifyTier_def Let_def)

lemma extractTier_range: "extractTier data = Inr t \<Longrightarrow> t \<in> {''free'', ''pro'', ''ultra''}"
  using classifyTier_range
  by (auto simp: extractTier_def Let_def split: sum.splits if_splits jv.splits)

lemma extractSubscription_range:
  "extractSubscription data = Inr r \<Longrightarrow> tier r \<in> {''free'', ''pro'', ''ultra''}"
  by (auto simp: extractSubscription_def split: sum.splits dest: extractTier_range)

lemma tryTierEndpoint_range:
  "tryTierEndpoint net h e w = (Inr (Some r), w1) \<Longrightarrow> tier r \<in> {''free'', ''pro'', ''ultra''}"
  using extractSubscription_range
  by (auto simp: tryTierEndpoint_def Let_def split: prod.splits sum.splits if_splits)

lemma tierLoop_range:
  "\<exists>r. fst (tierLoop net h eps w) = Inr r \<and> tier r \<in> {''free'', ''pro'', ''ultra''}"
proof (induction eps arbitrary: w)
  case Nil
  show ?case by simp
next
  case (Cons e eps)
  obtain x w1 where t: "tryTierEndpoint net h e w = (x, w1)"
    by (cases "tryTierEndpoint net h e w")
  show ?case
  proof (cases x)
    case (Inl err)
    with t Cons.IH [of w1] show ?thesis by simp
  next
    case (Inr o1)
    show ?thesis
    proof (cases o1)
      case None
      with t Inr Cons.IH [of w1] show ?thesis by simp
    next
      case (Some r)
      with t Inr tryTierEndpoint_range [of net h e w r w1] show ?thesis by simp
    qed
  qed
qed

lemma tryTierEndpoint_fails:
  "endpointFails (fst (net (e @ ''/v1internal:loadCodeAssist'') h loadCodeAssistBody w)) \<Longrightarrow>
   \<exists>w1. tryTierEndpoint net h e w = (Inr None, w1) \<or>
        (\<exists>err. tryTierEndpoint net h e w = (Inl err, w1))"
  by (auto simp: tryTierEndpoint_def endpointFails_def Let_def
      split: prod.splits sum.splits if_splits)

lemma tierLoop_all_fail:
  "(\<forall>url h b w'. endpointFails (fst (net url h b w'))) \<Longrightarrow>
   fst (tierLoop net h eps w) = Inr \<lparr>tier = ''free'', projectId = JNull\<rparr>"
proof (induction eps arbitrary: w)
  case Nil
  show ?case by simp
next
  case (Cons e eps)
  from Cons.prems tryTierEndpoint_fails [of net e h w]
  obtain w1 where "tryTierEndpoint net h e w = (Inr None, w1) \<or>
      (\<exists>err. tryTierEndpoint net h e w = (Inl err, w1))"
    by blast
  with Cons.IH [OF Cons.prems, of w1] show ?case by auto
qed

lemma extractTier_paid:
  "optProp (lookupProp kvs ''paidTier'') ''id'' = JStr p \<Longrightarrow> p \<noteq> [] \<Longrightarrow>
   extractTier (JObj kvs) = Inr (classifyTier p)"
  by (simp add: extractTier_def js_or_def)

lemma extractTier_current:
  "\<not> truthy (optProp (lookupProp kvs ''paidTier'') ''id'') \<Longrightarrow>
   optProp (lookupProp kvs ''currentTier'') ''id'' = JStr c \<Longrightarrow> c \<noteq> [] \<Longrightarrow>
   extractTier (JObj kvs) = Inr (classifyTier c)"
  by (simp add: extractTier_def js_or_def)

lemma tierLoop_first_ok:
  "net (e @ ''/v1internal:loadCodeAssist'') h loadCodeAssistBody w = (Inr resp, w1) \<Longrightarrow>
   ok resp \<Longrightarrow> jsonBody resp = Inr (JObj kvs) \<Longrightarrow> extractTier (JObj kvs) = Inr t \<Longrightarrow>
   \<exists>pid. tierLoop net h (e # rest) w = (Inr \<lparr>tier = t, projectId = pid\<rparr>, w1)"
  by (auto simp: tryTierEndpoint_def extractSubscription_def extractProjectId_def
      split: jv.splits)

text \<open>
  C10. \<^verbatim>\<open>getSubscriptionTier\<close> never throws: whatever the endpoints, the
  headers, the network, the token and the state of the world, it returns a result whose
  tier is \<^verbatim>\<open>free\<close>, \<^verbatim>\<open>pro\<close> or \<^verbatim>\<open>ultra\<close>. When every endpoint fails it returns
  \<^verbatim>\<open>{ tier: 'free', projectId: null }\<close>. When the first endpoint answers with a
  parsed object, the tier returned is the one extracted from it; there a non-empty
  string \<^verbatim>\<open>paidTier.id\<close> decides whatever \<^verbatim>\<open>currentTier.id\<close> is, a non-empty string
  \<^verbatim>\<open>currentTier.id\<close> decides when \<^verbatim>\<open>paidTier.id\<close> is missing or falsy, and the
  lower-cased id is classified \<^verbatim>\<open>ultra\<close> before \<^verbatim>\<open>pro\<close>, anything else \<^verbatim>\<open>free\<close>.
\<close>

theorem getSubscriptionTier_never_throws:
  "(\<exists>r. fst (getSubscriptionTier eps hdrs net token w) = Inr r \<and>
        tier r \<in> {''free'', ''pro'', ''ultra''}) \<and>
   ((\<forall>url h b w'. endpointFails (fst (net url h b w'))) \<longrightarrow>
      fst (getSubscriptionTier eps hdrs net token w) =
        Inr \<lparr>tier = ''free'', projectId = JNull\<rparr>) \<and>
   (net (e @ ''/v1internal:loadCodeAssist'') (tierHeaders hdrs token) loadCodeAssistBody w
        = (Inr resp, w1) \<and>
      ok resp \<and> jsonBody resp = Inr (JObj kvs) \<and> extractTier (JObj kvs) = Inr t \<longrightarrow>
      (\<exists>pid. getSubscriptionTier (e # rest) hdrs net token w =
         (Inr \<lparr>tier = t, projectId = pid\<rparr>, w1))) \<and>
   (optProp (lookupProp kvs ''paidTier'') ''id'' = JStr p \<and> p \<noteq> [] \<longrightarrow>
      extractTier (JObj kvs) = Inr (classifyTier p)) \<and>
   (\<not> truthy (optProp (lookupProp kvs ''paidTier'') ''id'') \<and>
      optProp (lookupProp kvs ''currentTier'') ''id'' = JStr c \<and> c \<noteq> [] \<longrightarrow>
      extractTier (JObj kvs) = Inr (classifyTier c)) \<and>
   classifyTier s =
     (if str_includes (toLowerCase s) ''ultra'' then ''ultra''
      else if str_includes (toLowerCase s) ''pro'' then ''pro'' else ''free'')"
proof -
  have a: "\<exists>r. fst (getSubscriptionTier eps hdrs net token w) = Inr r \<and>
        tier r \<in> {''free'', ''pro'', ''ultra''}"
    unfolding getSubscriptionTier_def by (rule tierLoop_range)
  have b: "(\<forall>url h b w'. endpointFails (fst (net url h b w'))) \<longrightarrow>
      fst (getSubscriptionTier eps hdrs net token w) =
        Inr \<lparr>tier = ''free'', projectId = JNull\<rparr>"
    unfolding getSubscriptionTier_def using tierLoop_all_fail [of net] by blast
  have c: "net (e @ ''/v1internal:loadCodeAssist'') (tierHeaders hdrs token)
        loadCodeAssistBody w = (Inr resp, w1) \<and>
      ok resp \<and> jsonBody resp = Inr (JObj kvs) \<and> extractTier (JObj kvs) = Inr t \<longrightarrow>
      (\<exists>pid. getSubscriptionTier (e # rest) hdrs net token w =
         (Inr \<lparr>tier = t, projectId = pid\<rparr>, w1))"
    unfolding getSubscriptionTier_def using tierLoop_first_ok [of net e] by blast
  have d: "optProp (lookupProp kvs ''paidTier'') ''id'' = JStr p \<and> p \<noteq> [] \<longrightarrow>
      extractTier (JObj kvs) = Inr (classifyTier p)"
    using extractTier_paid by blast
  have e: "\<not> truthy (optProp (lookupProp kvs ''paidTier'') ''id'') \<and>
      optProp (lookupProp kvs ''currentTier'') ''id'' = JStr c \<and> c \<noteq> [] \<longrightarrow>
      extractTier (JObj kvs) = Inr (classifyTier c)"
    using extractTier_current by blast
  have f: "classifyTier s =
     (if str_includes (toLowerCase s) ''ultra'' then ''ultra''
      else if str_includes (toLowerCase s) ''pro'' then ''pro'' else ''free'')"
    by (simp add: classifyTier_def Let_def)
  from a b c d e f show ?thesis by blast
qed

theorem getSubscriptionTier_never_throws_witness:
  "(\<forall>url h b w'. endpointFails (fst ((\<lambda>url h b w. (Inl (Error ''down''), w :: nat)) url h b w'))) \<and>
   fst (getSubscriptionTier [''https://a'', ''https://b''] [] (\<lambda>url h b w. (Inl (Error ''down''), w)) ''tok'' (0 :: nat))
     = Inr \<lparr>tier = ''free'', projectId = JNull\<rparr> \<and>
   ok \<lparr>status = 200, body = [], jsonBody = Inr (JObj [(''cloudaicompanionProject'', JStr ''proj-1''),
          (''paidTier'', JObj [(''id'', JStr ''g1-ULTRA-tier'')]),
          (''currentTier'', JObj [(''id'', JStr ''standard-pro'')])])\<rparr> \<and>
   getSubscriptionTier [''https://a'', ''https://b''] []
     (\<lambda>url h b w. (Inr \<lparr>status = 200, body = [], jsonBody = Inr (JObj [(''cloudaicompanionProject'', JStr ''proj-1''),
          (''paidTier'', JObj [(''id'', JStr ''g1-ULTRA-tier'')]),
          (''currentTier'', JObj [(''id'', JStr ''standard-pro'')])])\<rparr>, Suc w)) ''tok'' (0 :: nat)
     = (Inr \<lparr>tier = ''ultra'', projectId = JStr ''proj-1''\<rparr>, 1) \<and>
   extractTier (JObj [(''paidTier'', JObj [(''id'', JStr ''g1-ULTRA-tier'')]),
          (''currentTier'', JObj [(''id'', JStr ''standard-pro'')])]) = Inr ''ultra'' \<and>
   \<not> truthy (optProp (lookupProp [(''paidTier'', JNull), (''currentTier'', JObj [(''id'', JStr ''standard-pro'')])] ''paidTier'') ''id'') \<and>
   extractTier (JObj [(''paidTier'', JNull), (''currentTier'', JObj [(''id'', JStr ''standard-pro'')])]) = Inr ''pro''"
  using getSubscriptionTier_never_throws [where eps = "[''https://a'', ''https://b'']" and hdrs = "[]"
      and net = "\<lambda>url h b w. (Inl (Error ''down''), w :: nat)" and token = "''tok''" and w = 0
      and kvs = "[(''paidTier'', JObj [(''id'', JStr ''g1-ULTRA-tier'')]),
          (''currentTier'', JObj [(''id'', JStr ''standard-pro'')])]" and p = "''g1-ULTRA-tier''"]
    getSubscriptionTier_never_throws [where hdrs = "[]" and e = "''https://a''" and rest = "[''https://b'']"
      and net = "\<lambda>url h b w. (Inr \<lparr>status = 200, body = [], jsonBody = Inr (JObj [(''cloudaicompanionProject'', JStr ''proj-1''),
          (''paidTier'', JObj [(''id'', JStr ''g1-ULTRA-tier'')]),
          (''currentTier'', JObj [(''id'', JStr ''standard-pro'')])])\<rparr>, Suc w)" and token = "''tok''" and w = 0
      and kvs = "[(''paidTier'', JNull), (''currentTier'', JObj [(''id'', JStr ''standard-pro'')])]"
      and c = "''standard-pro''"]
  by (simp add: endpointFails_def ok_def getSubscriptionTier_def tryTierEndpoint_def
      extractSubscription_def extractProjectId_def extractTier_def js_or_def classifyTier_def
      toLowerCase_def lowerChar_def tierHeaders_def)

section \<open>Properties of loadAccounts\<close>

lemma lookupProp_setProp:
  "lookupProp (setProp kvs k v) k' = (if k = k' then v else lookupProp kvs k')"
  by (induction kvs) auto

lemma digitChar_digit: "d < 10 \<Longrightarrow> digitChar d \<in> set ''0123456789''"
proof -
  assume "d < 10"
  then have "d \<in> {0,1,2,3,4,5,6,7,8,9}" by auto
  then show ?thesis by (auto simp: digitChar_def)
qed

lemma showNat_digits: "set (showNat n) \<subseteq> set ''0123456789''"
proof (induction n rule: showNat.induct)
  case (1 n)
  show ?case
  proof (cases "n < 10")
    case True
    then show ?thesis using digitChar_digit [of n] by (subst showNat.simps) simp
  next
    case False
    have "n mod 10 < 10" by simp
    from digitChar_digit [OF this] 1 [OF False] False show ?thesis
      by (subst showNat.simps) simp
  qed
qed

lemma showNat_not_letter:
  "c \<notin> set ''0123456789'' \<Longrightarrow> showNat n \<noteq> c # cs"
  using showNat_digits [of n] by auto

lemma lookupProp_index_keys:
  "(\<And>n. showNat n \<noteq> k) \<Longrightarrow> lookupProp (zip (map showNat ns) vs) k = JUndefined"
proof (induction ns arbitrary: vs)
  case Nil
  show ?case by simp
next
  case (Cons n ns)
  then show ?case by (cases vs) auto
qed

lemma lookupProp_spread_letter:
  "c \<notin> set ''0123456789'' \<Longrightarrow> lookupProp (spreadProps acc) (c # cs) = optProp acc (c # cs)"
  by (cases acc) (simp_all add: lookupProp_index_keys showNat_not_letter)

lemma getProp_optProp:
  "acc \<noteq> JNull \<Longrightarrow> acc \<noteq> JUndefined \<Longrightarrow> getProp acc k = Inr (optProp acc k)"
  by (cases acc) simp_all

lemma loadAccount_null: "loadAccount JNull = Inl (TypeError ''Cannot read properties of null'')"
  by (simp add: loadAccount_def bindE_def)

lemma loadAccount_ok:
  assumes "acc \<noteq> JNull" "acc \<noteq> JUndefined"
  shows "\<exists>a. loadAccount acc = Inr a \<and> storedAs acc a \<and>
     optProp a ''isInvalid'' = JBool False \<and> optProp a ''invalidReason'' = JNull"
  using assms
  by (simp add: loadAccount_def bindE_def getProp_optProp storedAs_def lookupProp_setProp
      lookupProp_spread_letter)

lemma loadAccount_flags:
  "loadAccount acc = Inr a \<Longrightarrow>
   optProp a ''isInvalid'' = JBool False \<and> optProp a ''invalidReason'' = JNull"
  using loadAccount_ok [of acc] by (cases acc) (auto simp: loadAccount_def bindE_def)

lemma mapE_Inr:
  "mapE f xs = Inr ys \<Longrightarrow> list_all2 (\<lambda>x y. f x = Inr y) xs ys"
  by (induction xs arbitrary: ys) (auto simp: bindE_def split: sum.splits)

lemma mapE_all_ok:
  "(\<And>x. x \<in> set xs \<Longrightarrow> \<exists>y. f x = Inr y) \<Longrightarrow> \<exists>ys. mapE f xs = Inr ys"
proof (induction xs)
  case Nil
  show ?case by simp
next
  case (Cons a xs)
  from Cons.prems [of a] obtain y where y: "f a = Inr y" by auto
  from Cons.IH Cons.prems obtain ys where ys: "mapE f xs = Inr ys" by auto
  from y ys show ?case by (simp add: bindE_def)
qed

lemma loadAccounts_flags:
  "\<forall>a \<in> set (loadAccounts P cfg).
     optProp a ''isInvalid'' = JBool False \<and> optProp a ''invalidReason'' = JNull"
proof -
  have m: "mapE loadAccount xs = Inr ys \<Longrightarrow> \<forall>a \<in> set ys.
     optProp a ''isInvalid'' = JBool False \<and> optProp a ''invalidReason'' = JNull" for xs ys
  proof -
    assume "mapE loadAccount xs = Inr ys"
    from mapE_Inr [OF this] have "list_all2 (\<lambda>x y. loadAccount x = Inr y) xs ys" .
    then show ?thesis
      by (induction rule: list_all2_induct) (auto dest: loadAccount_flags)
  qed
  show ?thesis
    using m m [OF sym]
    by (auto simp: loadAccounts_def mapAccounts_def bindE_def split: sum.splits jv.splits)
qed

lemma loadAccounts_stored:
  assumes "cfg = Inr raw" "P raw = Inr config"
    "getProp config ''accounts'' = Inr (JArr stored)"
    "JNull \<notin> set stored" "JUndefined \<notin> set stored"
  shows "list_all2 storedAs stored (loadAccounts P cfg)"
proof -
  have ok: "\<And>x. x \<in> set stored \<Longrightarrow> \<exists>y. loadAccount x = Inr y"
    using assms(4,5) loadAccount_ok by metis
  from mapE_all_ok [of stored loadAccount, OF ok] obtain ys where ys: "mapE loadAccount stored = Inr ys"
    by blast
  from mapE_Inr [OF ys] have "list_all2 (\<lambda>x y. loadAccount x = Inr y) stored ys" .
  then have "list_all2 storedAs stored ys"
    using assms(4,5)
  proof (induction rule: list_all2_induct)
    case Nil
    show ?case by simp
  next
    case (Cons x xs y ys)
    from Cons.prems have "x \<noteq> JNull" "x \<noteq> JUndefined" by auto
    from loadAccount_ok [OF this] Cons.hyps(1) have "storedAs x y" by auto
    with Cons show ?case by simp
  qed
  moreover have "loadAccounts P cfg = ys"
    using assms(1,2,3) ys by (simp add: loadAccounts_def bindE_def mapAccounts_def js_or_def)
  ultimately show ?thesis by simp
qed


text \<open>
  C8. Every account \<^verbatim>\<open>loadAccounts\<close> returns has \<^verbatim>\<open>isInvalid = false\<close> and
  \<^verbatim>\<open>invalidReason = null\<close>, whatever the file holds (or when it cannot be read or
  parsed). When the file parses to a configuration whose \<^verbatim>\<open>accounts\<close> is an array
  without a \<^verbatim>\<open>null\<close> element, the accounts returned are the stored records in
  order, each with its stored email and source, \<^verbatim>\<open>enabled\<close> true unless the stored
  value is \<^verbatim>\<open>false\<close>, and its stored \<^verbatim>\<open>modelRateLimits\<close>.
\<close>

theorem loadAccounts_resets_invalid:
  "(\<forall>a \<in> set (loadAccounts P cfg).
      optProp a ''isInvalid'' = JBool False \<and> optProp a ''invalidReason'' = JNull) \<and>
   (cfg = Inr raw \<and> P raw = Inr config \<and>
      getProp config ''accounts'' = Inr (JArr stored) \<and>
      JNull \<notin> set stored \<and> JUndefined \<notin> set stored \<longrightarrow>
      list_all2 storedAs stored (loadAccounts P cfg))"
  using loadAccounts_flags [of P cfg] loadAccounts_stored [of cfg raw P config stored]
  by blast

theorem loadAccounts_resets_invalid_witness:
  "loadAccounts
     (\<lambda>s. Inr (JObj [(''accounts'', JArr
        [JObj [(''email'', JStr ''a@x.io''), (''source'', JStr ''oauth''),
               (''enabled'', JBool False), (''isInvalid'', JBool True),
               (''invalidReason'', JStr ''token revoked''),
               (''modelRateLimits'', JObj [(''m1'', JObj [(''resetTime'', JNum 5)])])],
         JObj [(''email'', JStr ''b@x.io''), (''source'', JStr ''manual'')]])]))
     (Inr ''config'')
   = [JObj [(''email'', JStr ''a@x.io''), (''source'', JStr ''oauth''),
            (''enabled'', JBool False), (''isInvalid'', JBool False),
            (''invalidReason'', JNull),
            (''modelRateLimits'', JObj [(''m1'', JObj [(''resetTime'', JNum 5)])]),
            (''lastUsed'', JNull),
            (''subscription'', defaultSubscription), (''quota'', defaultQuota)],
      JObj [(''email'', JStr ''b@x.io''), (''source'', JStr ''manual''),
            (''lastUsed'', JNull), (''enabled'', JBool True), (''isInvalid'', JBool False),
            (''invalidReason'', JNull), (''modelRateLimits'', JObj []),
            (''subscription'', defaultSubscription), (''quota'', defaultQuota)]] \<and>
   list_all2 storedAs
     [JObj [(''email'', JStr ''a@x.io''), (''source'', JStr ''oauth''),
               (''enabled'', JBool False), (''isInvalid'', JBool True),
               (''invalidReason'', JStr ''token revoked''),
               (''modelRateLimits'', JObj [(''m1'', JObj [(''resetTime'', JNum 5)])])],
         JObj [(''email'', JStr ''b@x.io''), (''source'', JStr ''manual'')]]
     (loadAccounts
     (\<lambda>s. Inr (JObj [(''accounts'', JArr
        [JObj [(''email'', JStr ''a@x.io''), (''source'', JStr ''oauth''),
               (''enabled'', JBool False), (''isInvalid'', JBool True),
               (''invalidReason'', JStr ''token revoked''),
               (''modelRateLimits'', JObj [(''m1'', JObj [(''resetTime'', JNum 5)])])],
         JObj [(''email'', JStr ''b@x.io''), (''source'', JStr ''manual'')]])]))
     (Inr ''config''))"
  using loadAccounts_resets_invalid [where cfg = "Inr ''config''" and raw = "''config''"
      and P = "\<lambda>s. Inr (JObj [(''accounts'', JArr
        [JObj [(''email'', JStr ''a@x.io''), (''source'', JStr ''oauth''),
               (''enabled'', JBool False), (''isInvalid'', JBool True),
               (''invalidReason'', JStr ''token revoked''),
               (''modelRateLimits'', JObj [(''m1'', JObj [(''resetTime'', JNum 5)])])],
         JObj [(''email'', JStr ''b@x.io''), (''source'', JStr ''manual'')]])])"
      and config = "JObj [(''accounts'', JArr
        [JObj [(''email'', JStr ''a@x.io''), (''source'', JStr ''oauth''),
               (''enabled'', JBool False), (''isInvalid'', JBool True),
               (''invalidReason'', JStr ''token revoked''),
               (''modelRateLimits'', JObj [(''m1'', JObj [(''resetTime'', JNum 5)])])],
         JObj [(''email'', JStr ''b@x.io''), (''source'', JStr ''manual'')]])]"
      and stored = "[JObj [(''email'', JStr ''a@x.io''), (''source'', JStr ''oauth''),
               (''enabled'', JBool False), (''isInvalid'', JBool True),
               (''invalidReason'', JStr ''token revoked''),
               (''modelRateLimits'', JObj [(''m1'', JObj [(''resetTime'', JNum 5)])])],
         JObj [(''email'', JStr ''b@x.io''), (''source'', JStr ''manual'')]]"]
  by (simp add: loadAccounts_def bindE_def mapAccounts_def js_or_def loadAccount_def
      storedAs_def)

section \<open>Properties of loadAccountsFromEnv\<close>

lemma envAccount_null: "\<exists>e. envAccount t JNull = Inl e"
  by (simp add: envAccount_def bindE_def)

lemma envAccount_ok:
  assumes "acc \<noteq> JNull" "acc \<noteq> JUndefined"
  shows "if entryComplete acc
         then \<exists>a. envAccount t acc = Inr (Some a) \<and> envAccountOf acc a \<and> envDefaults a
         else envAccount t acc = Inr None"
  using assms
  by (auto simp: envAccount_def bindE_def getProp_optProp entryComplete_def entryApiKey_def
      entryRefreshToken_def envAccountOf_def envDefaults_def Let_def)

lemma envAccount_defaults: "envAccount t acc = Inr (Some a) \<Longrightarrow> envDefaults a"
  using envAccount_ok [of acc t]
  by (cases acc) (auto simp: envAccount_def bindE_def split: if_splits)

lemma envLoop_defaults:
  "envLoop clk entries acc0 = Inr accs \<Longrightarrow> list_all envDefaults acc0 \<Longrightarrow> list_all envDefaults accs"
proof (induction entries arbitrary: acc0)
  case Nil
  then show ?case by simp
next
  case (Cons x xs)
  then show ?case
    by (auto split: sum.splits option.splits dest: envAccount_defaults)
qed

lemma envLoop_null:
  "JNull \<in> set entries \<Longrightarrow> \<exists>e. envLoop clk entries acc0 = Inl e"
proof (induction entries arbitrary: acc0)
  case Nil
  then show ?case by simp
next
  case (Cons x xs)
  show ?case
  proof (cases "x = JNull")
    case True
    with envAccount_null [of "clk (length acc0)"] show ?thesis by auto
  next
    case False
    with Cons.prems have "JNull \<in> set xs" by simp
    from Cons.IH [OF this] show ?thesis
      by (auto split: sum.splits option.splits)
  qed
qed

lemma envLoop_complete:
  "JNull \<notin> set entries \<Longrightarrow> JUndefined \<notin> set entries \<Longrightarrow>
   \<exists>new. envLoop clk entries acc0 = Inr (acc0 @ new) \<and>
         list_all2 envAccountOf (filter entryComplete entries) new"
proof (induction entries arbitrary: acc0)
  case Nil
  then show ?case by simp
next
  case (Cons x xs)
  from Cons.prems have x: "x \<noteq> JNull" "x \<noteq> JUndefined"
    and xs: "JNull \<notin> set xs" "JUndefined \<notin> set xs" by auto
  show ?case
  proof (cases "entryComplete x")
    case True
    with envAccount_ok [OF x, of "clk (length acc0)"]
    obtain a where a: "envAccount (clk (length acc0)) x = Inr (Some a)" "envAccountOf x a"
      by auto
    from Cons.IH [OF xs, of "acc0 @ [a]"] obtain new where
      "envLoop clk xs (acc0 @ [a]) = Inr ((acc0 @ [a]) @ new)"
      "list_all2 envAccountOf (filter entryComplete xs) new" by blast
    with a True show ?thesis by (intro exI [of _ "a # new"]) simp
  next
    case False
    with envAccount_ok [OF x, of "clk (length acc0)"]
    have "envAccount (clk (length acc0)) x = Inr None" by simp
    with Cons.IH [OF xs, of acc0] False show ?thesis by simp
  qed
qed

text \<open>
  \<^verbatim>\<open>loadAccountsFromEnv\<close> never throws and returns a list whose accounts all have
  \<^verbatim>\<open>enabled = true\<close>, \<^verbatim>\<open>isInvalid = false\<close>, empty \<^verbatim>\<open>modelRateLimits\<close> and source
  \<^verbatim>\<open>manual\<close> exactly when an API key is present (\<^verbatim>\<open>oauth\<close> otherwise). It returns
  \<^verbatim>\<open>[]\<close> when the variable is unset or empty, when the text does not parse or parses to
  something that is not an array. For an array with no \<^verbatim>\<open>null\<close> entry, the accounts
  returned are, in order, those of the entries that have an email and a refresh token or
  an API key. An array with a \<^verbatim>\<open>null\<close> entry gives \<^verbatim>\<open>[]\<close>.
\<close>

theorem loadAccountsFromEnv_total:
  "(\<exists>accs. loadAccountsFromEnv P clk v = Inr accs \<and> list_all envDefaults accs) \<and>
   (P s = Inl e \<longrightarrow> loadAccountsFromEnv P clk (Some s) = Inr []) \<and>
   (P s = Inr parsed \<and> (\<nexists>entries. parsed = JArr entries) \<longrightarrow>
      loadAccountsFromEnv P clk (Some s) = Inr []) \<and>
   (s \<noteq> [] \<and> P s = Inr (JArr entries) \<and> JNull \<notin> set entries \<and> JUndefined \<notin> set entries \<longrightarrow>
      (\<exists>accs. loadAccountsFromEnv P clk (Some s) = Inr accs \<and>
         list_all2 envAccountOf (filter entryComplete entries) accs)) \<and>
   (P s = Inr (JArr entries) \<and> JNull \<in> set entries \<longrightarrow>
      loadAccountsFromEnv P clk (Some s) = Inr []) \<and>
   loadAccountsFromEnv P clk None = Inr [] \<and>
   loadAccountsFromEnv P clk (Some []) = Inr []"
proof -
  have u: "loadAccountsFromEnv P clk None = Inr []" "loadAccountsFromEnv P clk (Some []) = Inr []"
    by (simp_all add: loadAccountsFromEnv_def)
  have a: "\<exists>accs. loadAccountsFromEnv P clk v = Inr accs \<and> list_all envDefaults accs"
    using envLoop_defaults [of clk _ "[]"]
    by (auto simp: loadAccountsFromEnv_def bindE_def split: option.splits sum.splits jv.splits)
  have b: "P s = Inl e \<longrightarrow> loadAccountsFromEnv P clk (Some s) = Inr []"
    by (simp add: loadAccountsFromEnv_def bindE_def)
  have c: "P s = Inr parsed \<and> (\<nexists>entries. parsed = JArr entries) \<longrightarrow>
      loadAccountsFromEnv P clk (Some s) = Inr []"
    by (cases parsed) (auto simp: loadAccountsFromEnv_def bindE_def)
  have d: "s \<noteq> [] \<and> P s = Inr (JArr entries) \<and> JNull \<notin> set entries \<and>
      JUndefined \<notin> set entries \<longrightarrow>
      (\<exists>accs. loadAccountsFromEnv P clk (Some s) = Inr accs \<and>
         list_all2 envAccountOf (filter entryComplete entries) accs)"
    using envLoop_complete [of entries clk "[]"]
    by (auto simp: loadAccountsFromEnv_def bindE_def)
  have e: "P s = Inr (JArr entries) \<and> JNull \<in> set entries \<longrightarrow>
      loadAccountsFromEnv P clk (Some s) = Inr []"
    using envLoop_null [of entries clk "[]"]
    by (auto simp: loadAccountsFromEnv_def bindE_def)
  from a b c d e u show ?thesis by blast
qed

theorem loadAccountsFromEnv_total_witness:
  "loadAccountsFromEnv (\<lambda>s. Inl (JsError ''SyntaxError'' ''Unexpected token'')) (\<lambda>n. ''t'')
      (Some ''not json'') = Inr [] \<and>
   loadAccountsFromEnv (\<lambda>s. Inr (JObj [])) (\<lambda>n. ''t'') (Some ''{}'') = Inr [] \<and>
   loadAccountsFromEnv
     (\<lambda>s. Inr (JArr [JObj [(''email'', JStr ''a@x.io''), (''api_key'', JStr ''k'')],
                     JObj [(''email'', JStr ''b@x.io'')],
                     JNum 7,
                     JObj [(''email'', JStr ''c@x.io''), (''refreshToken'', JStr ''r'')]]))
     (\<lambda>n. ''t'') (Some ''[...]'')
   = Inr [JObj [(''email'', JStr ''a@x.io''), (''source'', JStr ''manual''),
                (''refreshToken'', JUndefined), (''apiKey'', JStr ''k''),
                (''enabled'', JBool True), (''isInvalid'', JBool False),
                (''invalidReason'', JNull), (''modelRateLimits'', JObj []),
                (''lastUsed'', JNull), (''addedAt'', JStr ''t''), (''fromEnv'', JBool True)],
          JObj [(''email'', JStr ''c@x.io''), (''source'', JStr ''oauth''),
                (''refreshToken'', JStr ''r''), (''apiKey'', JUndefined),
                (''enabled'', JBool True), (''isInvalid'', JBool False),
                (''invalidReason'', JNull), (''modelRateLimits'', JObj []),
                (''lastUsed'', JNull), (''addedAt'', JStr ''t''), (''fromEnv'', JBool True)]] \<and>
   filter entryComplete
     [JObj [(''email'', JStr ''a@x.io''), (''api_key'', JStr ''k'')],
      JObj [(''email'', JStr ''b@x.io'')],
      JNum 7,
      JObj [(''email'', JStr ''c@x.io''), (''refreshToken'', JStr ''r'')]]
   = [JObj [(''email'', JStr ''a@x.io''), (''api_key'', JStr ''k'')],
      JObj [(''email'', JStr ''c@x.io''), (''refreshToken'', JStr ''r'')]] \<and>
   loadAccountsFromEnv (\<lambda>s. Inr (JArr [JObj [(''email'', JStr ''a@x.io''), (''api_key'', JStr ''k'')], JNull]))
     (\<lambda>n. ''t'') (Some ''[...]'') = Inr []"
  using loadAccountsFromEnv_total [where P = "\<lambda>s. Inl (JsError ''SyntaxError'' ''Unexpected token'')"
      and clk = "\<lambda>n. ''t''" and s = "''not json''" and v = "Some ''not json''"
      and e = "JsError ''SyntaxError'' ''Unexpected token''"]
    loadAccountsFromEnv_total [where P = "\<lambda>s. Inr (JObj [])"
      and clk = "\<lambda>n. ''t''" and s = "''{}''" and parsed = "JObj []"]
    loadAccountsFromEnv_total [where P = "\<lambda>s. Inr (JArr [JObj [(''email'', JStr ''a@x.io''), (''api_key'', JStr ''k'')],
                     JObj [(''email'', JStr ''b@x.io'')],
                     JNum 7,
                     JObj [(''email'', JStr ''c@x.io''), (''refreshToken'', JStr ''r'')]])"
      and clk = "\<lambda>n. ''t''" and s = "''[...]''"
      and entries = "[JObj [(''email'', JStr ''a@x.io''), (''api_key'', JStr ''k'')],
                     JObj [(''email'', JStr ''b@x.io'')],
                     JNum 7,
                     JObj [(''email'', JStr ''c@x.io''), (''refreshToken'', JStr ''r'')]]"]
    loadAccountsFromEnv_total [where P = "\<lambda>s. Inr (JArr [JObj [(''email'', JStr ''a@x.io''), (''api_key'', JStr ''k'')], JNull])"
      and clk = "\<lambda>n. ''t''" and s = "''[...]''"
      and entries = "[JObj [(''email'', JStr ''a@x.io''), (''api_key'', JStr ''k'')], JNull]"]
  by (simp add: loadAccountsFromEnv_def bindE_def envAccount_def js_or_def entryComplete_def
      entryApiKey_def entryRefreshToken_def)


text \<open>
  C9. The code does not do what the claim says for an array with a \<^verbatim>\<open>null\<close> entry:
  with \<^verbatim>\<open>PROXY_JObj [(''email'', JStr ''a@x.io''), (''source'', JStr ''manual''),
                (''refreshToken'', JUndefined), (''apiKey'', JStr ''k''),
                (''enabled'', JBool True), (''isInvalid'', JBool False),
                (''invalidReason'', JNull), (''modelRateLimits'', JObj []),
                (''lastUsed'', JNull), (''addedAt'', JStr ''2026-01-01T00:00:00.000Z''),
                (''fromEnv'', JBool True)]OUNTS\<close> parsing to a complete entry followed by \<^verbatim>\<open>null\<close>, reading
  \<^verbatim>\<open>acc.email\<close> of \<^verbatim>\<open>null\<close> throws at line 118, the \<^verbatim>\<open>catch\<close> of line 152 returns
  \<^verbatim>\<open>[]\<close> and the account already collected for the complete entry is lost. The same
  array with the entry \<^verbatim>\<open>7\<close> in place of \<^verbatim>\<open>null\<close> keeps the account: line 118 skips an
  entry without an email.
\<close>

theorem loadAccountsFromEnv_null_entry:
  "entryComplete (JObj [(''email'', JStr ''a@x.io''), (''api_key'', JStr ''k'')]) \<and>
   loadAccountsFromEnv
     (\<lambda>s. Inr (JArr [JObj [(''email'', JStr ''a@x.io''), (''api_key'', JStr ''k'')], JNull]))
     (\<lambda>n. ''2026-01-01T00:00:00.000Z'') (Some ''[{email:a@x.io,api_key:k},null]'') = Inr [] \<and>
   loadAccountsFromEnv
     (\<lambda>s. Inr (JArr [JObj [(''email'', JStr ''a@x.io''), (''api_key'', JStr ''k'')], JNum 7]))
     (\<lambda>n. ''2026-01-01T00:00:00.000Z'') (Some ''[{email:a@x.io,api_key:k},7]'') =
     Inr [JObj [(''email'', JStr ''a@x.io''), (''source'', JStr ''manual''),
                (''refreshToken'', JUndefined), (''apiKey'', JStr ''k''),
                (''enabled'', JBool True), (''isInvalid'', JBool False),
                (''invalidReason'', JNull), (''modelRateLimits'', JObj []),
                (''lastUsed'', JNull), (''addedAt'', JStr ''2026-01-01T00:00:00.000Z''),
                (''fromEnv'', JBool True)]]"
  by (simp add: entryComplete_def entryApiKey_def entryRefreshToken_def js_or_def
      loadAccountsFromEnv_def bindE_def envAccount_def)

section \<open>Counting selections and fallbacks along a run\<close>

lemma selections_append: "selections (xs @ ys) = selections xs + selections ys"
  by (induction xs rule: selections.induct) auto

lemma fallbacks_append: "fallbacks (xs @ ys) = fallbacks xs + fallbacks ys"
  by (induction xs rule: fallbacks.induct) auto

lemma yielded_append: "yielded (xs @ ys) = yielded xs @ yielded ys"
  by (induction xs rule: yielded.induct) auto

lemma selections_Yield: "selections (map Yield evs) = 0"
  by (induction evs) auto

lemma fallbacks_Yield: "fallbacks (map Yield evs) = 0"
  by (induction evs) auto

lemma yielded_Yield: "yielded (map Yield evs) = evs"
  by (induction evs) auto

lemma counts_act:
  "selections [e] = 0 \<Longrightarrow> fallbacks [e] = 0 \<Longrightarrow> counts (trace (act e f s)) = counts (trace s)"
  by (simp add: counts_def act_def selections_append fallbacks_append)

lemma counts_call:
  "selections [e] = 0 \<Longrightarrow> fallbacks [e] = 0 \<Longrightarrow> call e f s = (r, s') \<Longrightarrow>
   counts (trace s') = counts (trace s)"
  by (auto simp: counts_def call_def selections_append fallbacks_append split: prod.splits)

lemma counts_sleep: "counts (trace (do_sleep env ms s)) = counts (trace s)"
  by (simp add: do_sleep_def counts_act)
lemma counts_mark: "counts (trace (do_markRateLimited env em r m s)) = counts (trace s)"
  by (simp add: do_markRateLimited_def counts_act)
lemma counts_clearToken: "counts (trace (do_clearTokenCache env em s)) = counts (trace s)"
  by (simp add: do_clearTokenCache_def counts_act)
lemma counts_clearProject: "counts (trace (do_clearProjectCache env em s)) = counts (trace s)"
  by (simp add: do_clearProjectCache_def counts_act)
lemma counts_clearExpired: "counts (trace (do_clearExpiredLimits env s)) = counts (trace s)"
  by (simp add: do_clearExpiredLimits_def counts_act)
lemma counts_resetAll: "counts (trace (do_resetAllRateLimits env s)) = counts (trace s)"
  by (simp add: do_resetAllRateLimits_def counts_act)
lemma counts_fallbackEmit: "counts (trace (emitEmptyResponseFallback env m s)) = counts (trace s)"
  by (auto simp: emitEmptyResponseFallback_def yieldAll_def counts_def selections_append
      fallbacks_append selections_Yield fallbacks_Yield Let_def split: prod.splits)

lemmas counts_simps = counts_sleep counts_mark counts_clearToken counts_clearProject
  counts_clearExpired counts_resetAll counts_fallbackEmit

lemma counts_fetch: "do_fetch env u h p s = (r, s') \<Longrightarrow> counts (trace s') = counts (trace s)"
  by (simp add: do_fetch_def counts_call [where e = "Fetch u h p"])
lemma counts_token: "do_getTokenForAccount env a s = (r, s') \<Longrightarrow> counts (trace s') = counts (trace s)"
  by (simp add: do_getTokenForAccount_def counts_call [where e = "GetTokenForAccount a"])
lemma counts_project: "do_getProjectForAccount env a t s = (r, s') \<Longrightarrow> counts (trace s') = counts (trace s)"
  by (simp add: do_getProjectForAccount_def counts_call [where e = "GetProjectForAccount a t"])
lemma counts_pickNext: "do_pickNext env m s = (r, s') \<Longrightarrow> counts (trace s') = counts (trace s)"
  by (simp add: do_pickNext_def counts_call [where e = "PickNext m"])
lemma counts_currentSticky: "do_getCurrentStickyAccount env m s = (r, s') \<Longrightarrow> counts (trace s') = counts (trace s)"
  by (simp add: do_getCurrentStickyAccount_def counts_call [where e = "GetCurrentStickyAccount m"])
lemma counts_stream: "do_stream env resp m s = (r, s') \<Longrightarrow> counts (trace s') = counts (trace s)"
  by (auto simp: do_stream_def counts_def selections_append fallbacks_append selections_Yield
      fallbacks_Yield split: prod.splits)

lemmas counts_dests = counts_fetch counts_token counts_project counts_pickNext
  counts_currentSticky counts_stream

lemma counts_emptyRetryLoop:
  "counts (trace (snd (emptyRetryLoop env fuel url token m payload acct k resp s))) =
   counts (trace s)"
proof (induction env fuel url token m payload acct k resp s rule: emptyRetryLoop.induct)
  case (1 env fuel url token m payload acct k resp s)
  let ?H = "buildHeaders env token m ''text/event-stream''"
  obtain r s1 where str: "do_stream env resp m s = (r, s1)"
    by (cases "do_stream env resp m s")
  obtain f1 s3 where f1: "do_fetch env url ?H payload (do_sleep env (500 * 2 ^ nat k) s1) = (f1, s3)"
    by (cases "do_fetch env url ?H payload (do_sleep env (500 * 2 ^ nat k) s1)")
  obtain f2 s5 where f2: "do_fetch env url ?H payload (do_sleep env 1000 s3) = (f2, s5)"
    by (cases "do_fetch env url ?H payload (do_sleep env 1000 s3)")
  have c1: "counts (trace s1) = counts (trace s)"
    using counts_stream [OF str] .
  have c3: "counts (trace s3) = counts (trace s)"
    using counts_fetch [OF f1] c1 by (simp add: counts_simps)
  have c5: "counts (trace s5) = counts (trace s)"
    using counts_fetch [OF f2] c3 by (simp add: counts_simps)
  have ih1: "counts (trace (snd (emptyRetryLoop env n url token m payload acct (k - 1 + 1) ba s5)))
      = counts (trace s5)"
    if "k \<le> MAX_EMPTY_RESPONSE_RETRIES env" "r = Some x2" "isEmptyResponseError env x2"
      "\<not> MAX_EMPTY_RESPONSE_RETRIES env \<le> k" "f1 = Inr b" "\<not> ok b" "status b \<noteq> 429"
      "status b \<noteq> 401" "500 \<le> status b" "f2 = Inr ba" "ok ba" "fuel = Suc n"
    for x2 b ba n
    using "1.IH"(1) [OF that(1) str [symmetric] that(2) _ that(4) refl refl f1 [symmetric]
        that(5,6) refl that(7,8,9) refl f2 [symmetric] that(10,11,12)] that(3)
    by simp
  have ih2: "counts (trace (snd (emptyRetryLoop env fuel url token m payload acct (k + 1) b s3)))
      = counts (trace s3)"
    if "k \<le> MAX_EMPTY_RESPONSE_RETRIES env" "r = Some x2" "isEmptyResponseError env x2"
      "\<not> MAX_EMPTY_RESPONSE_RETRIES env \<le> k" "f1 = Inr b" "ok b"
    for x2 b
    using "1.IH"(2) [OF that(1) str [symmetric] that(2) _ that(4) refl refl f1 [symmetric]
        that(5)] that(3,6)
    by simp
  show ?case
    apply (subst emptyRetryLoop.simps)
    using str f1 f2 c1 c3 c5 ih1 ih2
    apply (auto simp: Let_def counts_simps split: option.splits sum.splits nat.splits)
    done
qed

lemma counts_snd_call:
  "selections [e] = 0 \<Longrightarrow> fallbacks [e] = 0 \<Longrightarrow>
   counts (trace (snd (call e f s))) = counts (trace s)"
  by (cases "call e f s") (simp add: counts_call)

lemma counts_snd_fetch: "counts (trace (snd (do_fetch env u h p s))) = counts (trace s)"
  by (simp add: do_fetch_def counts_snd_call)
lemma counts_snd_token: "counts (trace (snd (do_getTokenForAccount env a s))) = counts (trace s)"
  by (simp add: do_getTokenForAccount_def counts_snd_call)
lemma counts_snd_project:
  "counts (trace (snd (do_getProjectForAccount env a t s))) = counts (trace s)"
  by (simp add: do_getProjectForAccount_def counts_snd_call)
lemma counts_snd_pickNext: "counts (trace (snd (do_pickNext env m s))) = counts (trace s)"
  by (simp add: do_pickNext_def counts_snd_call)
lemma counts_snd_currentSticky:
  "counts (trace (snd (do_getCurrentStickyAccount env m s))) = counts (trace s)"
  by (simp add: do_getCurrentStickyAccount_def counts_snd_call)

lemma counts_snd_pickSticky:
  "counts (trace (snd (do_pickStickyAccount env m s))) =
   (Suc (selections (trace s)), fallbacks (trace s))"
  by (simp add: do_pickStickyAccount_def call_def counts_def selections_append
      fallbacks_append split_beta)

lemmas counts_snd = counts_snd_fetch counts_snd_token counts_snd_project counts_snd_pickNext
  counts_snd_currentSticky counts_emptyRetryLoop

lemma counts_afterEndpoints:
  "counts (trace (snd (afterEndpoints env req acct le s))) = counts (trace s)"
  by (cases le) (simp_all add: afterEndpoints_def Let_def counts_simps)

lemma counts_tryEndpoint:
  "counts (trace (snd (snd (tryEndpoint env fuel req acct token payload le endpoint s)))) =
   counts (trace s)"
  by (simp add: tryEndpoint_def Let_def split_beta counts_simps counts_snd split: sum.splits)

lemma counts_endpointLoop:
  "counts (trace (snd (endpointLoop env fuel req acct token payload le endpoints s))) =
   counts (trace s)"
proof (induction endpoints arbitrary: le s)
  case Nil
  show ?case by (simp add: counts_afterEndpoints)
next
  case (Cons endpoint rest)
  obtain fl le1 s1 where t:
    "tryEndpoint env fuel req acct token payload le endpoint s = (fl, le1, s1)"
    by (cases "tryEndpoint env fuel req acct token payload le endpoint s")
  have c1: "counts (trace s1) = counts (trace s)"
    using counts_tryEndpoint [of env fuel req acct token payload le endpoint s] t by simp
  show ?case
    using t c1 Cons.IH by (cases fl) simp_all
qed

lemma counts_tryAccount:
  "counts (trace (snd (tryAccount env fuel req acct s))) = counts (trace s)"
  by (simp add: tryAccount_def split_beta counts_snd counts_endpointLoop split: sum.splits)

lemma counts_handleAttemptError:
  "counts (trace (snd (handleAttemptError env m e s))) = counts (trace s)"
  by (simp add: handleAttemptError_def counts_snd counts_simps)

lemma counts_selectAccount:
  "counts (trace (snd (selectAccount env m s))) =
   (Suc (selections (trace s)), fallbacks (trace s))"
  by (simp add: selectAccount_def Let_def split_beta counts_snd counts_simps
      counts_snd_pickSticky split: option.splits sum.splits)

lemma sel_selectAccount:
  "selectAccount env m s = (r, s1) \<Longrightarrow>
   selections (trace s1) = Suc (selections (trace s)) \<and> fallbacks (trace s1) = fallbacks (trace s)"
  using counts_selectAccount [of env m s] by (simp add: counts_def)

lemma sel_tryAccount:
  "tryAccount env fuel req acct s = (r, s1) \<Longrightarrow>
   selections (trace s1) = selections (trace s) \<and> fallbacks (trace s1) = fallbacks (trace s)"
  using counts_tryAccount [of env fuel req acct s] by (simp add: counts_def)

lemma sel_handleAttemptError:
  "handleAttemptError env m e s = (r, s1) \<Longrightarrow>
   selections (trace s1) = selections (trace s) \<and> fallbacks (trace s1) = fallbacks (trace s)"
  using counts_handleAttemptError [of env m e s] by (simp add: counts_def)

lemma handleAttemptError_flow:
  "fst (handleAttemptError env m e s) = Next \<or> (fst (handleAttemptError env m e s) = Throw e)"
  by (simp add: handleAttemptError_def)

lemma attemptLoop_bounds:
  "loopBounds env fb maxA a s (snd (attemptLoop env fuel req fb maxA a s))"
proof (induction env fuel req fb maxA a s rule: attemptLoop.induct)
  case (1 env fuel req fb maxA a s)
  obtain r s1 where sel: "selectAccount env (model req) s = (r, s1)"
    by (cases "selectAccount env (model req) s")
  note c1 = sel_selectAccount [OF sel]
  show ?case
  proof (cases "a < maxA")
    case False
    show ?thesis
    proof (cases "fb \<and> fallbackFor env (model req) \<noteq> None")
      case True
      then obtain fm where fm: "fallbackFor env (model req) = Some fm" and fb: fb by auto
      let ?s2 = "\<lparr>world = world s, trace = trace s @ [WarnFallback (model req) fm]\<rparr>"
      from "1.IH"(4) [OF False fb fm refl refl]
      have "loopBounds env False (maxAttemptsOf env ?s2) 0 ?s2
              (snd (attemptLoop env fuel (req\<lparr>model := fm\<rparr>) False (maxAttemptsOf env ?s2) 0 ?s2))"
        by simp
      then show ?thesis
        using False fb fm
        by (subst attemptLoop.simps) (auto simp: Let_def fallbacks_append selections_append loopBounds_def maxAttemptsOf_def)
    next
      case nofb: False
      then show ?thesis
        using False by (subst attemptLoop.simps) (auto simp: loopBounds_def split: option.splits)
    qed
  next
    case lt: True
    show ?thesis
    proof (cases r)
      case (Inl e)
      then show ?thesis
        using lt sel c1 by (subst attemptLoop.simps) (auto simp: loopBounds_def)
    next
      case (Inr ao)
      show ?thesis
      proof (cases ao)
        case None
        show ?thesis
        proof (cases "fb \<and> fallbackFor env (model req) \<noteq> None")
          case True
          then obtain fm where fm: "fallbackFor env (model req) = Some fm" and fb: fb by auto
          let ?s2 = "\<lparr>world = world s1, trace = trace s1 @ [WarnFallback (model req) fm]\<rparr>"
          from "1.IH"(1) [OF lt sel [symmetric] Inr None fb fm refl refl]
          have "loopBounds env False (maxAttemptsOf env ?s2) 0 ?s2
                  (snd (attemptLoop env fuel (req\<lparr>model := fm\<rparr>) False (maxAttemptsOf env ?s2) 0 ?s2))"
            by simp
          then show ?thesis
            using lt sel Inr None fb fm c1
            by (subst attemptLoop.simps) (auto simp: Let_def fallbacks_append selections_append loopBounds_def maxAttemptsOf_def)
        next
          case nofb: False
          then show ?thesis
            using lt sel Inr None c1
            by (subst attemptLoop.simps) (auto simp: loopBounds_def split: option.splits)
        qed
      next
        case (Some acct)
        obtain fl s2 where ta: "tryAccount env fuel req acct s1 = (fl, s2)"
          by (cases "tryAccount env fuel req acct s1")
        note c2 = sel_tryAccount [OF ta]
        show ?thesis
        proof (cases fl)
          case Return
          then show ?thesis
            using lt sel Inr Some ta c1 c2 by (subst attemptLoop.simps) (auto simp: loopBounds_def)
        next
          case OutOfFuel
          then show ?thesis
            using lt sel Inr Some ta c1 c2 by (subst attemptLoop.simps) (auto simp: loopBounds_def)
        next
          case Next
          from "1.IH"(3) [OF lt sel [symmetric] Inr Some ta [symmetric] Next]
          show ?thesis
            using lt sel Inr Some ta Next c1 c2 by (subst attemptLoop.simps) (auto simp: loopBounds_def)
        next
          case (Throw err)
          obtain fl3 s3 where h: "handleAttemptError env (model req) err s2 = (fl3, s3)"
            by (cases "handleAttemptError env (model req) err s2")
          note c3 = sel_handleAttemptError [OF h]
          show ?thesis
          proof (cases fl3)
            case Next
            from "1.IH"(2) [OF lt sel [symmetric] Inr Some ta [symmetric] Throw h [symmetric] Next]
            show ?thesis
              using lt sel Inr Some ta Throw h Next c1 c2 c3 by (subst attemptLoop.simps) (auto simp: loopBounds_def)
          qed (use lt sel Inr Some ta Throw h c1 c2 c3 in \<open>(subst attemptLoop.simps, auto simp: loopBounds_def)+\<close>)
        qed
      qed
    qed
  qed
qed

section \<open>Properties of the retry loop of sendMessageStream\<close>

lemma attemptLoop_exhausted:
  "\<not> a < maxA \<Longrightarrow>
   attemptLoop env fuel req False maxA a s = (Throw (Error ''Max retries exceeded''), s)"
  by (subst attemptLoop.simps) simp

lemma attemptLoop_fallback_after:
  "\<not> a < maxA \<Longrightarrow> fallbackFor env (model req) = Some fm \<Longrightarrow>
   attemptLoop env fuel req True maxA a s =
     sendMessageStream env fuel (req\<lparr>model := fm\<rparr>) False
       \<lparr>world = world s, trace = trace s @ [WarnFallback (model req) fm]\<rparr>"
  by (subst attemptLoop.simps) (simp add: sendMessageStream_def Let_def)

lemma attemptLoop_fallback_none:
  "a < maxA \<Longrightarrow> selectAccount env (model req) s = (Inr None, s1) \<Longrightarrow>
   fallbackFor env (model req) = Some fm \<Longrightarrow>
   attemptLoop env fuel req True maxA a s =
     sendMessageStream env fuel (req\<lparr>model := fm\<rparr>) False
       \<lparr>world = world s1, trace = trace s1 @ [WarnFallback (model req) fm]\<rparr>"
  by (subst attemptLoop.simps) (simp add: sendMessageStream_def Let_def)

lemma attemptLoop_no_accounts:
  "a < maxA \<Longrightarrow> selectAccount env (model req) s = (Inr None, s1) \<Longrightarrow>
   attemptLoop env fuel req False maxA a s = (Throw (Error ''No accounts available''), s1)"
  by (subst attemptLoop.simps) simp

text \<open>
  C2. In every run of \<^verbatim>\<open>sendMessageStream\<close> started on an empty trace the fallback
  substitution happens at most once (never when \<^verbatim>\<open>fallbackEnabled\<close> is false). Both
  places that substitute the fallback model continue as
  \<^verbatim>\<open>sendMessageStream(fallbackRequest, accountManager, false)\<close>; and with
  \<^verbatim>\<open>fallbackEnabled = false\<close> the exhaustion of the attempts raises
  \<^verbatim>\<open>Max retries exceeded\<close> and the lack of an account raises
  \<^verbatim>\<open>No accounts available\<close>: the second exhaustion is terminal.
\<close>

theorem fallback_fires_at_most_once:
  "fallbacks (trace (snd (sendMessageStream env fuel req fallbackEnabled (fresh w))))
     \<le> (if fallbackEnabled then 1 else 0) \<and>
   attemptLoop env fuel req False maxA maxA s = (Throw (Error ''Max retries exceeded''), s) \<and>
   (\<not> a < maxA \<and> fallbackFor env (model req) = Some fm \<longrightarrow>
      attemptLoop env fuel req True maxA a s =
        sendMessageStream env fuel (req\<lparr>model := fm\<rparr>) False
          \<lparr>world = world s, trace = trace s @ [WarnFallback (model req) fm]\<rparr>) \<and>
   (a < maxA \<and> selectAccount env (model req) s = (Inr None, s1) \<and>
      fallbackFor env (model req) = Some fm \<longrightarrow>
      attemptLoop env fuel req True maxA a s =
        sendMessageStream env fuel (req\<lparr>model := fm\<rparr>) False
          \<lparr>world = world s1, trace = trace s1 @ [WarnFallback (model req) fm]\<rparr>) \<and>
   (a < maxA \<and> selectAccount env (model req) s = (Inr None, s1) \<longrightarrow>
      attemptLoop env fuel req False maxA a s = (Throw (Error ''No accounts available''), s1))"
proof -
  have "fallbacks (trace (snd (sendMessageStream env fuel req fallbackEnabled (fresh w))))
     \<le> (if fallbackEnabled then 1 else 0)"
    using attemptLoop_bounds [of env fallbackEnabled "maxAttemptsOf env (fresh w)" 0 "fresh w" fuel req]
    by (simp add: loopBounds_def sendMessageStream_def fresh_def)
  then show ?thesis
    using attemptLoop_exhausted [of maxA maxA env fuel req s]
      attemptLoop_fallback_after [of a maxA env req fm fuel s]
      attemptLoop_fallback_none [of a maxA env req s s1 fm fuel]
      attemptLoop_no_accounts [of a maxA env req s s1 fuel]
    by simp
qed

text \<open>
  C1, as the code has it. One invocation of \<^verbatim>\<open>sendMessageStream\<close> with the fallback
  disabled (so also the nested invocation for the fallback model) makes at most
  \<^verbatim>\<open>max(MAX_RETRIES, getAccountCount() + 1)\<close> selections, the count read when it
  starts, however far the run gets. A request with the fallback enabled makes at most
  twice that many when the number of accounts does not change meanwhile: its own run and
  one nested run. This bounds the passes of the retry loop; it does not say that a pass
  ends, nor which accounts the passes select.
\<close>

theorem selection_attempts_bounded:
  "selections (trace (snd (sendMessageStream env fuel req False (fresh w))))
     \<le> nat (max (MAX_RETRIES env) (getAccountCount env w + 1)) \<and>
   ((\<forall>w'. getAccountCount env w' = n) \<longrightarrow>
      selections (trace (snd (sendMessageStream env fuel req fallbackEnabled (fresh w))))
        \<le> (if fallbackEnabled then 2 else 1) * nat (max (MAX_RETRIES env) (n + 1)))"
proof -
  have a: "selections (trace (snd (sendMessageStream env fuel req False (fresh w))))
     \<le> nat (max (MAX_RETRIES env) (getAccountCount env w + 1))"
    using attemptLoop_bounds [of env False "maxAttemptsOf env (fresh w)" 0 "fresh w" fuel req]
    by (simp add: loopBounds_def sendMessageStream_def fresh_def maxAttemptsOf_def)
  have b: "(\<forall>w'. getAccountCount env w' = n) \<longrightarrow>
      selections (trace (snd (sendMessageStream env fuel req fallbackEnabled (fresh w))))
        \<le> (if fallbackEnabled then 2 else 1) * nat (max (MAX_RETRIES env) (n + 1))"
    using attemptLoop_bounds [of env fallbackEnabled "maxAttemptsOf env (fresh w)" 0 "fresh w" fuel req]
    by (auto simp: loopBounds_def sendMessageStream_def fresh_def maxAttemptsOf_def)
  from a b show ?thesis by blast
qed

lemma offline_run:
  "sendMessageStream offlineEnv 0 demoRequest True (fresh ()) =
     (Throw (Error ''Max retries exceeded''),
      \<lparr>world = (),
       trace =
         [PickStickyAccount ''model-a'', GetTokenForAccount accountA, Sleep 1000, PickNext ''model-a'',
          PickStickyAccount ''model-a'', GetTokenForAccount accountA, Sleep 1000, PickNext ''model-a'',
          PickStickyAccount ''model-a'', GetTokenForAccount accountA, Sleep 1000, PickNext ''model-a'',
          WarnFallback ''model-a'' ''model-b'',
          PickStickyAccount ''model-b'', GetTokenForAccount accountA, Sleep 1000, PickNext ''model-b'',
          PickStickyAccount ''model-b'', GetTokenForAccount accountA, Sleep 1000, PickNext ''model-b'',
          PickStickyAccount ''model-b'', GetTokenForAccount accountA, Sleep 1000, PickNext ''model-b'']\<rparr>)"
  by (simp add: sendMessageStream_def maxAttemptsOf_def fresh_def offlineEnv_def demoEnv_def
      demoRequest_def fallbackFor_def
      attemptLoop.simps selectAccount_def do_pickStickyAccount_def call_def tryAccount_def
      do_getTokenForAccount_def handleAttemptError_def do_pickNext_def do_sleep_def act_def)

lemma flaky_loop_never_returns:
  "odd (world s) \<Longrightarrow>
   fst (emptyRetryLoop flakyEnv fuel url token m payload acct 0 okResponse s) = OutOfFuel"
proof (induction fuel arbitrary: s)
  case 0
  then show ?case
    by (subst emptyRetryLoop.simps)
      (simp add: flakyEnv_def demoEnv_def do_stream_def do_sleep_def act_def do_fetch_def
        call_def ok_def okResponse_def Let_def)
next
  case (Suc fuel)
  let ?H = "buildHeaders flakyEnv token m ''text/event-stream''"
  let ?s5 = "\<lparr>world = Suc (Suc (world s)),
      trace = trace s @ [Sleep 500, Fetch url ?H payload, Sleep 1000, Fetch url ?H payload]\<rparr>"
  have "emptyRetryLoop flakyEnv (Suc fuel) url token m payload acct 0 okResponse s =
      emptyRetryLoop flakyEnv fuel url token m payload acct 0 okResponse ?s5"
    using Suc.prems
    by (subst emptyRetryLoop.simps)
      (simp add: flakyEnv_def demoEnv_def do_stream_def do_sleep_def act_def do_fetch_def
        call_def ok_def okResponse_def Let_def)
  moreover have "odd (world ?s5)"
    using Suc.prems by simp
  ultimately show ?case
    using Suc.IH [of ?s5] by simp
qed

lemma flaky_never_returns:
  "fst (sendMessageStream flakyEnv fuel demoRequest fb (fresh 0)) = OutOfFuel \<and>
   selections (trace (snd (sendMessageStream flakyEnv fuel demoRequest fb (fresh 0)))) = 1"
proof -
  let ?U = "''https://daily/v1internal:streamGenerateContent?alt=sse''"
  let ?s1 = "\<lparr>world = Suc 0,
      trace = [PickStickyAccount ''model-a'', GetTokenForAccount accountA,
               GetProjectForAccount accountA ''tok'',
               Fetch ?U (JObj [(''Authorization'', JStr ''tok'')])
                 (JObj [(''project'', JStr ''proj'')])]\<rparr>"
  let ?L = "emptyRetryLoop flakyEnv fuel ?U ''tok'' ''model-a''
      (JObj [(''project'', JStr ''proj'')]) accountA 0 okResponse ?s1"
  have f: "fst ?L = OutOfFuel"
    by (rule flaky_loop_never_returns) simp
  have c: "counts (trace (snd ?L)) = counts (trace ?s1)"
    by (rule counts_emptyRetryLoop)
  obtain fl s2 where L: "?L = (fl, s2)" by (cases ?L)
  with f c have fl: "fl = OutOfFuel" and s2: "selections (trace s2) = 1"
    by (simp_all add: counts_def)
  have "sendMessageStream flakyEnv fuel demoRequest fb (fresh 0) = (OutOfFuel, s2)"
    using L fl
    by (simp add: sendMessageStream_def maxAttemptsOf_def fresh_def flakyEnv_def demoEnv_def
        demoRequest_def attemptLoop.simps selectAccount_def do_pickStickyAccount_def call_def
        tryAccount_def do_getTokenForAccount_def do_getProjectForAccount_def tryEndpoint_def
        do_fetch_def okResponse_def ok_def Let_def)
  with s2 show ?thesis by simp
qed

text \<open>
  C1 as stated fails: with two accounts, \<^verbatim>\<open>MAX_RETRIES = 1\<close>, an account manager
  whose sticky selection stays on the first account, a network that is down and a
  fallback model, one request makes 6 selections, more than the bound 3, and raises
  \<^verbatim>\<open>Max retries exceeded\<close> without ever asking a token for the second account. And
  the bound does not make the run end: against an upstream that answers 200 and 503 in
  turn with empty streams, the first pass never leaves the empty-response loop (line 215
  takes back the increment of the counter each time); the run is out of fuel after one
  selection, here with fuel 0, 3 and 10, and by \<open>flaky_never_returns\<close> with any fuel.
\<close>

theorem selection_attempts_counterexample:
  "selections (trace (snd (sendMessageStream offlineEnv 0 demoRequest True (fresh ())))) = 6 \<and>
   nat (max (MAX_RETRIES offlineEnv) (getAccountCount offlineEnv () + 1)) = 3 \<and>
   \<not> selections (trace (snd (sendMessageStream offlineEnv 0 demoRequest True (fresh ()))))
       \<le> nat (max (MAX_RETRIES offlineEnv) (getAccountCount offlineEnv () + 1)) \<and>
   fst (sendMessageStream offlineEnv 0 demoRequest True (fresh ())) =
     Throw (Error ''Max retries exceeded'') \<and>
   GetTokenForAccount accountB \<notin>
     set (trace (snd (sendMessageStream offlineEnv 0 demoRequest True (fresh ())))) \<and>
   fst (sendMessageStream flakyEnv 0 demoRequest False (fresh 0)) = OutOfFuel \<and>
   fst (sendMessageStream flakyEnv 3 demoRequest False (fresh 0)) = OutOfFuel \<and>
   fst (sendMessageStream flakyEnv 10 demoRequest False (fresh 0)) = OutOfFuel \<and>
   selections (trace (snd (sendMessageStream flakyEnv 10 demoRequest False (fresh 0)))) = 1"
proof -
  have "selections (trace (snd (sendMessageStream offlineEnv 0 demoRequest True (fresh ())))) = 6 \<and>
   nat (max (MAX_RETRIES offlineEnv) (getAccountCount offlineEnv () + 1)) = 3 \<and>
   \<not> selections (trace (snd (sendMessageStream offlineEnv 0 demoRequest True (fresh ()))))
       \<le> nat (max (MAX_RETRIES offlineEnv) (getAccountCount offlineEnv () + 1)) \<and>
   fst (sendMessageStream offlineEnv 0 demoRequest True (fresh ())) =
     Throw (Error ''Max retries exceeded'') \<and>
   GetTokenForAccount accountB \<notin>
     set (trace (snd (sendMessageStream offlineEnv 0 demoRequest True (fresh ()))))"
    by (simp add: offline_run) (simp add: offlineEnv_def demoEnv_def accountA_def accountB_def)
  with flaky_never_returns [of 0 False] flaky_never_returns [of 3 False]
    flaky_never_returns [of 10 False]
  show ?thesis by blast
qed

theorem selection_attempts_bounded_witness:
  "(\<forall>w'. getAccountCount offlineEnv w' = 2) \<and>
   selections (trace (snd (sendMessageStream offlineEnv 0 demoRequest True (fresh ())))) = 6 \<and>
   (6 :: nat) \<le> 2 * nat (max (MAX_RETRIES offlineEnv) (2 + 1))"
  using selection_attempts_bounded [of offlineEnv 0 demoRequest "()" 2 True]
  by (simp add: offline_run) (simp add: offlineEnv_def demoEnv_def)

lemma no_account_select:
  "selectAccount noAccountEnv ''model-a'' (fresh ()) =
     (Inr None, \<lparr>world = (), trace = [PickStickyAccount ''model-a'']\<rparr>)"
  by (simp add: selectAccount_def noAccountEnv_def demoEnv_def do_pickStickyAccount_def call_def
      fresh_def)

theorem fallback_fires_at_most_once_witness:
  "fallbacks (trace (snd (sendMessageStream offlineEnv 0 demoRequest True (fresh ())))) = 1 \<and>
   \<not> (3 :: int) < 3 \<and>
   fallbackFor offlineEnv (model demoRequest) = Some ''model-b'' \<and>
   attemptLoop offlineEnv 0 demoRequest True 3 3 (fresh ()) =
     sendMessageStream offlineEnv 0 (demoRequest\<lparr>model := ''model-b''\<rparr>) False
       \<lparr>world = (), trace = [WarnFallback ''model-a'' ''model-b'']\<rparr> \<and>
   (0 :: int) < 3 \<and>
   selectAccount noAccountEnv (model demoRequest) (fresh ()) =
     (Inr None, \<lparr>world = (), trace = [PickStickyAccount ''model-a'']\<rparr>) \<and>
   fallbackFor noAccountEnv (model demoRequest) = Some ''model-b'' \<and>
   attemptLoop noAccountEnv 0 demoRequest True 3 0 (fresh ()) =
     sendMessageStream noAccountEnv 0 (demoRequest\<lparr>model := ''model-b''\<rparr>) False
       \<lparr>world = (), trace = [PickStickyAccount ''model-a'', WarnFallback ''model-a'' ''model-b'']\<rparr> \<and>
   attemptLoop noAccountEnv 0 demoRequest False 3 0 (fresh ()) =
     (Throw (Error ''No accounts available''),
      \<lparr>world = (), trace = [PickStickyAccount ''model-a'']\<rparr>)"
proof -
  have h1: "fallbackFor offlineEnv (model demoRequest) = Some ''model-b''"
    by (simp add: fallbackFor_def offlineEnv_def demoEnv_def demoRequest_def)
  have h2: "fallbackFor noAccountEnv (model demoRequest) = Some ''model-b''"
    by (simp add: fallbackFor_def noAccountEnv_def demoEnv_def demoRequest_def)
  have h3: "selectAccount noAccountEnv (model demoRequest) (fresh ()) =
     (Inr None, \<lparr>world = (), trace = [PickStickyAccount ''model-a'']\<rparr>)"
    by (simp add: no_account_select demoRequest_def)
  have h4: "fallbacks (trace (snd (sendMessageStream offlineEnv 0 demoRequest True (fresh ())))) = 1"
    by (simp add: offline_run)
  have m: "model demoRequest = ''model-a''"
    by (simp add: demoRequest_def)
  from fallback_fires_at_most_once [of offlineEnv 0 demoRequest True "()" 3 "fresh ()" 3 "''model-b''"] h1
  have c1: "attemptLoop offlineEnv 0 demoRequest True 3 3 (fresh ()) =
     sendMessageStream offlineEnv 0 (demoRequest\<lparr>model := ''model-b''\<rparr>) False
       \<lparr>world = (), trace = [WarnFallback ''model-a'' ''model-b'']\<rparr>"
    by (simp add: m fresh_def)
  from fallback_fires_at_most_once [of noAccountEnv 0 demoRequest True "()" 3 "fresh ()" 0 "''model-b''"
      "\<lparr>world = (), trace = [PickStickyAccount ''model-a'']\<rparr>"] h2 h3
  have c2: "attemptLoop noAccountEnv 0 demoRequest True 3 0 (fresh ()) =
     sendMessageStream noAccountEnv 0 (demoRequest\<lparr>model := ''model-b''\<rparr>) False
       \<lparr>world = (), trace = [PickStickyAccount ''model-a'', WarnFallback ''model-a'' ''model-b'']\<rparr>"
    and c3: "attemptLoop noAccountEnv 0 demoRequest False 3 0 (fresh ()) =
     (Throw (Error ''No accounts available''),
      \<lparr>world = (), trace = [PickStickyAccount ''model-a'']\<rparr>)"
    by (simp_all add: m)
  from h1 h2 h3 h4 c1 c2 c3 show ?thesis by simp
qed

section \<open>Failing fast when every account is rate-limited\<close>

lemma selectAccount_exhausted_now:
  assumes "pickStickyAccount env m (world s) = ((None, waitMs), w1)" "waitMs \<le> 0"
    "isAllRateLimited env m w1" "getMinWaitTimeMs env m w1 > MAX_WAIT_BEFORE_ERROR_MS env"
    "newDateToISOString env (now env w1 + getMinWaitTimeMs env m w1) = Inr resetTime"
  shows "selectAccount env m s =
     (Inl (Error (exhaustedMessage env m (getMinWaitTimeMs env m w1) resetTime)),
      \<lparr>world = w1, trace = trace s @ [PickStickyAccount m]\<rparr>)"
  using assms
  by (simp add: selectAccount_def do_pickStickyAccount_def call_def Let_def)

lemma selectAccount_exhausted_after_wait:
  assumes "pickStickyAccount env m (world s) = ((None, waitMs), w1)" "waitMs > 0"
    "getCurrentStickyAccount env m (clearExpiredLimits env (sleep env waitMs w1)) = (None, w2)"
    "isAllRateLimited env m w2" "getMinWaitTimeMs env m w2 > MAX_WAIT_BEFORE_ERROR_MS env"
    "newDateToISOString env (now env w2 + getMinWaitTimeMs env m w2) = Inr resetTime"
  shows "selectAccount env m s =
     (Inl (Error (exhaustedMessage env m (getMinWaitTimeMs env m w2) resetTime)),
      \<lparr>world = w2,
       trace = trace s @ [PickStickyAccount m, Sleep waitMs, ClearExpiredLimits,
                          GetCurrentStickyAccount m]\<rparr>)"
  using assms
  by (simp add: selectAccount_def do_pickStickyAccount_def do_getCurrentStickyAccount_def
      do_clearExpiredLimits_def do_sleep_def act_def call_def Let_def)

lemma selectAccount_invalid_time:
  assumes "pickStickyAccount env m (world s) = ((None, waitMs), w1)" "waitMs \<le> 0"
    "isAllRateLimited env m w1"
    "newDateToISOString env (now env w1 + getMinWaitTimeMs env m w1) = Inl e"
  shows "selectAccount env m s = (Inl e, \<lparr>world = w1, trace = trace s @ [PickStickyAccount m]\<rparr>)"
  using assms
  by (simp add: selectAccount_def do_pickStickyAccount_def call_def Let_def)

lemma attemptLoop_select_throws:
  "a < maxA \<Longrightarrow> selectAccount env (model req) s = (Inl e, s1) \<Longrightarrow>
   attemptLoop env fuel req fb maxA a s = (Throw e, s1)"
  by (subst attemptLoop.simps) simp

text \<open>
  In a pass of the retry loop where \<^verbatim>\<open>pickStickyAccount\<close> offers no account and no wait,
  every account is rate-limited for the model, the minimum wait exceeds
  \<^verbatim>\<open>MAX_WAIT_BEFORE_ERROR_MS\<close> and \<^verbatim>\<open>now + wait\<close> is a time that \<^verbatim>\<open>toISOString\<close> can
  write, the error \<^verbatim>\<open>RESOURCE_EXHAUSTED\<close> is raised at once: the pass adds the selection to
  the trace and no sleep. So does the first pass of \<^verbatim>\<open>sendMessageStream\<close>. When the
  sticky selection asked for a wait, that wait is slept and the selection repeated; if it
  still gives no account, the error is raised without sleeping for the cooldown. The message
  carries the formatted wait and the time \<^verbatim>\<open>now + wait\<close>.
\<close>

theorem rate_limit_ceiling_fails_fast:
  "(a < maxA \<and> pickStickyAccount env (model req) (world s) = ((None, waitMs), w1) \<and>
      waitMs \<le> 0 \<and> isAllRateLimited env (model req) w1 \<and>
      getMinWaitTimeMs env (model req) w1 > MAX_WAIT_BEFORE_ERROR_MS env \<and>
      newDateToISOString env (now env w1 + getMinWaitTimeMs env (model req) w1) = Inr t1 \<longrightarrow>
      attemptLoop env fuel req fb maxA a s =
        (Throw (Error (exhaustedMessage env (model req) (getMinWaitTimeMs env (model req) w1) t1)),
         \<lparr>world = w1, trace = trace s @ [PickStickyAccount (model req)]\<rparr>)) \<and>
   (a < maxA \<and> pickStickyAccount env (model req) (world s) = ((None, waitMs), w1) \<and>
      waitMs > 0 \<and>
      getCurrentStickyAccount env (model req) (clearExpiredLimits env (sleep env waitMs w1))
        = (None, w2) \<and>
      isAllRateLimited env (model req) w2 \<and>
      getMinWaitTimeMs env (model req) w2 > MAX_WAIT_BEFORE_ERROR_MS env \<and>
      newDateToISOString env (now env w2 + getMinWaitTimeMs env (model req) w2) = Inr t2 \<longrightarrow>
      attemptLoop env fuel req fb maxA a s =
        (Throw (Error (exhaustedMessage env (model req) (getMinWaitTimeMs env (model req) w2) t2)),
         \<lparr>world = w2,
          trace = trace s @ [PickStickyAccount (model req), Sleep waitMs, ClearExpiredLimits,
                             GetCurrentStickyAccount (model req)]\<rparr>)) \<and>
   (0 \<le> getAccountCount env w \<and> pickStickyAccount env (model req) w = ((None, waitMs), w1) \<and>
      waitMs \<le> 0 \<and> isAllRateLimited env (model req) w1 \<and>
      getMinWaitTimeMs env (model req) w1 > MAX_WAIT_BEFORE_ERROR_MS env \<and>
      newDateToISOString env (now env w1 + getMinWaitTimeMs env (model req) w1) = Inr t1 \<longrightarrow>
      sendMessageStream env fuel req fb (fresh w) =
        (Throw (Error (exhaustedMessage env (model req) (getMinWaitTimeMs env (model req) w1) t1)),
         \<lparr>world = w1, trace = [PickStickyAccount (model req)]\<rparr>)) \<and>
   exhaustedMessage env m allWaitMs resetTime =
     ''RESOURCE_EXHAUSTED: Rate limited on '' @ m @ ''. Quota will reset after '' @
       formatDuration env allWaitMs @ ''. Next available: '' @ resetTime"
proof -
  have a: "a < maxA \<and> pickStickyAccount env (model req) (world s) = ((None, waitMs), w1) \<and>
      waitMs \<le> 0 \<and> isAllRateLimited env (model req) w1 \<and>
      getMinWaitTimeMs env (model req) w1 > MAX_WAIT_BEFORE_ERROR_MS env \<and>
      newDateToISOString env (now env w1 + getMinWaitTimeMs env (model req) w1) = Inr t1 \<longrightarrow>
      attemptLoop env fuel req fb maxA a s =
        (Throw (Error (exhaustedMessage env (model req) (getMinWaitTimeMs env (model req) w1) t1)),
         \<lparr>world = w1, trace = trace s @ [PickStickyAccount (model req)]\<rparr>)"
    using attemptLoop_select_throws [of a maxA env req s _ _ fuel fb]
      selectAccount_exhausted_now [of env "model req" s waitMs w1 t1]
    by blast
  have b: "a < maxA \<and> pickStickyAccount env (model req) (world s) = ((None, waitMs), w1) \<and>
      waitMs > 0 \<and>
      getCurrentStickyAccount env (model req) (clearExpiredLimits env (sleep env waitMs w1))
        = (None, w2) \<and>
      isAllRateLimited env (model req) w2 \<and>
      getMinWaitTimeMs env (model req) w2 > MAX_WAIT_BEFORE_ERROR_MS env \<and>
      newDateToISOString env (now env w2 + getMinWaitTimeMs env (model req) w2) = Inr t2 \<longrightarrow>
      attemptLoop env fuel req fb maxA a s =
        (Throw (Error (exhaustedMessage env (model req) (getMinWaitTimeMs env (model req) w2) t2)),
         \<lparr>world = w2,
          trace = trace s @ [PickStickyAccount (model req), Sleep waitMs, ClearExpiredLimits,
                             GetCurrentStickyAccount (model req)]\<rparr>)"
    using attemptLoop_select_throws [of a maxA env req s _ _ fuel fb]
      selectAccount_exhausted_after_wait [of env "model req" s waitMs w1 w2 t2]
    by blast
  have c: "0 \<le> getAccountCount env w \<and> pickStickyAccount env (model req) w = ((None, waitMs), w1) \<and>
      waitMs \<le> 0 \<and> isAllRateLimited env (model req) w1 \<and>
      getMinWaitTimeMs env (model req) w1 > MAX_WAIT_BEFORE_ERROR_MS env \<and>
      newDateToISOString env (now env w1 + getMinWaitTimeMs env (model req) w1) = Inr t1 \<longrightarrow>
      sendMessageStream env fuel req fb (fresh w) =
        (Throw (Error (exhaustedMessage env (model req) (getMinWaitTimeMs env (model req) w1) t1)),
         \<lparr>world = w1, trace = [PickStickyAccount (model req)]\<rparr>)"
  proof (intro impI, elim conjE)
    assume h: "0 \<le> getAccountCount env w"
      "pickStickyAccount env (model req) w = ((None, waitMs), w1)" "waitMs \<le> 0"
      "isAllRateLimited env (model req) w1"
      "getMinWaitTimeMs env (model req) w1 > MAX_WAIT_BEFORE_ERROR_MS env"
      "newDateToISOString env (now env w1 + getMinWaitTimeMs env (model req) w1) = Inr t1"
    have lt: "0 < maxAttemptsOf env (fresh w)"
      using h(1) by (simp add: maxAttemptsOf_def fresh_def)
    have "selectAccount env (model req) (fresh w) =
      (Inl (Error (exhaustedMessage env (model req) (getMinWaitTimeMs env (model req) w1) t1)),
       \<lparr>world = w1, trace = trace (fresh w) @ [PickStickyAccount (model req)]\<rparr>)"
      using selectAccount_exhausted_now [of env "model req" "fresh w" waitMs w1 t1] h
      by (simp add: fresh_def)
    from attemptLoop_select_throws [OF lt this]
    show "sendMessageStream env fuel req fb (fresh w) =
        (Throw (Error (exhaustedMessage env (model req) (getMinWaitTimeMs env (model req) w1) t1)),
         \<lparr>world = w1, trace = [PickStickyAccount (model req)]\<rparr>)"
      by (simp add: sendMessageStream_def fresh_def)
  qed
  have d: "exhaustedMessage env m allWaitMs resetTime =
     ''RESOURCE_EXHAUSTED: Rate limited on '' @ m @ ''. Quota will reset after '' @
       formatDuration env allWaitMs @ ''. Next available: '' @ resetTime"
    by (simp add: exhaustedMessage_def)
  from a b c d show ?thesis by blast
qed

lemma showNat_300: "showNat 300000 = ''300000''" "showNat 301000 = ''301000''"
  by (simp_all add: showNat.simps digitChar_def)

theorem rate_limit_ceiling_fails_fast_witness:
  "(0 :: int) < 3 \<and>
   pickStickyAccount exhaustedEnv ''model-a'' () = ((None, 0), ()) \<and>
   isAllRateLimited exhaustedEnv ''model-a'' () \<and>
   getMinWaitTimeMs exhaustedEnv ''model-a'' () > MAX_WAIT_BEFORE_ERROR_MS exhaustedEnv \<and>
   attemptLoop exhaustedEnv 0 demoRequest True 3 0 (fresh ()) =
     (Throw (Error (''RESOURCE_EXHAUSTED: Rate limited on model-a. '' @
                    ''Quota will reset after 300000ms. Next available: T+301000'')),
      \<lparr>world = (), trace = [PickStickyAccount ''model-a'']\<rparr>) \<and>
   sendMessageStream exhaustedEnv 0 demoRequest True (fresh ()) =
     (Throw (Error (''RESOURCE_EXHAUSTED: Rate limited on model-a. '' @
                    ''Quota will reset after 300000ms. Next available: T+301000'')),
      \<lparr>world = (), trace = [PickStickyAccount ''model-a'']\<rparr>) \<and>
   pickStickyAccount stickyWaitEnv ''model-a'' () = ((None, 2000), ()) \<and>
   getCurrentStickyAccount stickyWaitEnv ''model-a''
     (clearExpiredLimits stickyWaitEnv (sleep stickyWaitEnv 2000 ())) = (None, ()) \<and>
   attemptLoop stickyWaitEnv 0 demoRequest True 3 0 (fresh ()) =
     (Throw (Error (''RESOURCE_EXHAUSTED: Rate limited on model-a. '' @
                    ''Quota will reset after 300000ms. Next available: T+301000'')),
      \<lparr>world = (),
       trace = [PickStickyAccount ''model-a'', Sleep 2000, ClearExpiredLimits,
                GetCurrentStickyAccount ''model-a'']\<rparr>)"
proof -
  have m: "model demoRequest = ''model-a''"
    by (simp add: demoRequest_def)
  have e: "pickStickyAccount exhaustedEnv ''model-a'' () = ((None, 0), ())"
    "isAllRateLimited exhaustedEnv ''model-a'' ()"
    "getMinWaitTimeMs exhaustedEnv ''model-a'' () = 300000"
    "MAX_WAIT_BEFORE_ERROR_MS exhaustedEnv = 120000"
    "getAccountCount exhaustedEnv () = 2"
    "now exhaustedEnv () = 1000"
    "newDateToISOString exhaustedEnv 301000 = Inr ''T+301000''"
    "formatDuration exhaustedEnv 300000 = ''300000ms''"
    by (simp_all add: exhaustedEnv_def demoEnv_def showInt_def showNat_300 newDateToISOString_def)
  have w: "pickStickyAccount stickyWaitEnv ''model-a'' () = ((None, 2000), ())"
    "getCurrentStickyAccount stickyWaitEnv ''model-a''
       (clearExpiredLimits stickyWaitEnv (sleep stickyWaitEnv 2000 ())) = (None, ())"
    "isAllRateLimited stickyWaitEnv ''model-a'' ()"
    "getMinWaitTimeMs stickyWaitEnv ''model-a'' () = 300000"
    "MAX_WAIT_BEFORE_ERROR_MS stickyWaitEnv = 120000"
    "now stickyWaitEnv () = 1000"
    "newDateToISOString stickyWaitEnv 301000 = Inr ''T+301000''"
    "formatDuration stickyWaitEnv 300000 = ''300000ms''"
    by (simp_all add: stickyWaitEnv_def demoEnv_def showInt_def showNat_300 newDateToISOString_def)
  from rate_limit_ceiling_fails_fast [where a = 0 and maxA = 3
      and env = exhaustedEnv and req = demoRequest and s = "fresh ()" and waitMs = 0
      and ?w1.0 = "()" and ?t1.0 = "''T+301000''" and fuel = 0 and fb = True and w = "()"] e
  have c1: "attemptLoop exhaustedEnv 0 demoRequest True 3 0 (fresh ()) =
     (Throw (Error (''RESOURCE_EXHAUSTED: Rate limited on model-a. '' @
                    ''Quota will reset after 300000ms. Next available: T+301000'')),
      \<lparr>world = (), trace = [PickStickyAccount ''model-a'']\<rparr>)"
    and c2: "sendMessageStream exhaustedEnv 0 demoRequest True (fresh ()) =
     (Throw (Error (''RESOURCE_EXHAUSTED: Rate limited on model-a. '' @
                    ''Quota will reset after 300000ms. Next available: T+301000'')),
      \<lparr>world = (), trace = [PickStickyAccount ''model-a'']\<rparr>)"
    by (simp_all add: m fresh_def)
  from rate_limit_ceiling_fails_fast [where a = 0 and maxA = 3
      and env = stickyWaitEnv and req = demoRequest and s = "fresh ()" and waitMs = 2000
      and ?w1.0 = "()" and ?w2.0 = "()" and ?t2.0 = "''T+301000''" and fuel = 0 and fb = True] w
  have c3: "attemptLoop stickyWaitEnv 0 demoRequest True 3 0 (fresh ()) =
     (Throw (Error (''RESOURCE_EXHAUSTED: Rate limited on model-a. '' @
                    ''Quota will reset after 300000ms. Next available: T+301000'')),
      \<lparr>world = (),
       trace = [PickStickyAccount ''model-a'', Sleep 2000, ClearExpiredLimits,
                GetCurrentStickyAccount ''model-a'']\<rparr>)"
    by (simp add: m fresh_def)
  from e w c1 c2 c3 show ?thesis by simp
qed

section \<open>Upstream 5xx errors\<close>

lemma showNat_5xx:
  assumes "500 \<le> n" "n \<le> 599"
  shows "showNat n = [CHR ''5'', digitChar (n div 10 mod 10), digitChar (n mod 10)]"
proof -
  from assms have a: "\<not> n < 10" "\<not> n div 10 < 10" "n div 10 div 10 = 5" by auto
  have "showNat (n div 10 div 10) = [CHR ''5'']"
    using a(3) by (subst showNat.simps) (simp add: digitChar_def)
  then have "showNat (n div 10) = [CHR ''5'', digitChar (n div 10 mod 10)]"
    using a(2) by (subst showNat.simps) simp
  then show ?thesis
    using a(1) by (subst showNat.simps) simp
qed

lemma showInt_5xx:
  assumes "500 \<le> code" "code \<le> 599"
  shows "\<exists>rest. showInt code = CHR ''5'' # rest"
proof -
  from assms have "500 \<le> nat code" "nat code \<le> 599" by auto
  from showNat_5xx [OF this] assms show ?thesis by (simp add: showInt_def)
qed

lemma api_error_5xx:
  assumes "500 \<le> code" "code \<le> 599"
  shows "str_includes (''API error '' @ showInt code @ '': '' @ errorText) ''API error 5''"
proof -
  from showInt_5xx [OF assms] obtain rest where "showInt code = CHR ''5'' # rest" by blast
  then show ?thesis by simp
qed

lemma handleAttemptError_5xx:
  assumes "500 \<le> code" "code \<le> 599"
  shows "handleAttemptError env m (Error (''API error '' @ showInt code @ '': '' @ errorText)) s =
     (Next, if isRateLimitError env (Error (''API error '' @ showInt code @ '': '' @ errorText)) \<or>
               isAuthError env (Error (''API error '' @ showInt code @ '': '' @ errorText))
            then s else snd (do_pickNext env m s))"
  using api_error_5xx [OF assms, of errorText]
  by (simp add: handleAttemptError_def del: str_includes.simps)

lemma attemptLoop_soft:
  assumes "a < maxA" "selectAccount env (model req) s = (Inr (Some acct), s1)"
    "tryAccount env fuel req acct s1 = (Throw e, s2)"
    "handleAttemptError env (model req) e s2 = (Next, s3)"
  shows "attemptLoop env fuel req fb maxA a s = attemptLoop env fuel req fb maxA (a + 1) s3"
  using assms by (subst attemptLoop.simps) simp

lemma tryEndpoint_5xx:
  assumes "fetch env (endpoint @ ''/v1internal:streamGenerateContent?alt=sse'')
             (buildHeaders env token (model req) ''text/event-stream'') payload (world s)
           = (Inr resp, w1)"
    "500 \<le> status resp"
  shows "tryEndpoint env fuel req acct token payload lastError endpoint s =
     (Next, Caught (Error (''API error '' @ showInt (status resp) @ '': '' @ body resp)),
      \<lparr>world = sleep env 1000 w1,
       trace = trace s @ [Fetch (endpoint @ ''/v1internal:streamGenerateContent?alt=sse'')
                            (buildHeaders env token (model req) ''text/event-stream'') payload,
                          Sleep 1000]\<rparr>)"
  using assms
  by (simp add: tryEndpoint_def do_fetch_def call_def ok_def Let_def do_sleep_def act_def)

text \<open>
  An upstream answer with a status from 500 on to the first request of an endpoint leaves
  the endpoint's pass with \<^verbatim>\<open>lastError = new Error(`API error ${status}: ${errorText}`)\<close>
  after a pause of one second, and the end of the endpoint loop throws that error. When an
  error of this form with a status from 500 to 599 escapes the endpoint loop in a pass of
  the retry loop, the pass is not ended by the error: the loop goes on with the next
  attempt. Before that it advances the rotation (\<^verbatim>\<open>pickNext\<close>), unless one of the two
  classifiers asked first, \<^verbatim>\<open>isRateLimitError\<close> and \<^verbatim>\<open>isAuthError\<close>, claims the error,
  in which case it goes on directly.
\<close>

theorem upstream_5xx_is_soft:
  "(500 \<le> code \<and> code \<le> 599 \<and>
      e = Error (''API error '' @ showInt code @ '': '' @ errorText) \<and>
      a < maxA \<and> selectAccount env (model req) s = (Inr (Some acct), s1) \<and>
      tryAccount env fuel req acct s1 = (Throw e, s2) \<longrightarrow>
      attemptLoop env fuel req fb maxA a s =
        attemptLoop env fuel req fb maxA (a + 1)
          (if isRateLimitError env e \<or> isAuthError env e then s2
           else snd (do_pickNext env (model req) s2))) \<and>
   trace (snd (do_pickNext env m s2)) = trace s2 @ [PickNext m] \<and>
   (fetch env (endpoint @ ''/v1internal:streamGenerateContent?alt=sse'')
        (buildHeaders env token (model req) ''text/event-stream'') payload (world s)
      = (Inr resp, w1) \<and> 500 \<le> status resp \<longrightarrow>
      tryEndpoint env fuel req acct token payload lastError endpoint s =
        (Next, Caught (Error (''API error '' @ showInt (status resp) @ '': '' @ body resp)),
         \<lparr>world = sleep env 1000 w1,
          trace = trace s @ [Fetch (endpoint @ ''/v1internal:streamGenerateContent?alt=sse'')
                               (buildHeaders env token (model req) ''text/event-stream'') payload,
                             Sleep 1000]\<rparr>)) \<and>
   endpointLoop env fuel req acct token payload (Caught e) [] s = (Throw e, s)"
proof -
  have a: "500 \<le> code \<and> code \<le> 599 \<and>
      e = Error (''API error '' @ showInt code @ '': '' @ errorText) \<and>
      a < maxA \<and> selectAccount env (model req) s = (Inr (Some acct), s1) \<and>
      tryAccount env fuel req acct s1 = (Throw e, s2) \<longrightarrow>
      attemptLoop env fuel req fb maxA a s =
        attemptLoop env fuel req fb maxA (a + 1)
          (if isRateLimitError env e \<or> isAuthError env e then s2
           else snd (do_pickNext env (model req) s2))"
  proof (intro impI, elim conjE)
    assume h: "500 \<le> code" "code \<le> 599"
      "e = Error (''API error '' @ showInt code @ '': '' @ errorText)"
      "a < maxA" "selectAccount env (model req) s = (Inr (Some acct), s1)"
      "tryAccount env fuel req acct s1 = (Throw e, s2)"
    from handleAttemptError_5xx [OF h(1,2), of env "model req" errorText s2] h(3)
    have "handleAttemptError env (model req) e s2 =
       (Next, if isRateLimitError env e \<or> isAuthError env e then s2
              else snd (do_pickNext env (model req) s2))"
      by simp
    from attemptLoop_soft [OF h(4,5,6) this]
    show "attemptLoop env fuel req fb maxA a s =
        attemptLoop env fuel req fb maxA (a + 1)
          (if isRateLimitError env e \<or> isAuthError env e then s2
           else snd (do_pickNext env (model req) s2))" .
  qed
  have b: "trace (snd (do_pickNext env m s2)) = trace s2 @ [PickNext m]"
    by (simp add: do_pickNext_def call_def split_beta)
  have c: "fetch env (endpoint @ ''/v1internal:streamGenerateContent?alt=sse'')
        (buildHeaders env token (model req) ''text/event-stream'') payload (world s)
      = (Inr resp, w1) \<and> 500 \<le> status resp \<longrightarrow>
      tryEndpoint env fuel req acct token payload lastError endpoint s =
        (Next, Caught (Error (''API error '' @ showInt (status resp) @ '': '' @ body resp)),
         \<lparr>world = sleep env 1000 w1,
          trace = trace s @ [Fetch (endpoint @ ''/v1internal:streamGenerateContent?alt=sse'')
                               (buildHeaders env token (model req) ''text/event-stream'') payload,
                             Sleep 1000]\<rparr>)"
    using tryEndpoint_5xx [of env endpoint token req payload s resp w1 fuel acct lastError]
    by blast
  have d: "endpointLoop env fuel req acct token payload (Caught e) [] s = (Throw e, s)"
    by (simp add: afterEndpoints_def)
  from a b c d show ?thesis by blast
qed

lemma showInt_503: "showInt 503 = ''503''"
  by (simp add: showInt_def showNat.simps digitChar_def)

lemma unavailable_select:
  "selectAccount unavailableEnv ''model-a'' (fresh ()) =
     (Inr (Some accountA), \<lparr>world = (), trace = [PickStickyAccount ''model-a'']\<rparr>)"
  by (simp add: selectAccount_def unavailableEnv_def demoEnv_def do_pickStickyAccount_def
      call_def fresh_def)

lemma unavailable_try:
  "tryAccount unavailableEnv 0 demoRequest accountA
     \<lparr>world = (), trace = [PickStickyAccount ''model-a'']\<rparr> =
     (Throw (Error ''API error 503: Service Unavailable''),
      \<lparr>world = (),
       trace = [PickStickyAccount ''model-a'', GetTokenForAccount accountA,
                GetProjectForAccount accountA ''tok'',
                Fetch ''https://daily/v1internal:streamGenerateContent?alt=sse''
                  (JObj [(''Authorization'', JStr ''tok'')]) (JObj [(''project'', JStr ''proj'')]),
                Sleep 1000,
                Fetch ''https://prod/v1internal:streamGenerateContent?alt=sse''
                  (JObj [(''Authorization'', JStr ''tok'')]) (JObj [(''project'', JStr ''proj'')]),
                Sleep 1000]\<rparr>)"
  by (simp add: tryAccount_def unavailableEnv_def demoEnv_def demoRequest_def
      do_getTokenForAccount_def do_getProjectForAccount_def call_def tryEndpoint_def
      do_fetch_def ok_def do_sleep_def act_def afterEndpoints_def showInt_503)

theorem upstream_5xx_is_soft_witness:
  "(500 :: int) \<le> 503 \<and> (503 :: int) \<le> 599 \<and> (0 :: int) < 3 \<and>
   selectAccount unavailableEnv (model demoRequest) (fresh ()) =
     (Inr (Some accountA), \<lparr>world = (), trace = [PickStickyAccount ''model-a'']\<rparr>) \<and>
   tryAccount unavailableEnv 0 demoRequest accountA
     \<lparr>world = (), trace = [PickStickyAccount ''model-a'']\<rparr> =
     (Throw (Error (''API error '' @ showInt 503 @ '': '' @ ''Service Unavailable'')),
      \<lparr>world = (),
       trace = [PickStickyAccount ''model-a'', GetTokenForAccount accountA,
                GetProjectForAccount accountA ''tok'',
                Fetch ''https://daily/v1internal:streamGenerateContent?alt=sse''
                  (JObj [(''Authorization'', JStr ''tok'')]) (JObj [(''project'', JStr ''proj'')]),
                Sleep 1000,
                Fetch ''https://prod/v1internal:streamGenerateContent?alt=sse''
                  (JObj [(''Authorization'', JStr ''tok'')]) (JObj [(''project'', JStr ''proj'')]),
                Sleep 1000]\<rparr>) \<and>
   \<not> isRateLimitError unavailableEnv (Error ''API error 503: Service Unavailable'') \<and>
   \<not> isAuthError unavailableEnv (Error ''API error 503: Service Unavailable'') \<and>
   attemptLoop unavailableEnv 0 demoRequest False 3 0 (fresh ()) =
     attemptLoop unavailableEnv 0 demoRequest False 3 1
       \<lparr>world = (),
        trace = [PickStickyAccount ''model-a'', GetTokenForAccount accountA,
                 GetProjectForAccount accountA ''tok'',
                 Fetch ''https://daily/v1internal:streamGenerateContent?alt=sse''
                   (JObj [(''Authorization'', JStr ''tok'')]) (JObj [(''project'', JStr ''proj'')]),
                 Sleep 1000,
                 Fetch ''https://prod/v1internal:streamGenerateContent?alt=sse''
                   (JObj [(''Authorization'', JStr ''tok'')]) (JObj [(''project'', JStr ''proj'')]),
                 Sleep 1000, PickNext ''model-a'']\<rparr> \<and>
   fetch unavailableEnv ''https://daily/v1internal:streamGenerateContent?alt=sse''
     (buildHeaders unavailableEnv ''tok'' (model demoRequest) ''text/event-stream'')
     (JObj [(''project'', JStr ''proj'')]) () =
     (Inr \<lparr>status = 503, body = ''Service Unavailable'', jsonBody = Inr JNull\<rparr>, ()) \<and>
   tryEndpoint unavailableEnv 0 demoRequest accountA ''tok'' (JObj [(''project'', JStr ''proj'')])
     NoError ''https://daily'' (fresh ()) =
     (Next, Caught (Error ''API error 503: Service Unavailable''),
      \<lparr>world = (),
       trace = [Fetch ''https://daily/v1internal:streamGenerateContent?alt=sse''
                  (JObj [(''Authorization'', JStr ''tok'')]) (JObj [(''project'', JStr ''proj'')]),
                Sleep 1000]\<rparr>)"
proof -
  let ?e = "Error (''API error '' @ showInt 503 @ '': '' @ ''Service Unavailable'')"
  let ?s1 = "\<lparr>world = (), trace = [PickStickyAccount ''model-a'']\<rparr>"
  let ?s2 = "\<lparr>world = (),
       trace = [PickStickyAccount ''model-a'', GetTokenForAccount accountA,
                GetProjectForAccount accountA ''tok'',
                Fetch ''https://daily/v1internal:streamGenerateContent?alt=sse''
                  (JObj [(''Authorization'', JStr ''tok'')]) (JObj [(''project'', JStr ''proj'')]),
                Sleep 1000,
                Fetch ''https://prod/v1internal:streamGenerateContent?alt=sse''
                  (JObj [(''Authorization'', JStr ''tok'')]) (JObj [(''project'', JStr ''proj'')]),
                Sleep 1000]\<rparr>"
  have m: "model demoRequest = ''model-a''"
    by (simp add: demoRequest_def)
  have h1: "selectAccount unavailableEnv (model demoRequest) (fresh ()) = (Inr (Some accountA), ?s1)"
    by (simp add: m unavailable_select)
  have h2: "tryAccount unavailableEnv 0 demoRequest accountA ?s1 = (Throw ?e, ?s2)"
    by (simp add: unavailable_try showInt_503)
  have h3: "\<not> isRateLimitError unavailableEnv ?e" "\<not> isAuthError unavailableEnv ?e"
    by (simp_all add: unavailableEnv_def demoEnv_def showInt_503)
  have h4: "fetch unavailableEnv ''https://daily/v1internal:streamGenerateContent?alt=sse''
     (buildHeaders unavailableEnv ''tok'' (model demoRequest) ''text/event-stream'')
     (JObj [(''project'', JStr ''proj'')]) () =
     (Inr \<lparr>status = 503, body = ''Service Unavailable'', jsonBody = Inr JNull\<rparr>, ())"
    "buildHeaders unavailableEnv ''tok'' (model demoRequest) ''text/event-stream'' =
       JObj [(''Authorization'', JStr ''tok'')]"
    "sleep unavailableEnv 1000 () = ()"
    "pickNext unavailableEnv ''model-a'' () = (Some accountB, ())"
    by (simp_all add: unavailableEnv_def demoEnv_def)
  note T = upstream_5xx_is_soft [of 503 ?e "''Service Unavailable''" 0 3 unavailableEnv
      demoRequest "fresh ()" accountA ?s1 0 ?s2 False "''model-a''" "''https://daily''" "''tok''"
      "JObj [(''project'', JStr ''proj'')]"
      "\<lparr>status = 503, body = ''Service Unavailable'', jsonBody = Inr JNull\<rparr>" "()"
      NoError]
  from T h1 h2 h3
  have c1: "attemptLoop unavailableEnv 0 demoRequest False 3 0 (fresh ()) =
     attemptLoop unavailableEnv 0 demoRequest False 3 1
       (snd (do_pickNext unavailableEnv (model demoRequest) ?s2))"
    by simp
  have c2: "snd (do_pickNext unavailableEnv (model demoRequest) ?s2) =
      \<lparr>world = (), trace = trace ?s2 @ [PickNext ''model-a'']\<rparr>"
    by (simp add: do_pickNext_def call_def m h4)
  from T h4
  have c3: "tryEndpoint unavailableEnv 0 demoRequest accountA ''tok'' (JObj [(''project'', JStr ''proj'')])
     NoError ''https://daily'' (fresh ()) =
     (Next, Caught (Error ''API error 503: Service Unavailable''),
      \<lparr>world = (),
       trace = [Fetch ''https://daily/v1internal:streamGenerateContent?alt=sse''
                  (JObj [(''Authorization'', JStr ''tok'')]) (JObj [(''project'', JStr ''proj'')]),
                Sleep 1000]\<rparr>)"
    by (simp add: fresh_def showInt_503)
  from h1 h2 h3 h4 c1 c2 c3 show ?thesis
    by (simp add: showInt_503)
qed

section \<open>Empty responses\<close>

lemma yielded_fallback:
  "yielded (trace (emitEmptyResponseFallback env m s)) =
   yielded (trace s) @ fallbackEvents m (''msg_'' @ fst (randomBytesHex env (world s)))"
  by (simp add: emitEmptyResponseFallback_def yieldAll_def split_beta Let_def yielded_append
      yielded_Yield)

lemma emptyRetryLoop_all_empty:
  assumes "MAX_EMPTY_RESPONSE_RETRIES env = int k + int n"
    "emptyAttempts env url (buildHeaders env token m ''text/event-stream'') payload m n k resp
       (world s)"
  shows "\<exists>hex s'. emptyRetryLoop env fuel url token m payload acct (int k) resp s = (Return, s') \<and>
           yielded (trace s') = yielded (trace s) @ fallbackEvents m (''msg_'' @ hex)"
  using assms
proof (induction n arbitrary: k resp s)
  case 0
  from "0.prems"(2) obtain e w1 where
    st: "streamSSEResponse env resp m (world s) = (([], Some e), w1)"
    and e: "isEmptyResponseError env e"
    by (auto split: prod.splits option.splits)
  have "emptyRetryLoop env fuel url token m payload acct (int k) resp s =
      (Return, emitEmptyResponseFallback env m \<lparr>world = w1, trace = trace s\<rparr>)"
    using "0.prems"(1) st e
    by (subst emptyRetryLoop.simps) (simp add: do_stream_def)
  then show ?case
    using yielded_fallback [of env m "\<lparr>world = w1, trace = trace s\<rparr>"] by auto
next
  case (Suc n)
  let ?H = "buildHeaders env token m ''text/event-stream''"
  from Suc.prems(2) obtain e w1 resp' w2 where
    st: "streamSSEResponse env resp m (world s) = (([], Some e), w1)"
    and e: "isEmptyResponseError env e"
    and f: "fetch env url ?H payload (sleep env (500 * 2 ^ k) w1) = (Inr resp', w2)"
    and ok: "ok resp'"
    and rest: "emptyAttempts env url ?H payload m n (Suc k) resp' w2"
    by (auto split: prod.splits option.splits sum.splits)
  let ?s3 = "\<lparr>world = w2, trace = trace s @ [Sleep (500 * 2 ^ k), Fetch url ?H payload]\<rparr>"
  have step: "emptyRetryLoop env fuel url token m payload acct (int k) resp s =
      emptyRetryLoop env fuel url token m payload acct (int (Suc k)) resp' ?s3"
    using Suc.prems(1) st e f ok
    by (subst emptyRetryLoop.simps)
      (simp add: do_stream_def do_sleep_def act_def do_fetch_def call_def Let_def add.commute)
  from Suc.IH [of "Suc k" resp' ?s3] Suc.prems(1) rest
  obtain hex s' where
    "emptyRetryLoop env fuel url token m payload acct (int (Suc k)) resp' ?s3 = (Return, s')"
    "yielded (trace s') = yielded (trace ?s3) @ fallbackEvents m (''msg_'' @ hex)"
    by auto
  with step show ?case by (auto simp: yielded_append)
qed

lemma attemptLoop_returns:
  assumes "a < maxA" "selectAccount env (model req) s = (Inr (Some acct), s1)"
    "tryAccount env fuel req acct s1 = (Return, s2)"
  shows "attemptLoop env fuel req fb maxA a s = (Return, s2)"
  using assms by (subst attemptLoop.simps) simp

lemma first_attempt_all_empty:
  assumes "MAX_EMPTY_RESPONSE_RETRIES env = int R" "0 \<le> getAccountCount env w"
    "pickStickyAccount env (model req) w = ((Some acct, waitMs), w1)"
    "getTokenForAccount env acct w1 = (Inr token, w2)"
    "getProjectForAccount env acct token w2 = (Inr project, w3)"
    "buildCloudCodeRequest env req project = Inr payload"
    "ANTIGRAVITY_ENDPOINT_FALLBACKS env = endpoint # rest"
    "fetch env (endpoint @ ''/v1internal:streamGenerateContent?alt=sse'')
       (buildHeaders env token (model req) ''text/event-stream'') payload w3 = (Inr resp, w4)"
    "ok resp"
    "emptyAttempts env (endpoint @ ''/v1internal:streamGenerateContent?alt=sse'')
       (buildHeaders env token (model req) ''text/event-stream'') payload (model req) R 0 resp w4"
  shows "\<exists>hex s'. sendMessageStream env fuel req fb (fresh w) = (Return, s') \<and>
           yielded (trace s') = fallbackEvents (model req) (''msg_'' @ hex)"
proof -
  let ?url = "endpoint @ ''/v1internal:streamGenerateContent?alt=sse''"
  let ?H = "buildHeaders env token (model req) ''text/event-stream''"
  let ?s1 = "\<lparr>world = w1, trace = [PickStickyAccount (model req)]\<rparr>"
  let ?s4 = "\<lparr>world = w4, trace = [PickStickyAccount (model req), GetTokenForAccount acct,
                GetProjectForAccount acct token, Fetch ?url ?H payload]\<rparr>"
  have sel: "selectAccount env (model req) (fresh w) = (Inr (Some acct), ?s1)"
    using assms(3) by (simp add: selectAccount_def do_pickStickyAccount_def call_def fresh_def)
  from emptyRetryLoop_all_empty [of env 0 R ?url token "model req" payload resp ?s4 fuel acct]
    assms(1,10)
  obtain hex s' where
    l: "emptyRetryLoop env fuel ?url token (model req) payload acct 0 resp ?s4 = (Return, s')"
    and y: "yielded (trace s') = yielded (trace ?s4) @ fallbackEvents (model req) (''msg_'' @ hex)"
    by auto
  have "tryAccount env fuel req acct ?s1 = (Return, s')"
    using assms(4-9) l
    by (simp add: tryAccount_def do_getTokenForAccount_def do_getProjectForAccount_def call_def
        tryEndpoint_def do_fetch_def)
  moreover have "0 < maxAttemptsOf env (fresh w)"
    using assms(2) by (simp add: maxAttemptsOf_def fresh_def)
  ultimately have "sendMessageStream env fuel req fb (fresh w) = (Return, s')"
    using attemptLoop_returns [OF _ sel] by (simp add: sendMessageStream_def)
  with y show ?thesis by auto
qed

text \<open>
  C3, as the code has it. With \<^verbatim>\<open>R = MAX_EMPTY_RESPONSE_RETRIES\<close>, when \<open>R + 1\<close>
  consecutive streaming attempts on an endpoint each end in an \<^verbatim>\<open>EmptyResponseError\<close>
  without an event, every request sent again between them being answered ok, the
  empty-response loop returns, having yielded exactly the six events of
  \<^verbatim>\<open>emitEmptyResponseFallback\<close> after what was yielded before. So does
  \<^verbatim>\<open>sendMessageStream\<close> when this happens on the first endpoint of its first attempt:
  it returns, no error reaches the caller, and all it yields is those six events:
  \<^verbatim>\<open>message_start\<close>; \<^verbatim>\<open>content_block_start\<close>, \<^verbatim>\<open>content_block_delta\<close> and
  \<^verbatim>\<open>content_block_stop\<close> at index 0, for one text block holding the notice;
  \<^verbatim>\<open>message_delta\<close> with \<^verbatim>\<open>stop_reason\<close> \<^verbatim>\<open>end_turn\<close>; \<^verbatim>\<open>message_stop\<close>.
\<close>

theorem empty_responses_end_in_fallback:
  "(MAX_EMPTY_RESPONSE_RETRIES env = int R \<and>
      emptyAttempts env url (buildHeaders env token m ''text/event-stream'') payload m R 0 resp
        (world s) \<longrightarrow>
      (\<exists>hex s'. emptyRetryLoop env fuel url token m payload acct 0 resp s = (Return, s') \<and>
         yielded (trace s') = yielded (trace s) @ fallbackEvents m (''msg_'' @ hex))) \<and>
   (MAX_EMPTY_RESPONSE_RETRIES env = int R \<and> 0 \<le> getAccountCount env w \<and>
      pickStickyAccount env (model req) w = ((Some acct, waitMs), w1) \<and>
      getTokenForAccount env acct w1 = (Inr token, w2) \<and>
      getProjectForAccount env acct token w2 = (Inr project, w3) \<and>
      buildCloudCodeRequest env req project = Inr payload \<and>
      ANTIGRAVITY_ENDPOINT_FALLBACKS env = endpoint # rest \<and>
      fetch env (endpoint @ ''/v1internal:streamGenerateContent?alt=sse'')
        (buildHeaders env token (model req) ''text/event-stream'') payload w3 = (Inr resp, w4) \<and>
      ok resp \<and>
      emptyAttempts env (endpoint @ ''/v1internal:streamGenerateContent?alt=sse'')
        (buildHeaders env token (model req) ''text/event-stream'') payload (model req) R 0 resp w4
      \<longrightarrow>
      (\<exists>hex s'. sendMessageStream env fuel req fb (fresh w) = (Return, s') \<and>
         yielded (trace s') = fallbackEvents (model req) (''msg_'' @ hex))) \<and>
   map (\<lambda>ev. (optProp ev ''type'', optProp ev ''index'')) (fallbackEvents m messageId) =
     [(JStr ''message_start'', JUndefined),
      (JStr ''content_block_start'', JNum 0),
      (JStr ''content_block_delta'', JNum 0),
      (JStr ''content_block_stop'', JNum 0),
      (JStr ''message_delta'', JUndefined),
      (JStr ''message_stop'', JUndefined)] \<and>
   optProp (fallbackEvents m messageId ! 1) ''content_block'' =
     JObj [(''type'', JStr ''text''), (''text'', JStr [])] \<and>
   optProp (fallbackEvents m messageId ! 2) ''delta'' =
     JObj [(''type'', JStr ''text_delta''),
           (''text'', JStr ''[No response after retries - please try again]'')] \<and>
   optProp (optProp (fallbackEvents m messageId ! 4) ''delta'') ''stop_reason'' = JStr ''end_turn''"
proof -
  have a: "MAX_EMPTY_RESPONSE_RETRIES env = int R \<and>
      emptyAttempts env url (buildHeaders env token m ''text/event-stream'') payload m R 0 resp
        (world s) \<longrightarrow>
      (\<exists>hex s'. emptyRetryLoop env fuel url token m payload acct 0 resp s = (Return, s') \<and>
         yielded (trace s') = yielded (trace s) @ fallbackEvents m (''msg_'' @ hex))"
    using emptyRetryLoop_all_empty [of env 0 R url token m payload resp s fuel acct] by simp
  have b: "MAX_EMPTY_RESPONSE_RETRIES env = int R \<and> 0 \<le> getAccountCount env w \<and>
      pickStickyAccount env (model req) w = ((Some acct, waitMs), w1) \<and>
      getTokenForAccount env acct w1 = (Inr token, w2) \<and>
      getProjectForAccount env acct token w2 = (Inr project, w3) \<and>
      buildCloudCodeRequest env req project = Inr payload \<and>
      ANTIGRAVITY_ENDPOINT_FALLBACKS env = endpoint # rest \<and>
      fetch env (endpoint @ ''/v1internal:streamGenerateContent?alt=sse'')
        (buildHeaders env token (model req) ''text/event-stream'') payload w3 = (Inr resp, w4) \<and>
      ok resp \<and>
      emptyAttempts env (endpoint @ ''/v1internal:streamGenerateContent?alt=sse'')
        (buildHeaders env token (model req) ''text/event-stream'') payload (model req) R 0 resp w4
      \<longrightarrow>
      (\<exists>hex s'. sendMessageStream env fuel req fb (fresh w) = (Return, s') \<and>
         yielded (trace s') = fallbackEvents (model req) (''msg_'' @ hex))"
    using first_attempt_all_empty [of env R w req acct waitMs w1 token w2 project w3 payload
        endpoint rest resp w4 fuel fb]
    by blast
  have c: "map (\<lambda>ev. (optProp ev ''type'', optProp ev ''index'')) (fallbackEvents m messageId) =
     [(JStr ''message_start'', JUndefined),
      (JStr ''content_block_start'', JNum 0),
      (JStr ''content_block_delta'', JNum 0),
      (JStr ''content_block_stop'', JNum 0),
      (JStr ''message_delta'', JUndefined),
      (JStr ''message_stop'', JUndefined)]"
    "optProp (fallbackEvents m messageId ! 1) ''content_block'' =
     JObj [(''type'', JStr ''text''), (''text'', JStr [])]"
    "optProp (fallbackEvents m messageId ! 2) ''delta'' =
     JObj [(''type'', JStr ''text_delta''),
           (''text'', JStr ''[No response after retries - please try again]'')]"
    "optProp (optProp (fallbackEvents m messageId ! 4) ''delta'') ''stop_reason'' = JStr ''end_turn''"
    by (simp_all add: fallbackEvents_def)
  from a b c show ?thesis by blast
qed

lemma empty_run:
  "sendMessageStream emptyEnv 0 demoRequest False (fresh ()) =
     (Return,
      \<lparr>world = (),
       trace =
         [PickStickyAccount ''model-a'', GetTokenForAccount accountA,
          GetProjectForAccount accountA ''tok'',
          Fetch ''https://daily/v1internal:streamGenerateContent?alt=sse''
            (JObj [(''Authorization'', JStr ''tok'')]) (JObj [(''project'', JStr ''proj'')]),
          Sleep 500,
          Fetch ''https://daily/v1internal:streamGenerateContent?alt=sse''
            (JObj [(''Authorization'', JStr ''tok'')]) (JObj [(''project'', JStr ''proj'')]),
          Sleep 1000,
          Fetch ''https://daily/v1internal:streamGenerateContent?alt=sse''
            (JObj [(''Authorization'', JStr ''tok'')]) (JObj [(''project'', JStr ''proj'')])] @
         map Yield (fallbackEvents ''model-a'' ''msg_00ff'')\<rparr>)"
  by (simp add: sendMessageStream_def maxAttemptsOf_def fresh_def emptyEnv_def demoEnv_def
      demoRequest_def attemptLoop.simps selectAccount_def do_pickStickyAccount_def call_def
      tryAccount_def do_getTokenForAccount_def do_getProjectForAccount_def tryEndpoint_def
      do_fetch_def okResponse_def ok_def emptyRetryLoop.simps do_stream_def do_sleep_def act_def
      emitEmptyResponseFallback_def yieldAll_def Let_def)

theorem empty_responses_end_in_fallback_witness:
  "MAX_EMPTY_RESPONSE_RETRIES emptyEnv = int 2 \<and>
   0 \<le> getAccountCount emptyEnv () \<and>
   pickStickyAccount emptyEnv (model demoRequest) () = ((Some accountA, 0), ()) \<and>
   getTokenForAccount emptyEnv accountA () = (Inr ''tok'', ()) \<and>
   getProjectForAccount emptyEnv accountA ''tok'' () = (Inr ''proj'', ()) \<and>
   buildCloudCodeRequest emptyEnv demoRequest ''proj'' = Inr (JObj [(''project'', JStr ''proj'')]) \<and>
   ANTIGRAVITY_ENDPOINT_FALLBACKS emptyEnv = ''https://daily'' # [''https://prod''] \<and>
   fetch emptyEnv (''https://daily'' @ ''/v1internal:streamGenerateContent?alt=sse'')
     (buildHeaders emptyEnv ''tok'' (model demoRequest) ''text/event-stream'')
     (JObj [(''project'', JStr ''proj'')]) () = (Inr okResponse, ()) \<and>
   ok okResponse \<and>
   emptyAttempts emptyEnv (''https://daily'' @ ''/v1internal:streamGenerateContent?alt=sse'')
     (buildHeaders emptyEnv ''tok'' (model demoRequest) ''text/event-stream'')
     (JObj [(''project'', JStr ''proj'')]) (model demoRequest) 2 0 okResponse () \<and>
   fst (sendMessageStream emptyEnv 0 demoRequest False (fresh ())) = Return \<and>
   yielded (trace (snd (sendMessageStream emptyEnv 0 demoRequest False (fresh ())))) =
     fallbackEvents ''model-a'' ''msg_00ff''"
proof -
  have h: "MAX_EMPTY_RESPONSE_RETRIES emptyEnv = int 2"
    "0 \<le> getAccountCount emptyEnv ()"
    "pickStickyAccount emptyEnv (model demoRequest) () = ((Some accountA, 0), ())"
    "getTokenForAccount emptyEnv accountA () = (Inr ''tok'', ())"
    "getProjectForAccount emptyEnv accountA ''tok'' () = (Inr ''proj'', ())"
    "buildCloudCodeRequest emptyEnv demoRequest ''proj'' = Inr (JObj [(''project'', JStr ''proj'')])"
    "ANTIGRAVITY_ENDPOINT_FALLBACKS emptyEnv = ''https://daily'' # [''https://prod'']"
    "fetch emptyEnv (''https://daily'' @ ''/v1internal:streamGenerateContent?alt=sse'')
       (buildHeaders emptyEnv ''tok'' (model demoRequest) ''text/event-stream'')
       (JObj [(''project'', JStr ''proj'')]) () = (Inr okResponse, ())"
    "ok okResponse"
    by (simp_all add: emptyEnv_def demoEnv_def okResponse_def ok_def)
  have e: "emptyAttempts emptyEnv (''https://daily'' @ ''/v1internal:streamGenerateContent?alt=sse'')
     (buildHeaders emptyEnv ''tok'' (model demoRequest) ''text/event-stream'')
     (JObj [(''project'', JStr ''proj'')]) (model demoRequest) 2 0 okResponse ()"
    by (simp add: eval_nat_numeral emptyEnv_def demoEnv_def okResponse_def ok_def)
  note T = empty_responses_end_in_fallback [where env = emptyEnv and R = 2 and req = demoRequest
      and w = "()" and acct = accountA and waitMs = 0 and ?w1.0 = "()" and token = "''tok''"
      and ?w2.0 = "()" and project = "''proj''" and ?w3.0 = "()"
      and payload = "JObj [(''project'', JStr ''proj'')]" and endpoint = "''https://daily''"
      and rest = "[''https://prod'']" and resp = okResponse and ?w4.0 = "()" and fuel = 0
      and fb = False]
  have r: "fst (sendMessageStream emptyEnv 0 demoRequest False (fresh ())) = Return"
    "yielded (trace (snd (sendMessageStream emptyEnv 0 demoRequest False (fresh ())))) =
       fallbackEvents ''model-a'' ''msg_00ff''"
    by (simp_all add: empty_run yielded_append yielded_Yield)
  from T h e r show ?thesis by simp
qed

section \<open>Backoff of the empty-response retries\<close>

lemma continues_refl: "continues s s"
  by (simp add: continues_def)

lemma continues_trans: "continues s s1 \<Longrightarrow> continues s1 s2 \<Longrightarrow> continues s s2"
  by (auto simp: continues_def)

lemma continues_act: "continues s x \<Longrightarrow> continues s (act e f x)"
  by (auto simp: continues_def act_def)

lemma continues_call: "continues s x \<Longrightarrow> continues s (snd (call e f x))"
  by (auto simp: continues_def call_def split_beta)

lemma continues_sleep: "continues s x \<Longrightarrow> continues s (do_sleep env ms x)"
  by (simp add: do_sleep_def continues_act)

lemma continues_mark: "continues s x \<Longrightarrow> continues s (do_markRateLimited env em r m x)"
  by (simp add: do_markRateLimited_def continues_act)

lemma continues_clearToken: "continues s x \<Longrightarrow> continues s (do_clearTokenCache env em x)"
  by (simp add: do_clearTokenCache_def continues_act)

lemma continues_clearProject: "continues s x \<Longrightarrow> continues s (do_clearProjectCache env em x)"
  by (simp add: do_clearProjectCache_def continues_act)

lemma continues_fallbackEmit: "continues s x \<Longrightarrow> continues s (emitEmptyResponseFallback env m x)"
  by (auto simp: emitEmptyResponseFallback_def yieldAll_def continues_def split_beta Let_def)

lemma continues_fetch: "continues s x \<Longrightarrow> continues s (snd (do_fetch env u h p x))"
  by (simp add: do_fetch_def continues_call)

lemma continues_stream: "continues s x \<Longrightarrow> continues s (snd (do_stream env resp m x))"
  by (auto simp: do_stream_def continues_def split_beta)

lemmas continues_intros = continues_refl continues_sleep continues_mark continues_clearToken
  continues_clearProject continues_fallbackEmit continues_fetch continues_stream

lemma continues_emptyRetryLoop:
  "continues s (snd (emptyRetryLoop env fuel url token m payload acct k resp s))"
proof (induction env fuel url token m payload acct k resp s rule: emptyRetryLoop.induct)
  case (1 env fuel url token m payload acct k resp s)
  let ?H = "buildHeaders env token m ''text/event-stream''"
  obtain r s1 where str: "do_stream env resp m s = (r, s1)"
    by (cases "do_stream env resp m s")
  obtain f1 s3 where f1: "do_fetch env url ?H payload (do_sleep env (500 * 2 ^ nat k) s1) = (f1, s3)"
    by (cases "do_fetch env url ?H payload (do_sleep env (500 * 2 ^ nat k) s1)")
  obtain f2 s5 where f2: "do_fetch env url ?H payload (do_sleep env 1000 s3) = (f2, s5)"
    by (cases "do_fetch env url ?H payload (do_sleep env 1000 s3)")
  have c1: "continues s s1"
    using continues_stream [OF continues_refl, of s env resp m] str by simp
  have c3: "continues s s3"
    using continues_fetch [OF continues_sleep [OF c1], of env url ?H payload env "500 * 2 ^ nat k"] f1
    by simp
  have c5: "continues s s5"
    using continues_fetch [OF continues_sleep [OF c3], of env url ?H payload env 1000] f2
    by simp
  have ih1: "continues s (snd (emptyRetryLoop env n url token m payload acct (k - 1 + 1) ba s5))"
    if "k \<le> MAX_EMPTY_RESPONSE_RETRIES env" "r = Some x2" "isEmptyResponseError env x2"
      "\<not> MAX_EMPTY_RESPONSE_RETRIES env \<le> k" "f1 = Inr b" "\<not> ok b" "status b \<noteq> 429"
      "status b \<noteq> 401" "500 \<le> status b" "f2 = Inr ba" "ok ba" "fuel = Suc n"
    for x2 b ba n
  proof -
    have "continues s5 (snd (emptyRetryLoop env n url token m payload acct (k - 1 + 1) ba s5))"
      using "1.IH"(1) [OF that(1) str [symmetric] that(2) _ that(4) refl refl f1 [symmetric]
          that(5,6) refl that(7,8,9) refl f2 [symmetric] that(10,11,12)] that(3)
      by simp
    with c5 show ?thesis by (rule continues_trans)
  qed
  have ih2: "continues s (snd (emptyRetryLoop env fuel url token m payload acct (k + 1) b s3))"
    if "k \<le> MAX_EMPTY_RESPONSE_RETRIES env" "r = Some x2" "isEmptyResponseError env x2"
      "\<not> MAX_EMPTY_RESPONSE_RETRIES env \<le> k" "f1 = Inr b" "ok b"
    for x2 b
  proof -
    have "continues s3 (snd (emptyRetryLoop env fuel url token m payload acct (k + 1) b s3))"
      using "1.IH"(2) [OF that(1) str [symmetric] that(2) _ that(4) refl refl f1 [symmetric]
          that(5)] that(3,6)
      by simp
    with c3 show ?thesis by (rule continues_trans)
  qed
  show ?case
    apply (subst emptyRetryLoop.simps)
    using str f1 f2 c1 c3 c5 ih1 ih2
    apply (auto simp: Let_def continues_refl intro!: continues_sleep continues_mark
        continues_clearToken continues_clearProject continues_fallbackEmit
        split: option.splits sum.splits nat.splits)
    done
qed

lemma emptyRetryLoop_backoff:
  assumes "0 \<le> k" "k < MAX_EMPTY_RESPONSE_RETRIES env"
    "streamSSEResponse env resp m (world s) = ((evs, Some e), w1)"
    "isEmptyResponseError env e"
  shows "\<exists>rest. trace (snd (emptyRetryLoop env fuel url token m payload acct k resp s)) =
     trace s @ map Yield evs @
       [Sleep (500 * 2 ^ nat k), Fetch url (buildHeaders env token m ''text/event-stream'') payload]
       @ rest"
proof -
  let ?H = "buildHeaders env token m ''text/event-stream''"
  let ?s1 = "\<lparr>world = w1, trace = trace s @ map Yield evs\<rparr>"
  let ?s2 = "do_sleep env (500 * 2 ^ nat k) ?s1"
  obtain f1 s3 where f1: "do_fetch env url ?H payload ?s2 = (f1, s3)"
    by (cases "do_fetch env url ?H payload ?s2")
  have t3: "trace s3 = trace s @ map Yield evs @ [Sleep (500 * 2 ^ nat k), Fetch url ?H payload]"
    using f1 by (auto simp: do_fetch_def call_def do_sleep_def act_def split: prod.splits)
  have str: "do_stream env resp m s = (Some e, ?s1)"
    using assms(3) by (simp add: do_stream_def)
  have again: "continues s3 (snd (emptyRetryLoop env fuel' url token m payload acct k resp'
      (snd (do_fetch env url ?H payload (do_sleep env 1000 s3)))))" for fuel' resp'
    by (rule continues_trans [OF continues_fetch [OF continues_sleep [OF continues_refl]]
          continues_emptyRetryLoop])
  have "continues s3 (snd (emptyRetryLoop env fuel url token m payload acct k resp s))"
    apply (subst emptyRetryLoop.simps)
    using assms(1,2,4) str f1 again
      continues_emptyRetryLoop [of s3 env fuel url token m payload acct "k + 1"]
    apply (auto simp: Let_def continues_refl split_beta
        intro!: continues_sleep continues_mark continues_clearToken continues_clearProject
          continues_fetch
        split: sum.splits nat.splits)
    done
  then show ?thesis
    using t3 by (auto simp: continues_def)
qed

lemma tryEndpoint_first_retry:
  assumes "0 < MAX_EMPTY_RESPONSE_RETRIES env"
    "fetch env (endpoint @ ''/v1internal:streamGenerateContent?alt=sse'')
       (buildHeaders env token (model req) ''text/event-stream'') payload (world s) = (Inr resp, w0)"
    "ok resp"
    "streamSSEResponse env resp (model req) w0 = ((evs, Some e), w1)"
    "isEmptyResponseError env e"
  shows "\<exists>rest. trace (snd (snd (tryEndpoint env fuel req acct token payload lastError endpoint s))) =
     trace s @
       [Fetch (endpoint @ ''/v1internal:streamGenerateContent?alt=sse'')
          (buildHeaders env token (model req) ''text/event-stream'') payload] @
       map Yield evs @
       [Sleep 500,
        Fetch (endpoint @ ''/v1internal:streamGenerateContent?alt=sse'')
          (buildHeaders env token (model req) ''text/event-stream'') payload] @ rest"
proof -
  let ?U = "endpoint @ ''/v1internal:streamGenerateContent?alt=sse''"
  let ?H = "buildHeaders env token (model req) ''text/event-stream''"
  let ?s0 = "\<lparr>world = w0, trace = trace s @ [Fetch ?U ?H payload]\<rparr>"
  from emptyRetryLoop_backoff [of 0 env resp "model req" ?s0 evs e w1 fuel ?U token payload acct]
    assms(1,4,5)
  obtain rest where
    "trace (snd (emptyRetryLoop env fuel ?U token (model req) payload acct 0 resp ?s0)) =
       trace ?s0 @ map Yield evs @ [Sleep 500, Fetch ?U ?H payload] @ rest"
    by auto
  then show ?thesis
    using assms(2,3)
    by (auto simp: tryEndpoint_def do_fetch_def call_def split_beta Let_def)
qed

lemma emptyRetryLoop_retry_ok:
  assumes "0 \<le> k" "k < MAX_EMPTY_RESPONSE_RETRIES env"
    "streamSSEResponse env resp m (world s) = ((evs, Some e), w1)"
    "isEmptyResponseError env e"
    "fetch env url (buildHeaders env token m ''text/event-stream'') payload
       (sleep env (500 * 2 ^ nat k) w1) = (Inr resp', w2)"
    "ok resp'"
  shows "emptyRetryLoop env fuel url token m payload acct k resp s =
     emptyRetryLoop env fuel url token m payload acct (k + 1) resp'
       \<lparr>world = w2,
        trace = trace s @ map Yield evs @
          [Sleep (500 * 2 ^ nat k),
           Fetch url (buildHeaders env token m ''text/event-stream'') payload]\<rparr>"
  using assms
  by (subst emptyRetryLoop.simps)
    (simp add: do_stream_def do_sleep_def act_def do_fetch_def call_def Let_def)

lemma emptyRetryLoop_doubles:
  assumes "0 \<le> k" "k + 1 < MAX_EMPTY_RESPONSE_RETRIES env"
    "streamSSEResponse env resp m (world s) = ((evs, Some e), w1)"
    "isEmptyResponseError env e"
    "fetch env url (buildHeaders env token m ''text/event-stream'') payload
       (sleep env (500 * 2 ^ nat k) w1) = (Inr resp', w2)"
    "ok resp'"
    "streamSSEResponse env resp' m w2 = ((evs', Some e'), w3)"
    "isEmptyResponseError env e'"
  shows "\<exists>rest. trace (snd (emptyRetryLoop env fuel url token m payload acct k resp s)) =
     trace s @ map Yield evs @
       [Sleep (500 * 2 ^ nat k),
        Fetch url (buildHeaders env token m ''text/event-stream'') payload] @
       map Yield evs' @
       [Sleep (2 * (500 * 2 ^ nat k)),
        Fetch url (buildHeaders env token m ''text/event-stream'') payload] @ rest"
proof -
  let ?H = "buildHeaders env token m ''text/event-stream''"
  let ?s2 = "\<lparr>world = w2,
        trace = trace s @ map Yield evs @ [Sleep (500 * 2 ^ nat k), Fetch url ?H payload]\<rparr>"
  have k: "k < MAX_EMPTY_RESPONSE_RETRIES env" "0 \<le> k + 1"
    using assms(1,2) by simp_all
  have p: "(500 :: int) * 2 ^ nat (k + 1) = 2 * (500 * 2 ^ nat k)"
    using assms(1) by (simp add: nat_add_distrib)
  have st: "emptyRetryLoop env fuel url token m payload acct k resp s =
      emptyRetryLoop env fuel url token m payload acct (k + 1) resp' ?s2"
    using emptyRetryLoop_retry_ok [OF assms(1) k(1) assms(3,4,5,6)] .
  from emptyRetryLoop_backoff [of "k + 1" env resp' m ?s2 evs' e' w3 fuel url token payload acct]
    k(2) assms(2,7,8)
  obtain rest where
    "trace (snd (emptyRetryLoop env fuel url token m payload acct (k + 1) resp' ?s2)) =
       trace ?s2 @ map Yield evs' @ [Sleep (500 * 2 ^ nat (k + 1)), Fetch url ?H payload] @ rest"
    by auto
  then show ?thesis
    unfolding st p by simp
qed

lemma empty_retry_run:
  "emptyRetryLoop emptyEnv 0 ''https://daily/v1internal:streamGenerateContent?alt=sse'' ''tok''
       ''model-a'' (JObj [(''project'', JStr ''proj'')]) accountA 0 okResponse (fresh ()) =
     (Return,
      \<lparr>world = (),
       trace =
         [Sleep 500,
          Fetch ''https://daily/v1internal:streamGenerateContent?alt=sse''
            (JObj [(''Authorization'', JStr ''tok'')]) (JObj [(''project'', JStr ''proj'')]),
          Sleep 1000,
          Fetch ''https://daily/v1internal:streamGenerateContent?alt=sse''
            (JObj [(''Authorization'', JStr ''tok'')]) (JObj [(''project'', JStr ''proj'')])] @
         map Yield (fallbackEvents ''model-a'' ''msg_00ff'')\<rparr>)"
  by (simp add: fresh_def emptyEnv_def demoEnv_def
      do_fetch_def okResponse_def ok_def emptyRetryLoop.simps do_stream_def do_sleep_def act_def
      call_def emitEmptyResponseFallback_def yieldAll_def Let_def)

section \<open>Every endpoint answers 429\<close>





























lemma rate_limited_pass:
  "attemptLoop rateLimitedEnv 0 demoRequest False 3 0 (fresh ()) =
     attemptLoop rateLimitedEnv 0 demoRequest False 3 1
       \<lparr>world = (),
        trace = [PickStickyAccount ''model-a'', GetTokenForAccount accountA,
          GetProjectForAccount accountA ''tok'',
          Fetch ''https://daily/v1internal:streamGenerateContent?alt=sse''
            (JObj [(''Authorization'', JStr ''tok'')]) (JObj [(''project'', JStr ''proj'')]),
          Fetch ''https://prod/v1internal:streamGenerateContent?alt=sse''
            (JObj [(''Authorization'', JStr ''tok'')]) (JObj [(''project'', JStr ''proj'')]),
          Fetch ''https://auto/v1internal:streamGenerateContent?alt=sse''
            (JObj [(''Authorization'', JStr ''tok'')]) (JObj [(''project'', JStr ''proj'')]),
          MarkRateLimited ''a@x.io'' (Some 30000) ''model-a'']\<rparr>"
  by (subst attemptLoop.simps)
    (simp add: fresh_def rateLimitedEnv_def demoEnv_def demoRequest_def accountA_def
      selectAccount_def do_pickStickyAccount_def call_def tryAccount_def
      do_getTokenForAccount_def do_getProjectForAccount_def tryEndpoint_def do_fetch_def ok_def
      afterEndpoints_def do_markRateLimited_def act_def handleAttemptError_def Let_def)


section \<open>Runs against an upstream that is unwell\<close>

lemma showInt_502: "showInt 502 = ''502''"
  by (simp add: showInt_def showNat.simps digitChar_def)

lemma gateway_run:
  "sendMessageStream gatewayEnv 1 demoRequest False (fresh 0) =
     (Throw (Error ''Empty response retry failed: 502 - unavailable''),
      \<lparr>world = 5,
       trace =
         [PickStickyAccount ''model-a'', GetTokenForAccount accountA,
          GetProjectForAccount accountA ''tok'',
          Fetch ''https://daily/v1internal:streamGenerateContent?alt=sse''
            (JObj [(''Authorization'', JStr ''tok'')]) (JObj [(''project'', JStr ''proj'')]),
          Sleep 500,
          Fetch ''https://daily/v1internal:streamGenerateContent?alt=sse''
            (JObj [(''Authorization'', JStr ''tok'')]) (JObj [(''project'', JStr ''proj'')]),
          Sleep 1000,
          Fetch ''https://daily/v1internal:streamGenerateContent?alt=sse''
            (JObj [(''Authorization'', JStr ''tok'')]) (JObj [(''project'', JStr ''proj'')]),
          Sleep 500,
          Fetch ''https://daily/v1internal:streamGenerateContent?alt=sse''
            (JObj [(''Authorization'', JStr ''tok'')]) (JObj [(''project'', JStr ''proj'')]),
          Sleep 1000,
          Fetch ''https://daily/v1internal:streamGenerateContent?alt=sse''
            (JObj [(''Authorization'', JStr ''tok'')]) (JObj [(''project'', JStr ''proj'')])]\<rparr>)"
  by (simp add: sendMessageStream_def maxAttemptsOf_def fresh_def gatewayEnv_def demoEnv_def
      demoRequest_def attemptLoop.simps selectAccount_def do_pickStickyAccount_def call_def
      tryAccount_def do_getTokenForAccount_def do_getProjectForAccount_def tryEndpoint_def
      do_fetch_def okResponse_def ok_def emptyRetryLoop.simps do_stream_def do_sleep_def act_def
      afterEndpoints_def handleAttemptError_def showInt_502 Let_def)

lemma gateway3_run:
  "sendMessageStream gatewayEnv3 1 demoRequest False (fresh 0) =
     (Throw (Error ''Empty response retry failed: 502 - unavailable''),
      \<lparr>world = 5,
       trace =
         [PickStickyAccount ''model-a'', GetTokenForAccount accountA,
          GetProjectForAccount accountA ''tok'',
          Fetch ''https://daily/v1internal:streamGenerateContent?alt=sse''
            (JObj [(''Authorization'', JStr ''tok'')]) (JObj [(''project'', JStr ''proj'')]),
          Sleep 500,
          Fetch ''https://daily/v1internal:streamGenerateContent?alt=sse''
            (JObj [(''Authorization'', JStr ''tok'')]) (JObj [(''project'', JStr ''proj'')]),
          Sleep 1000,
          Fetch ''https://daily/v1internal:streamGenerateContent?alt=sse''
            (JObj [(''Authorization'', JStr ''tok'')]) (JObj [(''project'', JStr ''proj'')]),
          Sleep 500,
          Fetch ''https://daily/v1internal:streamGenerateContent?alt=sse''
            (JObj [(''Authorization'', JStr ''tok'')]) (JObj [(''project'', JStr ''proj'')]),
          Sleep 1000,
          Fetch ''https://daily/v1internal:streamGenerateContent?alt=sse''
            (JObj [(''Authorization'', JStr ''tok'')]) (JObj [(''project'', JStr ''proj'')])]\<rparr>)"
  by (simp add: sendMessageStream_def maxAttemptsOf_def fresh_def gatewayEnv3_def gatewayEnv_def
      demoEnv_def
      demoRequest_def attemptLoop.simps selectAccount_def do_pickStickyAccount_def call_def
      tryAccount_def do_getTokenForAccount_def do_getProjectForAccount_def tryEndpoint_def
      do_fetch_def okResponse_def ok_def emptyRetryLoop.simps do_stream_def do_sleep_def act_def
      afterEndpoints_def handleAttemptError_def showInt_502 Let_def)

lemma far_future_run:
  "sendMessageStream farFutureEnv 0 demoRequest True (fresh ()) =
     (Throw (JsError ''RangeError'' ''Invalid time value''),
      \<lparr>world = (), trace = [PickStickyAccount ''model-a'']\<rparr>)"
  by (simp add: sendMessageStream_def maxAttemptsOf_def fresh_def farFutureEnv_def
      exhaustedEnv_def demoEnv_def demoRequest_def attemptLoop.simps selectAccount_def
      do_pickStickyAccount_def call_def newDateToISOString_def Let_def)

section \<open>The delays of the empty-response retries\<close>

lemma trace_fallback:
  "trace (emitEmptyResponseFallback env m s) =
   trace s @ map Yield (fallbackEvents m (''msg_'' @ fst (randomBytesHex env (world s))))"
  by (simp add: emitEmptyResponseFallback_def yieldAll_def split_beta Let_def)

lemma emptyRetryLoop_trace_all_empty:
  assumes "MAX_EMPTY_RESPONSE_RETRIES env = int k + int n"
    "emptyAttempts env url (buildHeaders env token m ''text/event-stream'') payload m n k resp
       (world s)"
  shows "\<exists>hex. trace (snd (emptyRetryLoop env fuel url token m payload acct (int k) resp s)) =
     trace s @
       concat (map (\<lambda>i. [Sleep (500 * 2 ^ i),
                           Fetch url (buildHeaders env token m ''text/event-stream'') payload])
                 [k..<k + n]) @
       map Yield (fallbackEvents m (''msg_'' @ hex))"
  using assms
proof (induction n arbitrary: k resp s)
  case 0
  from "0.prems"(2) obtain e w1 where
    st: "streamSSEResponse env resp m (world s) = (([], Some e), w1)"
    and e: "isEmptyResponseError env e"
    by (auto split: prod.splits option.splits)
  have "emptyRetryLoop env fuel url token m payload acct (int k) resp s =
      (Return, emitEmptyResponseFallback env m \<lparr>world = w1, trace = trace s\<rparr>)"
    using "0.prems"(1) st e
    by (subst emptyRetryLoop.simps) (simp add: do_stream_def)
  then show ?case
    by (intro exI [of _ "fst (randomBytesHex env w1)"]) (simp add: trace_fallback)
next
  case (Suc n)
  let ?H = "buildHeaders env token m ''text/event-stream''"
  from Suc.prems(2) obtain e w1 resp' w2 where
    st: "streamSSEResponse env resp m (world s) = (([], Some e), w1)"
    and e: "isEmptyResponseError env e"
    and f: "fetch env url ?H payload (sleep env (500 * 2 ^ k) w1) = (Inr resp', w2)"
    and ok: "ok resp'"
    and rest: "emptyAttempts env url ?H payload m n (Suc k) resp' w2"
    by (auto split: prod.splits option.splits sum.splits)
  let ?s3 = "\<lparr>world = w2, trace = trace s @ [Sleep (500 * 2 ^ k), Fetch url ?H payload]\<rparr>"
  have step: "emptyRetryLoop env fuel url token m payload acct (int k) resp s =
      emptyRetryLoop env fuel url token m payload acct (int (Suc k)) resp' ?s3"
    using Suc.prems(1) st e f ok
    by (subst emptyRetryLoop.simps)
      (simp add: do_stream_def do_sleep_def act_def do_fetch_def call_def Let_def add.commute)
  from Suc.IH [of "Suc k" resp' ?s3] Suc.prems(1) rest
  obtain hex where
    "trace (snd (emptyRetryLoop env fuel url token m payload acct (int (Suc k)) resp' ?s3)) =
       trace ?s3 @
       concat (map (\<lambda>i. [Sleep (500 * 2 ^ i), Fetch url ?H payload]) [Suc k..<Suc k + n]) @
       map Yield (fallbackEvents m (''msg_'' @ hex))"
    by auto
  moreover have "[k..<k + Suc n] = k # [Suc k..<Suc k + n]"
    by (simp add: upt_conv_Cons)
  ultimately show ?case
    unfolding step by (intro exI [of _ hex]) simp
qed

lemma emptyRetryLoop_repeats_after_5xx:
  assumes "0 \<le> k" "k < MAX_EMPTY_RESPONSE_RETRIES env"
    "streamSSEResponse env resp m (world s) = ((evs, Some e), w1)"
    "isEmptyResponseError env e"
    "fetch env url (buildHeaders env token m ''text/event-stream'') payload
       (sleep env (500 * 2 ^ nat k) w1) = (Inr r1, w2)"
    "500 \<le> status r1"
    "fetch env url (buildHeaders env token m ''text/event-stream'') payload
       (sleep env 1000 w2) = (Inr r2, w3)"
    "ok r2"
    "streamSSEResponse env r2 m w3 = ((evs', Some e'), w4)"
    "isEmptyResponseError env e'"
  shows "\<exists>rest. trace (snd (emptyRetryLoop env (Suc fuel) url token m payload acct k resp s)) =
     trace s @ map Yield evs @
       [Sleep (500 * 2 ^ nat k),
        Fetch url (buildHeaders env token m ''text/event-stream'') payload,
        Sleep 1000,
        Fetch url (buildHeaders env token m ''text/event-stream'') payload] @
       map Yield evs' @
       [Sleep (500 * 2 ^ nat k),
        Fetch url (buildHeaders env token m ''text/event-stream'') payload] @ rest"
proof -
  let ?H = "buildHeaders env token m ''text/event-stream''"
  let ?s5 = "\<lparr>world = w3,
      trace = trace s @ map Yield evs @
        [Sleep (500 * 2 ^ nat k), Fetch url ?H payload, Sleep 1000, Fetch url ?H payload]\<rparr>"
  have step: "emptyRetryLoop env (Suc fuel) url token m payload acct k resp s =
      emptyRetryLoop env fuel url token m payload acct k r2 ?s5"
    using assms(1-8)
    by (subst emptyRetryLoop.simps)
      (simp add: do_stream_def do_sleep_def act_def do_fetch_def call_def ok_def Let_def)
  from emptyRetryLoop_backoff [of k env r2 m ?s5 evs' e' w4 fuel url token payload acct]
    assms(1,2,9,10)
  obtain rest where
    "trace (snd (emptyRetryLoop env fuel url token m payload acct k r2 ?s5)) =
       trace ?s5 @ map Yield evs' @ [Sleep (500 * 2 ^ nat k), Fetch url ?H payload] @ rest"
    by auto
  then show ?thesis
    unfolding step by simp
qed

text \<open>
  C6, as the code has it. In the empty-response loop, when the stream of the current
  response ends in an \<^verbatim>\<open>EmptyResponseError\<close> at loop counter \<open>k\<close> (\<^verbatim>\<open>emptyRetries\<close>, from
  0) with retries left, what follows the events of that stream is a sleep of
  \<open>500 \<cdot> 2\<^sup>k\<close> ms and then a fetch of the \<^verbatim>\<open>url\<close>, headers
  \<^verbatim>\<open>buildHeaders(token, model, 'text/event-stream')\<close> and payload of the loop, which are
  those of the original request of lines 119-123. When that fetch is answered ok and its
  stream is empty again with retries left, the next sleep is twice as long. When every
  request sent again is answered ok and every stream is empty without an event, the loop
  sleeps \<open>500 \<cdot> 2\<^sup>0, ..., 500 \<cdot> 2\<^bsup>R-1\<^esup>\<close> ms in turn, each followed by the same request,
  and then emits the fallback. When the request sent again is answered with a status from
  500 on and the one sent after a pause of one second is answered ok, the counter is not
  advanced (line 215): if that stream is empty too, the sleep before the next request is
  \<open>500 \<cdot> 2\<^sup>k\<close> ms again.
\<close>

theorem empty_retry_backoff:
  "(0 \<le> k \<and> k < MAX_EMPTY_RESPONSE_RETRIES env \<and>
      streamSSEResponse env resp m (world s) = ((evs, Some e), w1) \<and>
      isEmptyResponseError env e \<longrightarrow>
      (\<exists>rest. trace (snd (emptyRetryLoop env fuel url token m payload acct k resp s)) =
         trace s @ map Yield evs @
           [Sleep (500 * 2 ^ nat k),
            Fetch url (buildHeaders env token m ''text/event-stream'') payload] @ rest)) \<and>
   (0 \<le> k \<and> k + 1 < MAX_EMPTY_RESPONSE_RETRIES env \<and>
      streamSSEResponse env resp m (world s) = ((evs, Some e), w1) \<and>
      isEmptyResponseError env e \<and>
      fetch env url (buildHeaders env token m ''text/event-stream'') payload
        (sleep env (500 * 2 ^ nat k) w1) = (Inr resp', w2) \<and>
      ok resp' \<and>
      streamSSEResponse env resp' m w2 = ((evs', Some e'), w3) \<and>
      isEmptyResponseError env e' \<longrightarrow>
      (\<exists>rest. trace (snd (emptyRetryLoop env fuel url token m payload acct k resp s)) =
         trace s @ map Yield evs @
           [Sleep (500 * 2 ^ nat k),
            Fetch url (buildHeaders env token m ''text/event-stream'') payload] @
           map Yield evs' @
           [Sleep (2 * (500 * 2 ^ nat k)),
            Fetch url (buildHeaders env token m ''text/event-stream'') payload] @ rest)) \<and>
   (0 < MAX_EMPTY_RESPONSE_RETRIES env \<and>
      fetch env (endpoint @ ''/v1internal:streamGenerateContent?alt=sse'')
        (buildHeaders env token (model req) ''text/event-stream'') payload (world s) = (Inr resp, w0) \<and>
      ok resp \<and>
      streamSSEResponse env resp (model req) w0 = ((evs, Some e), w1) \<and>
      isEmptyResponseError env e \<longrightarrow>
      (\<exists>rest. trace (snd (snd (tryEndpoint env fuel req acct token payload lastError endpoint s))) =
         trace s @
           [Fetch (endpoint @ ''/v1internal:streamGenerateContent?alt=sse'')
              (buildHeaders env token (model req) ''text/event-stream'') payload] @
           map Yield evs @
           [Sleep 500,
            Fetch (endpoint @ ''/v1internal:streamGenerateContent?alt=sse'')
              (buildHeaders env token (model req) ''text/event-stream'') payload] @ rest)) \<and>
   (MAX_EMPTY_RESPONSE_RETRIES env = int R \<and>
      emptyAttempts env url (buildHeaders env token m ''text/event-stream'') payload m R 0 resp
        (world s) \<longrightarrow>
      (\<exists>hex. trace (snd (emptyRetryLoop env fuel url token m payload acct 0 resp s)) =
         trace s @
           concat (map (\<lambda>k. [Sleep (500 * 2 ^ k),
                               Fetch url (buildHeaders env token m ''text/event-stream'') payload])
                     [0..<R]) @
           map Yield (fallbackEvents m (''msg_'' @ hex)))) \<and>
   (0 \<le> k \<and> k < MAX_EMPTY_RESPONSE_RETRIES env \<and>
      streamSSEResponse env resp m (world s) = ((evs, Some e), w1) \<and>
      isEmptyResponseError env e \<and>
      fetch env url (buildHeaders env token m ''text/event-stream'') payload
        (sleep env (500 * 2 ^ nat k) w1) = (Inr r1, w2) \<and>
      500 \<le> status r1 \<and>
      fetch env url (buildHeaders env token m ''text/event-stream'') payload
        (sleep env 1000 w2) = (Inr r2, w3) \<and>
      ok r2 \<and>
      streamSSEResponse env r2 m w3 = ((evs', Some e'), w4) \<and>
      isEmptyResponseError env e' \<longrightarrow>
      (\<exists>rest. trace (snd (emptyRetryLoop env (Suc fuel) url token m payload acct k resp s)) =
         trace s @ map Yield evs @
           [Sleep (500 * 2 ^ nat k),
            Fetch url (buildHeaders env token m ''text/event-stream'') payload,
            Sleep 1000,
            Fetch url (buildHeaders env token m ''text/event-stream'') payload] @
           map Yield evs' @
           [Sleep (500 * 2 ^ nat k),
            Fetch url (buildHeaders env token m ''text/event-stream'') payload] @ rest))"
proof -
  have a: "0 \<le> k \<and> k < MAX_EMPTY_RESPONSE_RETRIES env \<and>
      streamSSEResponse env resp m (world s) = ((evs, Some e), w1) \<and>
      isEmptyResponseError env e \<longrightarrow>
      (\<exists>rest. trace (snd (emptyRetryLoop env fuel url token m payload acct k resp s)) =
         trace s @ map Yield evs @
           [Sleep (500 * 2 ^ nat k),
            Fetch url (buildHeaders env token m ''text/event-stream'') payload] @ rest)"
    using emptyRetryLoop_backoff [of k env resp m s evs e w1 fuel url token payload acct] by blast
  have d: "0 \<le> k \<and> k + 1 < MAX_EMPTY_RESPONSE_RETRIES env \<and>
      streamSSEResponse env resp m (world s) = ((evs, Some e), w1) \<and>
      isEmptyResponseError env e \<and>
      fetch env url (buildHeaders env token m ''text/event-stream'') payload
        (sleep env (500 * 2 ^ nat k) w1) = (Inr resp', w2) \<and>
      ok resp' \<and>
      streamSSEResponse env resp' m w2 = ((evs', Some e'), w3) \<and>
      isEmptyResponseError env e' \<longrightarrow>
      (\<exists>rest. trace (snd (emptyRetryLoop env fuel url token m payload acct k resp s)) =
         trace s @ map Yield evs @
           [Sleep (500 * 2 ^ nat k),
            Fetch url (buildHeaders env token m ''text/event-stream'') payload] @
           map Yield evs' @
           [Sleep (2 * (500 * 2 ^ nat k)),
            Fetch url (buildHeaders env token m ''text/event-stream'') payload] @ rest)"
    using emptyRetryLoop_doubles [of k env resp m s evs e w1 url token payload resp' w2 evs' e' w3
        fuel acct]
    by blast
  have b: "0 < MAX_EMPTY_RESPONSE_RETRIES env \<and>
      fetch env (endpoint @ ''/v1internal:streamGenerateContent?alt=sse'')
        (buildHeaders env token (model req) ''text/event-stream'') payload (world s) = (Inr resp, w0) \<and>
      ok resp \<and>
      streamSSEResponse env resp (model req) w0 = ((evs, Some e), w1) \<and>
      isEmptyResponseError env e \<longrightarrow>
      (\<exists>rest. trace (snd (snd (tryEndpoint env fuel req acct token payload lastError endpoint s))) =
         trace s @
           [Fetch (endpoint @ ''/v1internal:streamGenerateContent?alt=sse'')
              (buildHeaders env token (model req) ''text/event-stream'') payload] @
           map Yield evs @
           [Sleep 500,
            Fetch (endpoint @ ''/v1internal:streamGenerateContent?alt=sse'')
              (buildHeaders env token (model req) ''text/event-stream'') payload] @ rest)"
    using tryEndpoint_first_retry [of env endpoint token req payload s resp w0 evs e w1 fuel acct
        lastError]
    by blast
  have f: "(MAX_EMPTY_RESPONSE_RETRIES env = int R \<and>
      emptyAttempts env url (buildHeaders env token m ''text/event-stream'') payload m R 0 resp
        (world s) \<longrightarrow>
      (\<exists>hex. trace (snd (emptyRetryLoop env fuel url token m payload acct 0 resp s)) =
         trace s @
           concat (map (\<lambda>k. [Sleep (500 * 2 ^ k),
                               Fetch url (buildHeaders env token m ''text/event-stream'') payload])
                     [0..<R]) @
           map Yield (fallbackEvents m (''msg_'' @ hex))))"
    using emptyRetryLoop_trace_all_empty [of env 0 R url token m payload resp s fuel acct] by simp
  have g: "(0 \<le> k \<and> k < MAX_EMPTY_RESPONSE_RETRIES env \<and>
      streamSSEResponse env resp m (world s) = ((evs, Some e), w1) \<and>
      isEmptyResponseError env e \<and>
      fetch env url (buildHeaders env token m ''text/event-stream'') payload
        (sleep env (500 * 2 ^ nat k) w1) = (Inr r1, w2) \<and>
      500 \<le> status r1 \<and>
      fetch env url (buildHeaders env token m ''text/event-stream'') payload
        (sleep env 1000 w2) = (Inr r2, w3) \<and>
      ok r2 \<and>
      streamSSEResponse env r2 m w3 = ((evs', Some e'), w4) \<and>
      isEmptyResponseError env e' \<longrightarrow>
      (\<exists>rest. trace (snd (emptyRetryLoop env (Suc fuel) url token m payload acct k resp s)) =
         trace s @ map Yield evs @
           [Sleep (500 * 2 ^ nat k),
            Fetch url (buildHeaders env token m ''text/event-stream'') payload,
            Sleep 1000,
            Fetch url (buildHeaders env token m ''text/event-stream'') payload] @
           map Yield evs' @
           [Sleep (500 * 2 ^ nat k),
            Fetch url (buildHeaders env token m ''text/event-stream'') payload] @ rest))"
    using emptyRetryLoop_repeats_after_5xx [of k env resp m s evs e w1 url token payload r1 w2
        r2 w3 evs' e' w4 fuel acct]
    by blast
  from a d b f g show ?thesis by blast
qed

theorem empty_retry_backoff_witness:
  "(0 :: int) \<le> 0 \<and>
   (0 :: int) + 1 < MAX_EMPTY_RESPONSE_RETRIES emptyEnv3 \<and>
   streamSSEResponse emptyEnv3 okResponse ''model-a'' (world (fresh ())) =
       (([], Some (JsError ''EmptyResponseError'' ''No content parts received'')), ()) \<and>
   isEmptyResponseError emptyEnv3 (JsError ''EmptyResponseError'' ''No content parts received'') \<and>
   fetch emptyEnv3 ''https://daily/v1internal:streamGenerateContent?alt=sse''
       (buildHeaders emptyEnv3 ''tok'' ''model-a'' ''text/event-stream'')
       (JObj [(''project'', JStr ''proj'')]) (sleep emptyEnv3 (500 * 2 ^ nat 0) ()) =
       (Inr okResponse, ()) \<and>
   ok okResponse \<and>
   MAX_EMPTY_RESPONSE_RETRIES emptyEnv3 = int 3 \<and>
   emptyAttempts emptyEnv3 ''https://daily/v1internal:streamGenerateContent?alt=sse''
       (buildHeaders emptyEnv3 ''tok'' ''model-a'' ''text/event-stream'')
       (JObj [(''project'', JStr ''proj'')]) ''model-a'' 3 0 okResponse (world (fresh ())) \<and>
   (0 :: int) < MAX_EMPTY_RESPONSE_RETRIES gatewayEnv3 \<and>
   streamSSEResponse gatewayEnv3 okResponse ''model-a'' (world (fresh 1)) =
       (([], Some (JsError ''EmptyResponseError'' ''No content parts received'')), 1) \<and>
   isEmptyResponseError gatewayEnv3 (JsError ''EmptyResponseError'' ''No content parts received'') \<and>
   fetch gatewayEnv3 ''https://daily/v1internal:streamGenerateContent?alt=sse''
       (buildHeaders gatewayEnv3 ''tok'' ''model-a'' ''text/event-stream'')
       (JObj [(''project'', JStr ''proj'')]) (sleep gatewayEnv3 (500 * 2 ^ nat 0) 1) =
       (Inr \<lparr>status = 503, body = ''unavailable'', jsonBody = Inr JNull\<rparr>, 2) \<and>
   500 \<le> status \<lparr>status = 503, body = ''unavailable'', jsonBody = Inr JNull\<rparr> \<and>
   fetch gatewayEnv3 ''https://daily/v1internal:streamGenerateContent?alt=sse''
       (buildHeaders gatewayEnv3 ''tok'' ''model-a'' ''text/event-stream'')
       (JObj [(''project'', JStr ''proj'')]) (sleep gatewayEnv3 1000 2) =
       (Inr okResponse, 3) \<and>
   streamSSEResponse gatewayEnv3 okResponse ''model-a'' 3 =
       (([], Some (JsError ''EmptyResponseError'' ''No content parts received'')), 3) \<and>
   (\<exists>rest. trace (snd (emptyRetryLoop emptyEnv3 0 ''https://daily/v1internal:streamGenerateContent?alt=sse'' ''tok'' ''model-a''
        (JObj [(''project'', JStr ''proj'')]) accountA 0 okResponse (fresh ()))) =
      [Sleep 500,
       Fetch ''https://daily/v1internal:streamGenerateContent?alt=sse''
         (JObj [(''Authorization'', JStr ''tok'')]) (JObj [(''project'', JStr ''proj'')])] @ rest) \<and>
   (\<exists>rest. trace (snd (emptyRetryLoop emptyEnv3 0 ''https://daily/v1internal:streamGenerateContent?alt=sse'' ''tok'' ''model-a''
        (JObj [(''project'', JStr ''proj'')]) accountA 0 okResponse (fresh ()))) =
      [Sleep 500,
       Fetch ''https://daily/v1internal:streamGenerateContent?alt=sse''
         (JObj [(''Authorization'', JStr ''tok'')]) (JObj [(''project'', JStr ''proj'')]),
       Sleep 1000,
       Fetch ''https://daily/v1internal:streamGenerateContent?alt=sse''
         (JObj [(''Authorization'', JStr ''tok'')]) (JObj [(''project'', JStr ''proj'')])] @ rest) \<and>
   (\<exists>rest. trace (snd (snd (tryEndpoint emptyEnv3 0 demoRequest accountA ''tok''
        (JObj [(''project'', JStr ''proj'')]) NoError ''https://daily'' (fresh ())))) =
      [Fetch ''https://daily/v1internal:streamGenerateContent?alt=sse''
         (JObj [(''Authorization'', JStr ''tok'')]) (JObj [(''project'', JStr ''proj'')]),
       Sleep 500,
       Fetch ''https://daily/v1internal:streamGenerateContent?alt=sse''
         (JObj [(''Authorization'', JStr ''tok'')]) (JObj [(''project'', JStr ''proj'')])] @ rest) \<and>
   (\<exists>hex. trace (snd (emptyRetryLoop emptyEnv3 0 ''https://daily/v1internal:streamGenerateContent?alt=sse'' ''tok'' ''model-a''
        (JObj [(''project'', JStr ''proj'')]) accountA 0 okResponse (fresh ()))) =
      [Sleep 500,
       Fetch ''https://daily/v1internal:streamGenerateContent?alt=sse''
         (JObj [(''Authorization'', JStr ''tok'')]) (JObj [(''project'', JStr ''proj'')]),
       Sleep 1000,
       Fetch ''https://daily/v1internal:streamGenerateContent?alt=sse''
         (JObj [(''Authorization'', JStr ''tok'')]) (JObj [(''project'', JStr ''proj'')]),
       Sleep 2000,
       Fetch ''https://daily/v1internal:streamGenerateContent?alt=sse''
         (JObj [(''Authorization'', JStr ''tok'')]) (JObj [(''project'', JStr ''proj'')])] @
      map Yield (fallbackEvents ''model-a'' (''msg_'' @ hex))) \<and>
   (\<exists>rest. trace (snd (emptyRetryLoop gatewayEnv3 (Suc 0) ''https://daily/v1internal:streamGenerateContent?alt=sse'' ''tok'' ''model-a''
        (JObj [(''project'', JStr ''proj'')]) accountA 0 okResponse (fresh 1))) =
      [Sleep 500,
       Fetch ''https://daily/v1internal:streamGenerateContent?alt=sse''
         (JObj [(''Authorization'', JStr ''tok'')]) (JObj [(''project'', JStr ''proj'')]),
       Sleep 1000,
       Fetch ''https://daily/v1internal:streamGenerateContent?alt=sse''
         (JObj [(''Authorization'', JStr ''tok'')]) (JObj [(''project'', JStr ''proj'')]),
       Sleep 500,
       Fetch ''https://daily/v1internal:streamGenerateContent?alt=sse''
         (JObj [(''Authorization'', JStr ''tok'')]) (JObj [(''project'', JStr ''proj'')])] @ rest)"
proof -
  have h: "(0 :: int) \<le> 0"
    "(0 :: int) + 1 < MAX_EMPTY_RESPONSE_RETRIES emptyEnv3"
    "streamSSEResponse emptyEnv3 okResponse ''model-a'' (world (fresh ())) =
       (([], Some (JsError ''EmptyResponseError'' ''No content parts received'')), ())"
    "isEmptyResponseError emptyEnv3 (JsError ''EmptyResponseError'' ''No content parts received'')"
    "fetch emptyEnv3 ''https://daily/v1internal:streamGenerateContent?alt=sse''
       (buildHeaders emptyEnv3 ''tok'' ''model-a'' ''text/event-stream'')
       (JObj [(''project'', JStr ''proj'')]) (sleep emptyEnv3 (500 * 2 ^ nat 0) ()) =
       (Inr okResponse, ())"
    "ok okResponse"
    "MAX_EMPTY_RESPONSE_RETRIES emptyEnv3 = int 3"
    "emptyAttempts emptyEnv3 ''https://daily/v1internal:streamGenerateContent?alt=sse''
       (buildHeaders emptyEnv3 ''tok'' ''model-a'' ''text/event-stream'')
       (JObj [(''project'', JStr ''proj'')]) ''model-a'' 3 0 okResponse (world (fresh ()))"
    by (simp_all add: emptyEnv3_def emptyEnv_def demoEnv_def okResponse_def ok_def fresh_def
        eval_nat_numeral)
  have h': "(0 :: int) < MAX_EMPTY_RESPONSE_RETRIES gatewayEnv3"
    "streamSSEResponse gatewayEnv3 okResponse ''model-a'' (world (fresh 1)) =
       (([], Some (JsError ''EmptyResponseError'' ''No content parts received'')), 1)"
    "isEmptyResponseError gatewayEnv3 (JsError ''EmptyResponseError'' ''No content parts received'')"
    "fetch gatewayEnv3 ''https://daily/v1internal:streamGenerateContent?alt=sse''
       (buildHeaders gatewayEnv3 ''tok'' ''model-a'' ''text/event-stream'')
       (JObj [(''project'', JStr ''proj'')]) (sleep gatewayEnv3 (500 * 2 ^ nat 0) 1) =
       (Inr \<lparr>status = 503, body = ''unavailable'', jsonBody = Inr JNull\<rparr>, 2)"
    "500 \<le> status \<lparr>status = 503, body = ''unavailable'', jsonBody = Inr JNull\<rparr>"
    "fetch gatewayEnv3 ''https://daily/v1internal:streamGenerateContent?alt=sse''
       (buildHeaders gatewayEnv3 ''tok'' ''model-a'' ''text/event-stream'')
       (JObj [(''project'', JStr ''proj'')]) (sleep gatewayEnv3 1000 2) =
       (Inr okResponse, 3)"
    "streamSSEResponse gatewayEnv3 okResponse ''model-a'' 3 =
       (([], Some (JsError ''EmptyResponseError'' ''No content parts received'')), 3)"
    by (simp_all add: gatewayEnv3_def gatewayEnv_def demoEnv_def okResponse_def ok_def fresh_def)
  have g: "model demoRequest = ''model-a''" "trace (fresh ()) = []" "world (fresh ()) = ()"
    "buildHeaders emptyEnv3 ''tok'' ''model-a'' ''text/event-stream'' =
       JObj [(''Authorization'', JStr ''tok'')]"
    "fetch emptyEnv3 ''https://daily/v1internal:streamGenerateContent?alt=sse''
       (JObj [(''Authorization'', JStr ''tok'')]) (JObj [(''project'', JStr ''proj'')]) () = (Inr okResponse, ())"
    "streamSSEResponse emptyEnv3 okResponse ''model-a'' () = (([], Some (JsError ''EmptyResponseError'' ''No content parts received'')), ())"
    "(0 :: int) < MAX_EMPTY_RESPONSE_RETRIES emptyEnv3"
    by (simp_all add: emptyEnv3_def emptyEnv_def demoEnv_def demoRequest_def fresh_def)
  have g': "trace (fresh (1 :: nat)) = []" "world (fresh (1 :: nat)) = 1"
    "buildHeaders gatewayEnv3 ''tok'' ''model-a'' ''text/event-stream'' =
       JObj [(''Authorization'', JStr ''tok'')]"
    "ok okResponse"
    by (simp_all add: gatewayEnv3_def gatewayEnv_def demoEnv_def fresh_def okResponse_def ok_def)
  note T = empty_retry_backoff [where k = 0 and env = emptyEnv3 and resp = okResponse
      and m = "''model-a''" and s = "fresh ()" and evs = "[]"
      and e = "(JsError ''EmptyResponseError'' ''No content parts received'')" and ?w1.0 = "()"
      and url = "''https://daily/v1internal:streamGenerateContent?alt=sse''"
      and token = "''tok''" and payload = "(JObj [(''project'', JStr ''proj'')])"
      and resp' = okResponse and ?w2.0 = "()" and evs' = "[]"
      and e' = "(JsError ''EmptyResponseError'' ''No content parts received'')" and ?w3.0 = "()"
      and fuel = 0 and acct = accountA and endpoint = "''https://daily''" and req = demoRequest
      and ?w0.0 = "()" and lastError = NoError and R = 3]
  note T' = empty_retry_backoff [where k = 0 and env = gatewayEnv3 and resp = okResponse
      and m = "''model-a''" and s = "fresh 1" and evs = "[]"
      and e = "(JsError ''EmptyResponseError'' ''No content parts received'')" and ?w1.0 = 1
      and url = "''https://daily/v1internal:streamGenerateContent?alt=sse''"
      and token = "''tok''" and payload = "(JObj [(''project'', JStr ''proj'')])"
      and ?r1.0 = "\<lparr>status = 503, body = ''unavailable'', jsonBody = Inr JNull\<rparr>" and ?w2.0 = 2 and ?r2.0 = okResponse and ?w3.0 = 3 and evs' = "[]"
      and e' = "(JsError ''EmptyResponseError'' ''No content parts received'')" and ?w4.0 = 3
      and fuel = 0 and acct = accountA]
  have c1: "\<exists>rest. trace (snd (emptyRetryLoop emptyEnv3 0 ''https://daily/v1internal:streamGenerateContent?alt=sse'' ''tok'' ''model-a''
        (JObj [(''project'', JStr ''proj'')]) accountA 0 okResponse (fresh ()))) =
      [Sleep 500,
       Fetch ''https://daily/v1internal:streamGenerateContent?alt=sse''
         (JObj [(''Authorization'', JStr ''tok'')]) (JObj [(''project'', JStr ''proj'')])] @ rest"
    using T [THEN conjunct1, THEN mp] h g by simp
  have c2: "\<exists>rest. trace (snd (emptyRetryLoop emptyEnv3 0 ''https://daily/v1internal:streamGenerateContent?alt=sse'' ''tok'' ''model-a''
        (JObj [(''project'', JStr ''proj'')]) accountA 0 okResponse (fresh ()))) =
      [Sleep 500,
       Fetch ''https://daily/v1internal:streamGenerateContent?alt=sse''
         (JObj [(''Authorization'', JStr ''tok'')]) (JObj [(''project'', JStr ''proj'')]),
       Sleep 1000,
       Fetch ''https://daily/v1internal:streamGenerateContent?alt=sse''
         (JObj [(''Authorization'', JStr ''tok'')]) (JObj [(''project'', JStr ''proj'')])] @ rest"
    using T [THEN conjunct2, THEN conjunct1, THEN mp] h g by simp
  have c3: "\<exists>rest. trace (snd (snd (tryEndpoint emptyEnv3 0 demoRequest accountA ''tok''
        (JObj [(''project'', JStr ''proj'')]) NoError ''https://daily'' (fresh ())))) =
      [Fetch ''https://daily/v1internal:streamGenerateContent?alt=sse''
         (JObj [(''Authorization'', JStr ''tok'')]) (JObj [(''project'', JStr ''proj'')]),
       Sleep 500,
       Fetch ''https://daily/v1internal:streamGenerateContent?alt=sse''
         (JObj [(''Authorization'', JStr ''tok'')]) (JObj [(''project'', JStr ''proj'')])] @ rest"
    using T [THEN conjunct2, THEN conjunct2, THEN conjunct1, THEN mp] h g by simp
  have c4: "\<exists>hex. trace (snd (emptyRetryLoop emptyEnv3 0 ''https://daily/v1internal:streamGenerateContent?alt=sse'' ''tok'' ''model-a''
        (JObj [(''project'', JStr ''proj'')]) accountA 0 okResponse (fresh ()))) =
      [Sleep 500,
       Fetch ''https://daily/v1internal:streamGenerateContent?alt=sse''
         (JObj [(''Authorization'', JStr ''tok'')]) (JObj [(''project'', JStr ''proj'')]),
       Sleep 1000,
       Fetch ''https://daily/v1internal:streamGenerateContent?alt=sse''
         (JObj [(''Authorization'', JStr ''tok'')]) (JObj [(''project'', JStr ''proj'')]),
       Sleep 2000,
       Fetch ''https://daily/v1internal:streamGenerateContent?alt=sse''
         (JObj [(''Authorization'', JStr ''tok'')]) (JObj [(''project'', JStr ''proj'')])] @
      map Yield (fallbackEvents ''model-a'' (''msg_'' @ hex))"
    using T [THEN conjunct2, THEN conjunct2, THEN conjunct2, THEN conjunct1, THEN mp] h g
    by (simp add: eval_nat_numeral)
  have c5: "\<exists>rest. trace (snd (emptyRetryLoop gatewayEnv3 (Suc 0) ''https://daily/v1internal:streamGenerateContent?alt=sse'' ''tok'' ''model-a''
        (JObj [(''project'', JStr ''proj'')]) accountA 0 okResponse (fresh 1))) =
      [Sleep 500,
       Fetch ''https://daily/v1internal:streamGenerateContent?alt=sse''
         (JObj [(''Authorization'', JStr ''tok'')]) (JObj [(''project'', JStr ''proj'')]),
       Sleep 1000,
       Fetch ''https://daily/v1internal:streamGenerateContent?alt=sse''
         (JObj [(''Authorization'', JStr ''tok'')]) (JObj [(''project'', JStr ''proj'')]),
       Sleep 500,
       Fetch ''https://daily/v1internal:streamGenerateContent?alt=sse''
         (JObj [(''Authorization'', JStr ''tok'')]) (JObj [(''project'', JStr ''proj'')])] @ rest"
    using T' [THEN conjunct2, THEN conjunct2, THEN conjunct2, THEN conjunct2, THEN mp] h' g'
    by simp
  from h h' c1 c2 c3 c4 c5 show ?thesis by blast
qed

text \<open>
  C6 as stated fails: with three retries allowed, the first re-issued request answered 503
  and the request sent again after the pause of one second answered 200 with an empty
  stream, the second backoff is 500 ms again, not 1000 ms.
\<close>

theorem empty_retry_backoff_counterexample:
  "MAX_EMPTY_RESPONSE_RETRIES gatewayEnv3 = 3 \<and>
   sendMessageStream gatewayEnv3 1 demoRequest False (fresh 0) =
     (Throw (Error ''Empty response retry failed: 502 - unavailable''),
      \<lparr>world = 5,
       trace =
         [PickStickyAccount ''model-a'', GetTokenForAccount accountA,
          GetProjectForAccount accountA ''tok'',
          Fetch ''https://daily/v1internal:streamGenerateContent?alt=sse''
         (JObj [(''Authorization'', JStr ''tok'')]) (JObj [(''project'', JStr ''proj'')]),
          Sleep 500,
          Fetch ''https://daily/v1internal:streamGenerateContent?alt=sse''
         (JObj [(''Authorization'', JStr ''tok'')]) (JObj [(''project'', JStr ''proj'')]),
          Sleep 1000,
          Fetch ''https://daily/v1internal:streamGenerateContent?alt=sse''
         (JObj [(''Authorization'', JStr ''tok'')]) (JObj [(''project'', JStr ''proj'')]),
          Sleep 500,
          Fetch ''https://daily/v1internal:streamGenerateContent?alt=sse''
         (JObj [(''Authorization'', JStr ''tok'')]) (JObj [(''project'', JStr ''proj'')]),
          Sleep 1000,
          Fetch ''https://daily/v1internal:streamGenerateContent?alt=sse''
         (JObj [(''Authorization'', JStr ''tok'')]) (JObj [(''project'', JStr ''proj'')])]\<rparr>)"
proof -
  have "MAX_EMPTY_RESPONSE_RETRIES gatewayEnv3 = 3"
    by (simp add: gatewayEnv3_def)
  with gateway3_run show ?thesis by blast
qed

text \<open>
  C3 as stated fails: with \<open>R = 1\<close>, the first request answered 200, the request sent
  again answered 503 and then 200, and that one sent again answered 503 and then 502, two
  consecutive streaming attempts end in an \<^verbatim>\<open>EmptyResponseError\<close> and the caller gets the
  error \<^verbatim>\<open>Empty response retry failed: 502\<close>; nothing is yielded.
\<close>

theorem empty_responses_counterexample:
  "MAX_EMPTY_RESPONSE_RETRIES gatewayEnv = 1 \<and>
   streamSSEResponse gatewayEnv okResponse ''model-a'' 1 = (([], Some (JsError ''EmptyResponseError'' ''No content parts received'')), 1) \<and>
   streamSSEResponse gatewayEnv okResponse ''model-a'' 3 = (([], Some (JsError ''EmptyResponseError'' ''No content parts received'')), 3) \<and>
   isEmptyResponseError gatewayEnv (JsError ''EmptyResponseError'' ''No content parts received'') \<and>
   fst (sendMessageStream gatewayEnv 1 demoRequest False (fresh 0)) =
     Throw (Error ''Empty response retry failed: 502 - unavailable'') \<and>
   yielded (trace (snd (sendMessageStream gatewayEnv 1 demoRequest False (fresh 0)))) = []"
proof -
  have "MAX_EMPTY_RESPONSE_RETRIES gatewayEnv = 1"
    "streamSSEResponse gatewayEnv okResponse ''model-a'' 1 = (([], Some (JsError ''EmptyResponseError'' ''No content parts received'')), 1)"
    "streamSSEResponse gatewayEnv okResponse ''model-a'' 3 = (([], Some (JsError ''EmptyResponseError'' ''No content parts received'')), 3)"
    "isEmptyResponseError gatewayEnv (JsError ''EmptyResponseError'' ''No content parts received'')"
    by (simp_all add: gatewayEnv_def demoEnv_def)
  moreover have
    "fst (sendMessageStream gatewayEnv 1 demoRequest False (fresh 0)) =
       Throw (Error ''Empty response retry failed: 502 - unavailable'')"
    "yielded (trace (snd (sendMessageStream gatewayEnv 1 demoRequest False (fresh 0)))) = []"
    unfolding gateway_run by simp_all
  ultimately show ?thesis by blast
qed

text \<open>
  C7. The code does not do what the claim says for a 5xx answer to a request of the
  empty-response loop. The first request is answered 200 with an empty stream, the request
  sent again 503 and then 502: the error \<^verbatim>\<open>Empty response retry failed: 502 - ...\<close> of line
  229 leaves the endpoint loop (lines 243 and 255), matches none of the texts of line 271
  and is thrown to the caller by line 284, on the first of three attempts and with no call
  of \<^verbatim>\<open>pickNext\<close>. The same status from the first request of an endpoint, as
  \<^verbatim>\<open>API error 502: ...\<close>, is a soft failure.
\<close>

theorem retry_5xx_error_is_rethrown:
  "maxAttemptsOf gatewayEnv (fresh 0) = 3 \<and>
   sendMessageStream gatewayEnv 1 demoRequest False (fresh 0) =
     (Throw (Error ''Empty response retry failed: 502 - unavailable''),
      \<lparr>world = 5,
       trace =
         [PickStickyAccount ''model-a'', GetTokenForAccount accountA,
          GetProjectForAccount accountA ''tok'',
          Fetch ''https://daily/v1internal:streamGenerateContent?alt=sse''
            (JObj [(''Authorization'', JStr ''tok'')]) (JObj [(''project'', JStr ''proj'')]),
          Sleep 500,
          Fetch ''https://daily/v1internal:streamGenerateContent?alt=sse''
            (JObj [(''Authorization'', JStr ''tok'')]) (JObj [(''project'', JStr ''proj'')]),
          Sleep 1000,
          Fetch ''https://daily/v1internal:streamGenerateContent?alt=sse''
            (JObj [(''Authorization'', JStr ''tok'')]) (JObj [(''project'', JStr ''proj'')]),
          Sleep 500,
          Fetch ''https://daily/v1internal:streamGenerateContent?alt=sse''
            (JObj [(''Authorization'', JStr ''tok'')]) (JObj [(''project'', JStr ''proj'')]),
          Sleep 1000,
          Fetch ''https://daily/v1internal:streamGenerateContent?alt=sse''
            (JObj [(''Authorization'', JStr ''tok'')]) (JObj [(''project'', JStr ''proj'')])]\<rparr>) \<and>
   handleAttemptError gatewayEnv ''model-a''
     (Error ''Empty response retry failed: 502 - unavailable'') (fresh 5) =
     (Throw (Error ''Empty response retry failed: 502 - unavailable''), fresh 5) \<and>
   handleAttemptError gatewayEnv ''model-a'' (Error ''API error 502: unavailable'') (fresh 5) =
     (Next, \<lparr>world = 5, trace = [PickNext ''model-a'']\<rparr>)"
proof -
  have "maxAttemptsOf gatewayEnv (fresh 0) = 3"
    by (simp add: maxAttemptsOf_def gatewayEnv_def demoEnv_def fresh_def)
  moreover have "handleAttemptError gatewayEnv ''model-a''
     (Error ''Empty response retry failed: 502 - unavailable'') (fresh 5) =
     (Throw (Error ''Empty response retry failed: 502 - unavailable''), fresh 5)"
    by (simp add: handleAttemptError_def gatewayEnv_def demoEnv_def)
  moreover have "handleAttemptError gatewayEnv ''model-a''
     (Error ''API error 502: unavailable'') (fresh 5) =
     (Next, \<lparr>world = 5, trace = [PickNext ''model-a'']\<rparr>)"
    by (simp add: handleAttemptError_def gatewayEnv_def demoEnv_def do_pickNext_def call_def
        fresh_def)
  ultimately show ?thesis
    using gateway_run by blast
qed

text \<open>
  C5. The code does not do what the claim says when the wait is so long that
  \<^verbatim>\<open>now + wait\<close> is no date: with every account rate-limited for 1e16 ms, far beyond
  \<^verbatim>\<open>MAX_WAIT_BEFORE_ERROR_MS\<close>, line 61 throws the \<^verbatim>\<open>RangeError\<close> of \<^verbatim>\<open>toISOString\<close>
  before the test of line 64 is reached. The caller gets that error, which carries neither
  the wait nor a reset time, in place of \<^verbatim>\<open>RESOURCE_EXHAUSTED\<close>.
\<close>

theorem rate_limit_ceiling_invalid_time:
  "pickStickyAccount farFutureEnv ''model-a'' () = ((None, 0), ()) \<and>
   isAllRateLimited farFutureEnv ''model-a'' () \<and>
   getMinWaitTimeMs farFutureEnv ''model-a'' () = 10000000000000000 \<and>
   MAX_WAIT_BEFORE_ERROR_MS farFutureEnv = 120000 \<and>
   now farFutureEnv () = 1000 \<and>
   newDateToISOString farFutureEnv (1000 + 10000000000000000) =
     Inl (JsError ''RangeError'' ''Invalid time value'') \<and>
   sendMessageStream farFutureEnv 0 demoRequest True (fresh ()) =
     (Throw (JsError ''RangeError'' ''Invalid time value''),
      \<lparr>world = (), trace = [PickStickyAccount ''model-a'']\<rparr>)"
proof -
  have "pickStickyAccount farFutureEnv ''model-a'' () = ((None, 0), ())"
    "isAllRateLimited farFutureEnv ''model-a'' ()"
    "getMinWaitTimeMs farFutureEnv ''model-a'' () = 10000000000000000"
    "MAX_WAIT_BEFORE_ERROR_MS farFutureEnv = 120000"
    "now farFutureEnv () = 1000"
    "newDateToISOString farFutureEnv (1000 + 10000000000000000) =
       Inl (JsError ''RangeError'' ''Invalid time value'')"
    by (simp_all add: farFutureEnv_def exhaustedEnv_def demoEnv_def newDateToISOString_def)
  with far_future_run show ?thesis by blast
qed

end
